theory Spec2Isabelle
  imports Complex_Main "HOL-Library.Sublist"
begin

section \<open>Python values, dictionaries and errors\<close>

text \<open>
  The values that travel between the service, the graph store and the cache: query
  parameters, node and relationship properties, cached payloads. A Python \<open>float\<close> is
  kept as a real number. \<open>PJsonStr v\<close> is the \<open>str\<close> that \<open>json.dumps(v)\<close> returns,
  kept symbolically: no claim depends on the characters of a JSON text.
\<close>

datatype pval =
    PNone
  | PBool bool
  | PInt int
  | PFloat real
  | PStr string
  | PJsonStr pval
  | PList "pval list"
  | PDict "(string \<times> pval) list"

type_synonym pdict = "(string \<times> pval) list"

text \<open>Python truthiness, as \<open>if cached:\<close> and \<open>if not result:\<close> use it.\<close>

fun truthy :: "pval \<Rightarrow> bool" where
  "truthy PNone = False"
| "truthy (PBool b) = b"
| "truthy (PInt i) = (i \<noteq> 0)"
| "truthy (PFloat r) = (r \<noteq> 0)"
| "truthy (PStr s) = (s \<noteq> [])"
| "truthy (PJsonStr v) = True"
| "truthy (PList xs) = (xs \<noteq> [])"
| "truthy (PDict d) = (d \<noteq> [])"

text \<open>
  A \<open>dict\<close> keeps insertion order: \<open>d[k] = v\<close> overwrites in place when the key is
  there and appends otherwise.
\<close>

fun dict_set :: "('k \<times> 'v) list \<Rightarrow> 'k \<Rightarrow> 'v \<Rightarrow> ('k \<times> 'v) list" where
  "dict_set [] k v = [(k, v)]"
| "dict_set ((k', v') # d) k v =
     (if k' = k then (k', v) # d else (k', v') # dict_set d k v)"

definition dict_get :: "('k \<times> 'v) list \<Rightarrow> 'k \<Rightarrow> 'v \<Rightarrow> 'v" where
  "dict_get d k dflt = (case map_of d k of None \<Rightarrow> dflt | Some v \<Rightarrow> v)"

datatype error =
    ConnectionError
  | RedisError
  | StoreError
  | IndexError
  | KeyError
  | TypeError
  | ZeroDivisionError

text \<open>\<open>str(i)\<close> and \<open>"%d" % i\<close> for a Python \<open>int\<close>.\<close>

definition digit_char :: "nat \<Rightarrow> char" where
  "digit_char d = ''0123456789'' ! d"

fun digits_of :: "nat \<Rightarrow> string" where
  "digits_of n =
     (if n < 10 then [digit_char n] else digits_of (n div 10) @ [digit_char (n mod 10)])"

definition str_int :: "int \<Rightarrow> string" where
  "str_int i = (if i < 0 then CHR ''-'' # digits_of (nat (- i)) else digits_of (nat i))"

text \<open>
  A stored text as the cache server reads it for \<open>INCRBY\<close>: \<open>0\<close>, or an optional minus
  sign and digits that do not begin with \<open>0\<close>; anything else, a leading zero and \<open>-0\<close>
  included, is not an integer.
\<close>

fun position_in :: "'a \<Rightarrow> 'a list \<Rightarrow> nat \<Rightarrow> nat option" where
  "position_in c [] i = None"
| "position_in c (d # ds) i = (if c = d then Some i else position_in c ds (Suc i))"

definition digit_val :: "char \<Rightarrow> nat option" where
  "digit_val c = position_in c ''0123456789'' 0"

fun parse_nat :: "nat \<Rightarrow> string \<Rightarrow> nat option" where
  "parse_nat acc [] = Some acc"
| "parse_nat acc (c # cs) =
     (case digit_val c of None \<Rightarrow> None | Some d \<Rightarrow> parse_nat (10 * acc + d) cs)"

definition nonzero_digit :: "char \<Rightarrow> bool" where
  "nonzero_digit c = (case digit_val c of None \<Rightarrow> False | Some d \<Rightarrow> 0 < d)"

definition parse_int :: "string \<Rightarrow> int option" where
  "parse_int s =
     (if s = ''0'' then Some 0
      else
        (case s of
           [] \<Rightarrow> None
         | c # cs \<Rightarrow>
             if c = CHR ''-'' then
               (case cs of
                  [] \<Rightarrow> None
                | d # ds \<Rightarrow>
                    if nonzero_digit d then map_option (\<lambda>n. - int n) (parse_nat 0 cs) else None)
             else if nonzero_digit c then map_option int (parse_nat 0 s)
             else None))"

section \<open>The cache layer (cache.py)\<close>

text \<open>
  \<open>RedisCache\<close> together with the server it talks to. \<open>redis_client\<close> is False while
  \<open>self.redis_client\<close> is \<open>None\<close>. \<open>entries\<close> is the keyspace: key, stored text, TTL in
  seconds (\<open>-1\<close>: no expiry). \<open>cache_faults\<close> scripts the server: the head tells whether
  the next command sent to it raises (True), and an empty script means that every
  further command succeeds. \<open>cache_log\<close> collects the logger's records, level and
  message (without the exception text).
\<close>

record RedisCache =
  redis_client :: bool
  entries :: "(string \<times> pval \<times> int) list"
  cache_faults :: "bool list"
  cache_log :: "(string \<times> string) list"

definition next_fault :: "RedisCache \<Rightarrow> bool \<times> RedisCache" where
  "next_fault c =
     (case cache_faults c of [] \<Rightarrow> (False, c) | f # fs \<Rightarrow> (f, c\<lparr>cache_faults := fs\<rparr>))"

definition log_msg :: "string \<Rightarrow> string \<Rightarrow> RedisCache \<Rightarrow> RedisCache" where
  "log_msg level msg c = c\<lparr>cache_log := cache_log c @ [(level, msg)]\<rparr>"

subsection \<open>Commands of the cache server\<close>

text \<open>
  What the client sends as the value of a key: \<open>str\<close> as it is, \<open>int\<close> as its decimal
  text, \<open>float\<close> as its text, which is its JSON text; \<open>None\<close>, \<open>bool\<close>, \<open>dict\<close> and
  \<open>list\<close> are refused by the client with an exception. The JSON text of an \<open>int\<close> is its
  decimal text.
\<close>

fun encode_value :: "pval \<Rightarrow> pval option" where
  "encode_value (PStr s) = Some (PStr s)"
| "encode_value (PJsonStr (PInt i)) = Some (PStr (str_int i))"
| "encode_value (PJsonStr v) = Some (PJsonStr v)"
| "encode_value (PInt i) = Some (PStr (str_int i))"
| "encode_value (PFloat r) = Some (PJsonStr (PFloat r))"
| "encode_value v = None"

text \<open>An expiry that the server accepts: a positive 64-bit integer.\<close>

definition valid_expire :: "int \<Rightarrow> bool" where
  "valid_expire expire = (0 < expire \<and> expire < 2 ^ 63)"

definition redis_ping :: "RedisCache \<Rightarrow> (error + unit) \<times> RedisCache" where
  "redis_ping c =
     (case next_fault c of
        (True, c1) \<Rightarrow> (Inl ConnectionError, c1)
      | (False, c1) \<Rightarrow> (Inr (), c1))"

definition redis_get :: "string \<Rightarrow> RedisCache \<Rightarrow> (error + pval) \<times> RedisCache" where
  "redis_get key c =
     (case next_fault c of
        (True, c1) \<Rightarrow> (Inl RedisError, c1)
      | (False, c1) \<Rightarrow>
          (Inr (case map_of (entries c1) key of None \<Rightarrow> PNone | Some (v, t) \<Rightarrow> v), c1))"

definition redis_setex :: "string \<Rightarrow> int \<Rightarrow> pval \<Rightarrow> RedisCache \<Rightarrow> (error + unit) \<times> RedisCache" where
  "redis_setex key expire v c =
     (case encode_value v of
        None \<Rightarrow> (Inl RedisError, c)
      | Some txt \<Rightarrow>
          (case next_fault c of
             (True, c1) \<Rightarrow> (Inl RedisError, c1)
           | (False, c1) \<Rightarrow>
               if \<not> valid_expire expire then (Inl RedisError, c1)
               else (Inr (), c1\<lparr>entries := dict_set (entries c1) key (txt, expire)\<rparr>)))"

definition redis_delete :: "string list \<Rightarrow> RedisCache \<Rightarrow> (error + unit) \<times> RedisCache" where
  "redis_delete keys c =
     (case next_fault c of
        (True, c1) \<Rightarrow> (Inl RedisError, c1)
      | (False, c1) \<Rightarrow>
          (Inr (), c1\<lparr>entries := filter (\<lambda>e. fst e \<notin> set keys) (entries c1)\<rparr>))"

definition redis_exists :: "string \<Rightarrow> RedisCache \<Rightarrow> (error + int) \<times> RedisCache" where
  "redis_exists key c =
     (case next_fault c of
        (True, c1) \<Rightarrow> (Inl RedisError, c1)
      | (False, c1) \<Rightarrow>
          (Inr (case map_of (entries c1) key of None \<Rightarrow> 0 | Some e \<Rightarrow> 1), c1))"

definition redis_mget :: "string list \<Rightarrow> RedisCache \<Rightarrow> (error + pval list) \<times> RedisCache" where
  "redis_mget keys c =
     (case next_fault c of
        (True, c1) \<Rightarrow> (Inl RedisError, c1)
      | (False, c1) \<Rightarrow>
          (Inr (map (\<lambda>k. case map_of (entries c1) k of None \<Rightarrow> PNone | Some (v, t) \<Rightarrow> v) keys),
           c1))"

text \<open>
  The pipeline of \<open>setex\<close> commands is sent by one \<open>execute()\<close>: one round trip, so one
  entry of the fault script. An empty pipeline sends nothing and cannot fail. A value
  the client cannot encode, or an expiry the server refuses, makes \<open>execute()\<close> raise;
  the model then leaves the keyspace as it was.
\<close>

fun setex_all :: "(string \<times> pval) list \<Rightarrow> int \<Rightarrow> (string \<times> pval \<times> int) list \<Rightarrow>
    (string \<times> pval \<times> int) list option" where
  "setex_all [] expire es = Some es"
| "setex_all ((k, v) # kvs) expire es =
     (case encode_value v of
        None \<Rightarrow> None
      | Some txt \<Rightarrow> setex_all kvs expire (dict_set es k (txt, expire)))"

definition redis_pipeline_setex ::
  "(string \<times> pval) list \<Rightarrow> int \<Rightarrow> RedisCache \<Rightarrow> (error + unit) \<times> RedisCache" where
  "redis_pipeline_setex kvs expire c =
     (if kvs = [] then (Inr (), c)
      else
        (case setex_all kvs expire (entries c) of
           None \<Rightarrow> (Inl RedisError, c)
         | Some es \<Rightarrow>
             (case next_fault c of
                (True, c1) \<Rightarrow> (Inl RedisError, c1)
              | (False, c1) \<Rightarrow>
                  if \<not> valid_expire expire then (Inl RedisError, c1)
                  else (Inr (), c1\<lparr>entries := es\<rparr>))))"

text \<open>\<open>INCRBY\<close>: a missing key counts as 0; a value that is not a 64-bit integer is an error.\<close>

definition int64 :: "int \<Rightarrow> bool" where
  "int64 i = (- (2 ^ 63) \<le> i \<and> i < 2 ^ 63)"

definition redis_incrby :: "string \<Rightarrow> int \<Rightarrow> RedisCache \<Rightarrow> (error + int) \<times> RedisCache" where
  "redis_incrby key amount c =
     (case next_fault c of
        (True, c1) \<Rightarrow> (Inl RedisError, c1)
      | (False, c1) \<Rightarrow>
          (let old = (case map_of (entries c1) key of
                        None \<Rightarrow> Some (0, - 1)
                      | Some (PStr s, t) \<Rightarrow> map_option (\<lambda>i. (i, t)) (parse_int s)
                      | Some (v, t) \<Rightarrow> None)
           in case old of
                None \<Rightarrow> (Inl RedisError, c1)
              | Some (i, t) \<Rightarrow>
                  if \<not> int64 i \<or> \<not> int64 amount \<or> \<not> int64 (i + amount)
                  then (Inl RedisError, c1)
                  else (Inr (i + amount),
                        c1\<lparr>entries := dict_set (entries c1) key (PStr (str_int (i + amount)), t)\<rparr>)))"

definition redis_ttl :: "string \<Rightarrow> RedisCache \<Rightarrow> (error + int) \<times> RedisCache" where
  "redis_ttl key c =
     (case next_fault c of
        (True, c1) \<Rightarrow> (Inl RedisError, c1)
      | (False, c1) \<Rightarrow>
          (Inr (case map_of (entries c1) key of None \<Rightarrow> - 2 | Some (v, t) \<Rightarrow> t), c1))"

text \<open>
  \<open>SCAN cursor MATCH pattern COUNT 100\<close>: the iteration visits the keyspace in pages of
  100 keys and returns, from each page, the keys that match. The pages are those of the
  keyspace at the start of the loop (the keys a full iteration is guaranteed to
  return); the last page carries cursor 0. \<open>matches\<close> is the glob matcher of the server,
  which the model takes as it is given.
\<close>

fun chunks :: "nat \<Rightarrow> 'a list \<Rightarrow> 'a list list" where
  "chunks n [] = []"
| "chunks n (x # xs) = (x # take (n - 1) xs) # chunks n (drop (n - 1) xs)"

definition scan_pages ::
  "(string \<Rightarrow> string \<Rightarrow> bool) \<Rightarrow> string \<Rightarrow> RedisCache \<Rightarrow> string list list" where
  "scan_pages matches pattern c =
     (case chunks 100 (map fst (entries c)) of
        [] \<Rightarrow> [[]]
      | pages \<Rightarrow> map (filter (matches pattern)) pages)"

definition redis_scan :: "string list \<Rightarrow> RedisCache \<Rightarrow> (error + string list) \<times> RedisCache" where
  "redis_scan page c =
     (case next_fault c of
        (True, c1) \<Rightarrow> (Inl RedisError, c1)
      | (False, c1) \<Rightarrow> (Inr page, c1))"

subsection \<open>The methods of \<open>RedisCache\<close>\<close>

text \<open>
  \<open>connect\<close>: the client object is created and assigned, then the server is pinged; a
  failure is logged at error level and raised again.
\<close>

definition connect :: "RedisCache \<Rightarrow> (error + unit) \<times> RedisCache" where
  "connect c =
     (case redis_ping (c\<lparr>redis_client := True\<rparr>) of
        (Inl e, c1) \<Rightarrow> (Inl e, log_msg ''error'' ''Failed to connect to Redis'' c1)
      | (Inr u, c1) \<Rightarrow> (Inr (), log_msg ''info'' ''Connected to Redis'' c1))"

text \<open>\<open>if not self.redis_client: await self.connect()\<close>, the first statement of every method.\<close>

definition ensure_client :: "RedisCache \<Rightarrow> (error + unit) \<times> RedisCache" where
  "ensure_client c = (if \<not> redis_client c then connect c else (Inr (), c))"

definition cache_get :: "string \<Rightarrow> RedisCache \<Rightarrow> (error + pval) \<times> RedisCache" where
  "cache_get key c =
     (case ensure_client c of
        (Inl e, c1) \<Rightarrow> (Inl e, c1)
      | (Inr u, c1) \<Rightarrow>
          (case redis_get key c1 of
             (Inr v, c2) \<Rightarrow> (Inr v, c2)
           | (Inl e, c2) \<Rightarrow> (Inr PNone, log_msg ''warning'' ''Cache get error'' c2)))"

definition cache_set :: "string \<Rightarrow> pval \<Rightarrow> int \<Rightarrow> RedisCache \<Rightarrow> (error + bool) \<times> RedisCache" where
  "cache_set key v expire c =
     (case ensure_client c of
        (Inl e, c1) \<Rightarrow> (Inl e, c1)
      | (Inr u, c1) \<Rightarrow>
          (let v' = (case v of PDict d \<Rightarrow> PJsonStr v | PList xs \<Rightarrow> PJsonStr v | _ \<Rightarrow> v)
           in case redis_setex key expire v' c1 of
                (Inr u', c2) \<Rightarrow> (Inr True, c2)
              | (Inl e, c2) \<Rightarrow> (Inr False, log_msg ''warning'' ''Cache set error'' c2)))"

definition cache_delete :: "string \<Rightarrow> RedisCache \<Rightarrow> (error + unit) \<times> RedisCache" where
  "cache_delete key c =
     (case ensure_client c of
        (Inl e, c1) \<Rightarrow> (Inl e, c1)
      | (Inr u, c1) \<Rightarrow>
          (case redis_delete [key] c1 of
             (Inr u', c2) \<Rightarrow> (Inr (), c2)
           | (Inl e, c2) \<Rightarrow> (Inr (), log_msg ''warning'' ''Cache delete error'' c2)))"

text \<open>
  The loop of \<open>delete_pattern\<close>: one \<open>scan\<close> per page, a \<open>delete\<close> when the page has
  keys, until the cursor is 0. An exception of either command leaves the loop.
\<close>

fun delete_pattern_loop :: "string list list \<Rightarrow> RedisCache \<Rightarrow> (error + unit) \<times> RedisCache" where
  "delete_pattern_loop [] c = (Inr (), c)"
| "delete_pattern_loop (page # pages) c =
     (case redis_scan page c of
        (Inl e, c1) \<Rightarrow> (Inl e, c1)
      | (Inr keys, c1) \<Rightarrow>
          (case (if keys \<noteq> [] then redis_delete keys c1 else (Inr (), c1)) of
             (Inl e, c2) \<Rightarrow> (Inl e, c2)
           | (Inr u, c2) \<Rightarrow> delete_pattern_loop pages c2))"

definition cache_delete_pattern ::
  "(string \<Rightarrow> string \<Rightarrow> bool) \<Rightarrow> string \<Rightarrow> RedisCache \<Rightarrow> (error + unit) \<times> RedisCache" where
  "cache_delete_pattern matches pattern c =
     (case ensure_client c of
        (Inl e, c1) \<Rightarrow> (Inl e, c1)
      | (Inr u, c1) \<Rightarrow>
          (case delete_pattern_loop (scan_pages matches pattern c1) c1 of
             (Inr u', c2) \<Rightarrow> (Inr (), c2)
           | (Inl e, c2) \<Rightarrow> (Inr (), log_msg ''warning'' ''Cache delete pattern error'' c2)))"

text \<open>The commands that the loop sends when none fails: a \<open>scan\<close> for every page and a
  \<open>delete\<close> for every page that has keys.\<close>

definition loop_commands :: "string list list \<Rightarrow> nat" where
  "loop_commands pages = length pages + length (filter (\<lambda>page. page \<noteq> []) pages)"

definition cache_exists :: "string \<Rightarrow> RedisCache \<Rightarrow> (error + bool) \<times> RedisCache" where
  "cache_exists key c =
     (case ensure_client c of
        (Inl e, c1) \<Rightarrow> (Inl e, c1)
      | (Inr u, c1) \<Rightarrow>
          (case redis_exists key c1 of
             (Inr n, c2) \<Rightarrow> (Inr (n > 0), c2)
           | (Inl e, c2) \<Rightarrow> (Inr False, log_msg ''warning'' ''Cache exists error'' c2)))"

definition cache_get_many :: "string list \<Rightarrow> RedisCache \<Rightarrow> (error + pdict) \<times> RedisCache" where
  "cache_get_many keys c =
     (case ensure_client c of
        (Inl e, c1) \<Rightarrow> (Inl e, c1)
      | (Inr u, c1) \<Rightarrow>
          (case redis_mget keys c1 of
             (Inr vals, c2) \<Rightarrow>
               (Inr (foldl (\<lambda>d kv. dict_set d (fst kv) (snd kv)) []
                       (filter (\<lambda>kv. snd kv \<noteq> PNone) (zip keys vals))), c2)
           | (Inl e, c2) \<Rightarrow> (Inr [], log_msg ''warning'' ''Cache get_many error'' c2)))"

text \<open>
  \<open>set_many\<close> turns each value into a \<open>str\<close> first: \<open>json.dumps\<close> for a \<open>dict\<close> or a
  \<open>list\<close>, \<open>str(v)\<close> otherwise.
\<close>

fun py_str :: "pval \<Rightarrow> pval" where
  "py_str PNone = PStr ''None''"
| "py_str (PBool b) = PStr (if b then ''True'' else ''False'')"
| "py_str (PInt i) = PStr (str_int i)"
| "py_str (PDict d) = PJsonStr (PDict d)"
| "py_str (PList xs) = PJsonStr (PList xs)"
| "py_str v = v"

definition cache_set_many :: "pdict \<Rightarrow> int \<Rightarrow> RedisCache \<Rightarrow> (error + bool) \<times> RedisCache" where
  "cache_set_many mapping expire c =
     (case ensure_client c of
        (Inl e, c1) \<Rightarrow> (Inl e, c1)
      | (Inr u, c1) \<Rightarrow>
          (let str_mapping = map (\<lambda>kv. (fst kv, py_str (snd kv))) mapping
           in case redis_pipeline_setex str_mapping expire c1 of
                (Inr u', c2) \<Rightarrow> (Inr True, c2)
              | (Inl e, c2) \<Rightarrow> (Inr False, log_msg ''warning'' ''Cache set_many error'' c2)))"

definition cache_increment :: "string \<Rightarrow> int \<Rightarrow> RedisCache \<Rightarrow> (error + int) \<times> RedisCache" where
  "cache_increment key amount c =
     (case ensure_client c of
        (Inl e, c1) \<Rightarrow> (Inl e, c1)
      | (Inr u, c1) \<Rightarrow>
          (case redis_incrby key amount c1 of
             (Inr n, c2) \<Rightarrow> (Inr n, c2)
           | (Inl e, c2) \<Rightarrow> (Inr 0, log_msg ''warning'' ''Cache increment error'' c2)))"

definition cache_get_ttl :: "string \<Rightarrow> RedisCache \<Rightarrow> (error + int) \<times> RedisCache" where
  "cache_get_ttl key c =
     (case ensure_client c of
        (Inl e, c1) \<Rightarrow> (Inl e, c1)
      | (Inr u, c1) \<Rightarrow>
          (case redis_ttl key c1 of
             (Inr n, c2) \<Rightarrow> (Inr n, c2)
           | (Inl e, c2) \<Rightarrow> (Inr (- 1), log_msg ''warning'' ''Cache get_ttl error'' c2)))"

text \<open>An exception leaves the method: the result is \<open>Inl\<close>.\<close>

definition raised :: "('e + 'a) \<times> 's \<Rightarrow> bool" where
  "raised x = (case fst x of Inl e \<Rightarrow> True | Inr v \<Rightarrow> False)"

section \<open>Query texts\<close>

text \<open>
  The query texts of services.py and database.py, character for character (a line
  break is \<open>\<newline>\<close>). Texts that the code assembles at run time are built by the
  functions below from the same pieces.
\<close>

definition create_user_query :: string where
  "create_user_query =
     ''\<newline>        CREATE (u:User {\<newline>            id: $id,\<newline>            username: $username,\<newline>            email: $email,\<newline>            name: $name,\<newline>            bio: $bio,\<newline>            avatar_url: $avatar_url,\<newline>            location: $location,\<newline>            created_at: $created_at,\<newline>            updated_at: $updated_at,\<newline>            metadata: $metadata,\<newline>            tags: $tags\<newline>        })\<newline>        RETURN u\<newline>        ''"

definition get_user_query :: string where
  "get_user_query =
     ''\<newline>        MATCH (u:User {id: $id})\<newline>        OPTIONAL MATCH (u)-[r]-()\<newline>        RETURN u, count(r) as node_degree\<newline>        ''"

definition update_user_query_head :: string where
  "update_user_query_head =
     ''\<newline>        MATCH (u:User {id: $id})\<newline>        SET ''"

definition update_user_query_tail :: string where
  "update_user_query_tail =
     ''\<newline>        RETURN u\<newline>        ''"

definition delete_user_query :: string where
  "delete_user_query =
     ''\<newline>        MATCH (u:User {id: $id})\<newline>        DETACH DELETE u\<newline>        ''"

definition create_relationship_query_head :: string where
  "create_relationship_query_head =
     ''\<newline>        MATCH (a:User {id: $from_id}), (b:User {id: $to_id})\<newline>        CREATE (a)-[r:RELATES_TO {\<newline>            id: $id,\<newline>            type: $type,\<newline>            weight: $weight,\<newline>            properties: $properties,\<newline>            created_at: $created_at,\<newline>            updated_at: $updated_at\<newline>        }]->(b)\<newline>        ''"

definition create_relationship_query_reverse :: string where
  "create_relationship_query_reverse =
     ''\<newline>            CREATE (b)-[r2:RELATES_TO {\<newline>                id: $id2,\<newline>                type: $type,\<newline>                weight: $weight,\<newline>                properties: $properties,\<newline>                created_at: $created_at,\<newline>                updated_at: $updated_at\<newline>            }]->(a)\<newline>            ''"

definition create_relationship_query_tail :: string where
  "create_relationship_query_tail =
     ''\<newline>        RETURN a, b, r\<newline>        ''"

definition delete_relationship_query :: string where
  "delete_relationship_query =
     ''\<newline>        MATCH ()-[r:RELATES_TO {id: $id}]-()\<newline>        DELETE r\<newline>        ''"

definition path_nodes_query :: string where
  "path_nodes_query =
     ''\<newline>        MATCH (u:User)\<newline>        WHERE u.id IN $node_ids\<newline>        RETURN u\<newline>        ''"

definition recommend_connections_query :: string where
  "recommend_connections_query =
     ''\<newline>        MATCH (u:User {id: $id})-[:RELATES_TO*2..3]-(recommended:User)\<newline>        WHERE NOT (u)-[:RELATES_TO]-(recommended) AND u <> recommended\<newline>        WITH recommended, COUNT('' @ ''*'' @ '') as mutual_count\<newline>        ORDER BY mutual_count DESC\<newline>        LIMIT $limit\<newline>        MATCH (u:User {id: $id})-[:RELATES_TO]-(mutual:User)-[:RELATES_TO]-(recommended)\<newline>        WITH recommended, mutual_count, COLLECT(DISTINCT mutual) as mutual_connections\<newline>        RETURN recommended, mutual_count, mutual_connections\<newline>        ''"

definition node_type_query :: string where
  "node_type_query =
     ''\<newline>        MATCH (n)\<newline>        RETURN labels(n)[0] as type, count(n) as count\<newline>        ''"

definition rel_type_query :: string where
  "rel_type_query =
     ''\<newline>        MATCH ()-[r]->()\<newline>        RETURN type(r) as type, count(r) as count\<newline>        ''"

definition community_density_query :: string where
  "community_density_query =
     ''\<newline>        MATCH (a:User)-[r:RELATES_TO]-(b:User)\<newline>        WHERE a.id IN $ids AND b.id IN $ids AND a.id < b.id\<newline>        RETURN count(r) as edge_count\<newline>        ''"

definition shortest_path_query_head :: string where
  "shortest_path_query_head =
     ''\<newline>        MATCH (start:User {id: $start_id}), (end:User {id: $end_id})\<newline>        MATCH path = shortestPath((start)-[*..''"

definition shortest_path_query_tail :: string where
  "shortest_path_query_tail =
     '']-(end))\<newline>        RETURN path,\<newline>               [node in nodes(path) | node.id] as node_ids,\<newline>               length(path) as path_length\<newline>        ''"

definition degree_query :: string where
  "degree_query =
     ''\<newline>                MATCH (u:User {id: $user_id})\<newline>                OPTIONAL MATCH (u)-[r]-()\<newline>                RETURN count(r) as degree\<newline>            ''"

definition betweenness_query :: string where
  "betweenness_query =
     ''\<newline>                CALL gds.betweenness.stream({\<newline>                    nodeProjection: '' @ [CHR 0x27] @ ''User'' @ [CHR 0x27] @ '',\<newline>                    relationshipProjection: '' @ [CHR 0x27] @ ''RELATES_TO'' @ [CHR 0x27] @ ''\<newline>                })\<newline>                YIELD nodeId, score\<newline>                WHERE gds.util.asNode(nodeId).id = $user_id\<newline>                RETURN score\<newline>            ''"

definition closeness_query :: string where
  "closeness_query =
     ''\<newline>                CALL gds.closeness.stream({\<newline>                    nodeProjection: '' @ [CHR 0x27] @ ''User'' @ [CHR 0x27] @ '',\<newline>                    relationshipProjection: '' @ [CHR 0x27] @ ''RELATES_TO'' @ [CHR 0x27] @ ''\<newline>                })\<newline>                YIELD nodeId, score\<newline>                WHERE gds.util.asNode(nodeId).id = $user_id\<newline>                RETURN score\<newline>            ''"

definition statistics_query :: string where
  "statistics_query =
     ''\<newline>        MATCH (n)\<newline>        WITH count(n) as node_count\<newline>        MATCH ()-[r]->()\<newline>        WITH node_count, count(r) as rel_count\<newline>        MATCH (u:User)\<newline>        WITH node_count, rel_count, count(u) as user_count\<newline>        RETURN {\<newline>            total_nodes: node_count,\<newline>            total_relationships: rel_count,\<newline>            total_users: user_count,\<newline>            avg_degree: toFloat(rel_count) / toFloat(node_count)\<newline>        } as stats\<newline>        ''"

definition bulk_create_nodes_query_head :: string where
  "bulk_create_nodes_query_head =
     ''\<newline>        UNWIND $nodes as node\<newline>        CREATE (n:''"

definition bulk_create_nodes_query_tail :: string where
  "bulk_create_nodes_query_tail =
     '')\<newline>        SET n = node\<newline>        RETURN n.id as id\<newline>        ''"

definition get_user_relationships_query_head :: string where
  "get_user_relationships_query_head =
     ''\<newline>        MATCH (u:User {id: $id})-[r:RELATES_TO]-(other:User)\<newline>        ''"

definition get_user_relationships_query_filter :: string where
  "get_user_relationships_query_filter =
     '' WHERE r.type = $rel_type''"

definition get_user_relationships_query_tail :: string where
  "get_user_relationships_query_tail =
     ''\<newline>        RETURN r, u, other,\<newline>               CASE WHEN startNode(r) = u THEN '' @ [CHR 0x27] @ ''outgoing'' @ [CHR 0x27] @ '' ELSE '' @ [CHR 0x27] @ ''incoming'' @ [CHR 0x27] @ '' END as direction\<newline>        ORDER BY r.created_at DESC\<newline>        ''"

definition record_interaction_query :: string where
  "record_interaction_query =
     ''\<newline>        MATCH (from:User {id: $from_id}), (to:User {id: $to_id})\<newline>        CREATE (i:Interaction {\<newline>            id: $id,\<newline>            type: $type,\<newline>            from_user_id: $from_id,\<newline>            to_user_id: $to_id,\<newline>            entity_id: $entity_id,\<newline>            entity_type: $entity_type,\<newline>            content: $content,\<newline>            metadata: $metadata,\<newline>            timestamp: $timestamp,\<newline>            processed: false\<newline>        })\<newline>        CREATE (from)-[:INITIATED]->(i)-[:TARGETED]->(to)\<newline>        RETURN i\<newline>        ''"

definition get_user_interactions_query_head :: string where
  "get_user_interactions_query_head =
     ''\<newline>        MATCH (u:User {id: $id})-[:INITIATED|TARGETED]-(i:Interaction)\<newline>        ''"

definition get_user_interactions_query_filter :: string where
  "get_user_interactions_query_filter =
     '' WHERE i.type = $type''"

definition get_user_interactions_query_tail :: string where
  "get_user_interactions_query_tail =
     ''\<newline>        RETURN i\<newline>        ORDER BY i.timestamp DESC\<newline>        LIMIT $limit\<newline>        ''"

definition community_users_query :: string where
  "community_users_query =
     ''\<newline>        MATCH (u:User)\<newline>        WHERE u.id IN $ids\<newline>        RETURN u\<newline>        ''"

definition louvain_query :: string where
  "louvain_query =
     ''\<newline>            CALL gds.louvain.stream({\<newline>                nodeProjection: '' @ [CHR 0x27] @ ''User'' @ [CHR 0x27] @ '',\<newline>                relationshipProjection: '' @ [CHR 0x27] @ ''RELATES_TO'' @ [CHR 0x27] @ ''\<newline>            })\<newline>            YIELD nodeId, communityId\<newline>            RETURN gds.util.asNode(nodeId).id AS id, communityId\<newline>            ''"

definition label_propagation_query :: string where
  "label_propagation_query =
     ''\<newline>            CALL gds.labelPropagation.stream({\<newline>                nodeProjection: '' @ [CHR 0x27] @ ''User'' @ [CHR 0x27] @ '',\<newline>                relationshipProjection: '' @ [CHR 0x27] @ ''RELATES_TO'' @ [CHR 0x27] @ '',\<newline>                maxIterations: 10\<newline>            })\<newline>            YIELD nodeId, communityId\<newline>            RETURN gds.util.asNode(nodeId).id AS id, communityId\<newline>            ''"

definition indexes :: "string list" where
  "indexes =
     [''CREATE INDEX user_id IF NOT EXISTS FOR (u:User) ON (u.id)'',
      ''CREATE INDEX user_username IF NOT EXISTS FOR (u:User) ON (u.username)'',
      ''CREATE INDEX user_email IF NOT EXISTS FOR (u:User) ON (u.email)'',
      ''CREATE INDEX interaction_timestamp IF NOT EXISTS FOR (i:Interaction) ON (i.timestamp)'',
      ''CREATE INDEX relationship_type IF NOT EXISTS FOR ()-[r:RELATES_TO]-() ON (r.type)'']"

definition constraints :: "string list" where
  "constraints =
     [''CREATE CONSTRAINT user_id_unique IF NOT EXISTS FOR (u:User) REQUIRE u.id IS UNIQUE'',
      ''CREATE CONSTRAINT user_username_unique IF NOT EXISTS FOR (u:User) REQUIRE u.username IS UNIQUE'']"

section \<open>The graph store (database.py)\<close>

text \<open>
  The property graph behind \<open>Neo4jConnection\<close>. A node has an identity of the store,
  one label and a property bag; a relationship has an identity, a type, its two end
  nodes and a property bag. A property that is set to \<open>null\<close> is absent.
\<close>

record node =
  nid :: nat
  nlabel :: string
  nprops :: pdict

record edge =
  eid :: nat
  etype :: string
  esrc :: nat
  etgt :: nat
  eprops :: pdict

record graph =
  nodes :: "node list"
  edges :: "edge list"

text \<open>
  What the service does to its two collaborators, in the order in which it does it.
  A store event is recorded when the transaction has completed, with \<open>True\<close> for
  success and \<open>False\<close> for a reported failure; a cache event when the call is issued.
\<close>

datatype event =
    StoreWrite string pdict bool
  | StoreRead string pdict bool
  | CacheGet string
  | CacheSet string
  | CacheDelete string

text \<open>
  The service's world: the store connection (\<open>async_driver\<close> is False while
  \<open>self._async_driver\<close> is \<open>None\<close>), the graph, a script of store failures read like
  the cache's, the cache, and the trace of events. \<open>cypher\<close> is the store's own
  evaluation of a query text that the code assembles at run time or hands to a graph
  algorithm library: the model does not interpret such a text.
\<close>

record world =
  async_driver :: bool
  db :: graph
  store_faults :: "bool list"
  cypher :: "string \<Rightarrow> pdict \<Rightarrow> graph \<Rightarrow> pdict list \<times> graph"
  cache :: RedisCache
  trace :: "event list"

definition store_fault :: "world \<Rightarrow> bool \<times> world" where
  "store_fault w =
     (case store_faults w of [] \<Rightarrow> (False, w) | f # fs \<Rightarrow> (f, w\<lparr>store_faults := fs\<rparr>))"

definition log_event :: "event \<Rightarrow> world \<Rightarrow> world" where
  "log_event ev w = w\<lparr>trace := trace w @ [ev]\<rparr>"

definition connect_async :: "world \<Rightarrow> (error + unit) \<times> world" where
  "connect_async w =
     (case store_fault (w\<lparr>async_driver := True\<rparr>) of
        (True, w1) \<Rightarrow> (Inl StoreError, w1)
      | (False, w1) \<Rightarrow> (Inr (), w1))"

definition ensure_driver :: "world \<Rightarrow> (error + unit) \<times> world" where
  "ensure_driver w = (if \<not> async_driver w then connect_async w else (Inr (), w))"

text \<open>
  \<open>execute_write\<close> and \<open>execute_read\<close>: connect on first use, run the transaction,
  log and raise again what fails. \<open>run\<close> is the meaning of the query text on the graph.
  A failed transaction leaves the graph as it was.
\<close>

definition execute_write ::
  "string \<Rightarrow> pdict \<Rightarrow> (graph \<Rightarrow> error + 'r list \<times> graph) \<Rightarrow> world \<Rightarrow> (error + 'r list) \<times> world" where
  "execute_write query parameters run w =
     (case ensure_driver w of
        (Inl e, w1) \<Rightarrow> (Inl e, log_event (StoreWrite query parameters False) w1)
      | (Inr u, w1) \<Rightarrow>
          (case store_fault w1 of
             (True, w2) \<Rightarrow> (Inl StoreError, log_event (StoreWrite query parameters False) w2)
           | (False, w2) \<Rightarrow>
               (case run (db w2) of
                  Inl e \<Rightarrow> (Inl e, log_event (StoreWrite query parameters False) w2)
                | Inr (rows, g) \<Rightarrow>
                    (Inr rows, log_event (StoreWrite query parameters True) (w2\<lparr>db := g\<rparr>)))))"

definition execute_read ::
  "string \<Rightarrow> pdict \<Rightarrow> (graph \<Rightarrow> error + 'r list) \<Rightarrow> world \<Rightarrow> (error + 'r list) \<times> world" where
  "execute_read query parameters run w =
     (case ensure_driver w of
        (Inl e, w1) \<Rightarrow> (Inl e, log_event (StoreRead query parameters False) w1)
      | (Inr u, w1) \<Rightarrow>
          (case store_fault w1 of
             (True, w2) \<Rightarrow> (Inl StoreError, log_event (StoreRead query parameters False) w2)
           | (False, w2) \<Rightarrow>
               (case run (db w2) of
                  Inl e \<Rightarrow> (Inl e, log_event (StoreRead query parameters False) w2)
                | Inr rows \<Rightarrow> (Inr rows, log_event (StoreRead query parameters True) w2))))"

text \<open>A call of a cache method from the service.\<close>

definition cache_call :: "event \<Rightarrow> (RedisCache \<Rightarrow> 'a \<times> RedisCache) \<Rightarrow> world \<Rightarrow> 'a \<times> world" where
  "cache_call ev f w =
     (case f (cache w) of (r, c) \<Rightarrow> (r, w\<lparr>cache := c, trace := trace w @ [ev]\<rparr>))"

subsection \<open>The meaning of the fixed query texts\<close>

definition is_user :: "node \<Rightarrow> bool" where
  "is_user n = (nlabel n = ''User'')"

definition id_of :: "node \<Rightarrow> pval option" where
  "id_of n = map_of (nprops n) ''id''"

text \<open>\<open>(u:User {id: $id})\<close>\<close>

definition match_user :: "graph \<Rightarrow> string \<Rightarrow> node list" where
  "match_user g uid = filter (\<lambda>n. is_user n \<and> id_of n = Some (PStr uid)) (nodes g)"

definition user_at :: "graph \<Rightarrow> nat \<Rightarrow> node list" where
  "user_at g i = filter (\<lambda>n. nid n = i \<and> is_user n) (nodes g)"

definition next_nid :: "graph \<Rightarrow> nat" where
  "next_nid g = Suc (foldr max (map nid (nodes g)) 0)"

definition next_eid :: "graph \<Rightarrow> nat" where
  "next_eid g = Suc (foldr max (map eid (edges g)) 0)"

definition set_props :: "pdict \<Rightarrow> pdict" where
  "set_props kvs = filter (\<lambda>kv. snd kv \<noteq> PNone) kvs"

text \<open>\<open>CREATE (u:User {...}) RETURN u\<close>\<close>

definition cy_create_user :: "pdict \<Rightarrow> graph \<Rightarrow> error + node list \<times> graph" where
  "cy_create_user params g =
     (let u = \<lparr>nid = next_nid g, nlabel = ''User'',
               nprops = set_props (map (\<lambda>k. (k, dict_get params k PNone))
                 [''id'', ''username'', ''email'', ''name'', ''bio'', ''avatar_url'',
                  ''location'', ''created_at'', ''updated_at'', ''metadata'', ''tags''])\<rparr>
      in Inr ([u], g\<lparr>nodes := nodes g @ [u]\<rparr>))"

text \<open>\<open>(u)-[r]-()\<close>: the relationships at a node, of any type and direction.\<close>

definition incident :: "graph \<Rightarrow> node \<Rightarrow> edge list" where
  "incident g u = filter (\<lambda>e. esrc e = nid u \<or> etgt e = nid u) (edges g)"

text \<open>\<open>MATCH (u:User {id: $id}) OPTIONAL MATCH (u)-[r]-() RETURN u, count(r) as node_degree\<close>\<close>

definition cy_get_user :: "string \<Rightarrow> graph \<Rightarrow> error + (node \<times> nat) list" where
  "cy_get_user uid g = Inr (map (\<lambda>u. (u, length (incident g u))) (match_user g uid))"

text \<open>\<open>MATCH (u:User {id: $id}) DETACH DELETE u\<close>\<close>

definition cy_delete_user :: "string \<Rightarrow> graph \<Rightarrow> error + unit list \<times> graph" where
  "cy_delete_user uid g =
     (let gone = map nid (match_user g uid)
      in Inr ([], \<lparr>nodes = filter (\<lambda>n. nid n \<notin> set gone) (nodes g),
                   edges = filter (\<lambda>e. esrc e \<notin> set gone \<and> etgt e \<notin> set gone) (edges g)\<rparr>))"

text \<open>
  \<open>MATCH (a:User {id: $from_id}), (b:User {id: $to_id}) CREATE (a)-[r:RELATES_TO {...}]->(b)\<close>,
  with \<open>CREATE (b)-[r2:RELATES_TO {...}]->(a)\<close> added for a bidirectional request, and
  \<open>RETURN a, b, r\<close>: one pass per matched pair.
\<close>

definition rel_props :: "pdict \<Rightarrow> string \<Rightarrow> pdict" where
  "rel_props params id_key =
     set_props
       [(''id'', dict_get params id_key PNone),
        (''type'', dict_get params ''type'' PNone),
        (''weight'', dict_get params ''weight'' PNone),
        (''properties'', dict_get params ''properties'' PNone),
        (''created_at'', dict_get params ''created_at'' PNone),
        (''updated_at'', dict_get params ''updated_at'' PNone)]"

fun create_rels ::
  "pdict \<Rightarrow> bool \<Rightarrow> (node \<times> node) list \<Rightarrow> graph \<Rightarrow> (node \<times> node \<times> edge) list \<times> graph" where
  "create_rels params bidirectional [] g = ([], g)"
| "create_rels params bidirectional ((a, b) # pairs) g =
     (let r = \<lparr>eid = next_eid g, etype = ''RELATES_TO'', esrc = nid a, etgt = nid b,
               eprops = rel_props params ''id''\<rparr>;
          r2 = \<lparr>eid = Suc (next_eid g), etype = ''RELATES_TO'', esrc = nid b, etgt = nid a,
                eprops = rel_props params ''id2''\<rparr>;
          g1 = g\<lparr>edges := edges g @ (if bidirectional then [r, r2] else [r])\<rparr>
      in case create_rels params bidirectional pairs g1 of
           (rows, g2) \<Rightarrow> ((a, b, r) # rows, g2))"

text \<open>The store creates the second relationship when the text it receives has the
  second \<open>CREATE\<close> clause.\<close>

definition reverse_clause :: "string \<Rightarrow> bool" where
  "reverse_clause query = sublist ''CREATE (b)-[r2:RELATES_TO {'' query"

definition cy_create_relationship ::
  "pdict \<Rightarrow> string \<Rightarrow> string \<Rightarrow> string \<Rightarrow> graph \<Rightarrow> error + (node \<times> node \<times> edge) list \<times> graph" where
  "cy_create_relationship params query from_id to_id g =
     Inr (create_rels params (reverse_clause query)
            (List.product (match_user g from_id) (match_user g to_id)) g)"

text \<open>\<open>[r:RELATES_TO {id: $id}]\<close> and \<open>MATCH ()-[r:RELATES_TO {id: $id}]-() DELETE r\<close>\<close>

definition has_rel_id :: "string \<Rightarrow> edge \<Rightarrow> bool" where
  "has_rel_id rel_id e =
     (etype e = ''RELATES_TO'' \<and> map_of (eprops e) ''id'' = Some (PStr rel_id))"

definition cy_delete_relationship :: "string \<Rightarrow> graph \<Rightarrow> error + unit list \<times> graph" where
  "cy_delete_relationship rel_id g =
     Inr ([], g\<lparr>edges := filter (\<lambda>e. \<not> has_rel_id rel_id e) (edges g)\<rparr>)"

text \<open>\<open>MATCH (u:User) WHERE u.id IN $ids RETURN u\<close>\<close>

definition cy_users_by_ids :: "pval list \<Rightarrow> graph \<Rightarrow> error + node list" where
  "cy_users_by_ids ids g =
     Inr (filter (\<lambda>n. is_user n \<and> (case id_of n of None \<Rightarrow> False | Some v \<Rightarrow> v \<in> set ids))
            (nodes g))"

text \<open>
  One hop \<open>-[:RELATES_TO]-\<close> from a node, in either direction, over a relationship
  that the pattern has not used yet (a pattern never walks one relationship twice).
\<close>

definition hops :: "graph \<Rightarrow> nat list \<Rightarrow> nat \<Rightarrow> (edge \<times> nat) list" where
  "hops g used n =
     map (\<lambda>e. (e, if esrc e = n then etgt e else esrc e))
       (filter (\<lambda>e. etype e = ''RELATES_TO'' \<and> (esrc e = n \<or> etgt e = n) \<and> eid e \<notin> set used)
          (edges g))"

text \<open>\<open>(u)-[:RELATES_TO]-(recommended)\<close> as a predicate.\<close>

definition connected :: "graph \<Rightarrow> node \<Rightarrow> node \<Rightarrow> bool" where
  "connected g u r =
     (\<exists>e \<in> set (edges g). etype e = ''RELATES_TO'' \<and>
        ((esrc e = nid u \<and> etgt e = nid r) \<or> (esrc e = nid r \<and> etgt e = nid u)))"

text \<open>\<open>(u:User {id: $id})-[:RELATES_TO*2..3]-(recommended:User)\<close>: the rows \<open>(u, recommended)\<close>.\<close>

definition reach_2_3 :: "graph \<Rightarrow> string \<Rightarrow> (node \<times> node) list" where
  "reach_2_3 g uid =
     concat (map (\<lambda>u.
       concat (map (\<lambda>(e1, n1).
         concat (map (\<lambda>(e2, n2).
           map (\<lambda>r. (u, r)) (user_at g n2) @
           concat (map (\<lambda>(e3, n3). map (\<lambda>r. (u, r)) (user_at g n3))
             (hops g [eid e1, eid e2] n2)))
           (hops g [eid e1] n1)))
         (hops g [] (nid u))))
       (match_user g uid))"

text \<open>\<open>WITH x, COUNT(*)\<close>: one row for each distinct \<open>x\<close>, with the number of its rows.\<close>

definition count_groups :: "'a list \<Rightarrow> ('a \<times> nat) list" where
  "count_groups xs = map (\<lambda>x. (x, length (filter (\<lambda>y. y = x) xs))) (remdups xs)"

text \<open>
  \<open>MATCH (u:User {id: $id})-[:RELATES_TO]-(mutual:User)-[:RELATES_TO]-(recommended)\<close> for
  one recommended node and \<open>COLLECT(DISTINCT mutual)\<close>.
\<close>

definition mutuals :: "graph \<Rightarrow> string \<Rightarrow> node \<Rightarrow> node list" where
  "mutuals g uid r =
     remdups (concat (map (\<lambda>u.
       concat (map (\<lambda>(e1, n1).
         concat (map (\<lambda>m.
           map (\<lambda>x. m) (filter (\<lambda>(e2, n2). n2 = nid r) (hops g [eid e1] n1)))
           (user_at g n1)))
         (hops g [] (nid u))))
       (match_user g uid)))"

text \<open>
  The recommendation query. A negative \<open>LIMIT\<close> is refused by the store. A candidate
  with no row in the second \<open>MATCH\<close> drops out.
\<close>

definition cy_recommend :: "string \<Rightarrow> int \<Rightarrow> graph \<Rightarrow> error + (node \<times> nat \<times> node list) list" where
  "cy_recommend uid limit g =
     (if limit < 0 then Inl StoreError
      else
        (let rows = filter (\<lambda>(u, r). \<not> connected g u r \<and> nid u \<noteq> nid r) (reach_2_3 g uid);
             ranked = sort_key (\<lambda>rc. - int (snd rc)) (count_groups (map snd rows));
             top = take (nat limit) ranked
         in Inr (filter (\<lambda>(r, c, ms). ms \<noteq> [])
                   (map (\<lambda>(r, c). (r, c, mutuals g uid r)) top))))"

text \<open>
  The statistics query of database.py. \<open>WITH node_count, count(r)\<close> and
  \<open>WITH node_count, rel_count, count(u)\<close> group by the columns they carry along, so a
  graph with no relationship, or with no \<open>User\<close> node, yields no row at all. The quotient
  \<open>toFloat(rel_count) / toFloat(node_count)\<close> is computed for a row that is returned;
  the model marks a zero divisor as an error to make it visible.
\<close>

record stats_row =
  sr_total_nodes :: nat
  sr_total_relationships :: nat
  sr_total_users :: nat
  sr_avg_degree :: real

definition checked_div :: "real \<Rightarrow> real \<Rightarrow> error + real" where
  "checked_div a b = (if b = 0 then Inl ZeroDivisionError else Inr (a / b))"

definition cy_statistics :: "graph \<Rightarrow> error + stats_row list" where
  "cy_statistics g =
     (let node_count = length (nodes g);
          rel_count = length (edges g);
          user_count = length (filter is_user (nodes g))
      in if rel_count = 0 then Inr []
         else if user_count = 0 then Inr []
         else (case checked_div (real rel_count) (real node_count) of
                 Inl e \<Rightarrow> Inl e
               | Inr avg \<Rightarrow>
                   Inr [\<lparr>sr_total_nodes = node_count, sr_total_relationships = rel_count,
                         sr_total_users = user_count, sr_avg_degree = avg\<rparr>]))"

text \<open>\<open>MATCH (n) RETURN labels(n)[0] as type, count(n) as count\<close> and its twin for relationships.\<close>

definition cy_node_types :: "graph \<Rightarrow> error + (string \<times> nat) list" where
  "cy_node_types g = Inr (count_groups (map nlabel (nodes g)))"

definition cy_rel_types :: "graph \<Rightarrow> error + (string \<times> nat) list" where
  "cy_rel_types g = Inr (count_groups (map etype (edges g)))"

text \<open>
  \<open>MATCH (a:User)-[r:RELATES_TO]-(b:User) WHERE a.id IN $ids AND b.id IN $ids AND a.id < b.id
  RETURN count(r) as edge_count\<close>: always one row. Of the two ways to lay the pattern on
  a relationship, \<open>a.id < b.id\<close> keeps exactly one when the two ids are different
  strings, and none otherwise.
\<close>

definition is_str :: "pval option \<Rightarrow> bool" where
  "is_str v = (case v of Some (PStr s) \<Rightarrow> True | _ \<Rightarrow> False)"

definition density_edge_count :: "pval list \<Rightarrow> graph \<Rightarrow> nat" where
  "density_edge_count ids g =
     length
       (concat (map (\<lambda>e.
          concat (map (\<lambda>a.
            filter (\<lambda>b. is_str (id_of a) \<and> is_str (id_of b) \<and> the (id_of a) \<in> set ids \<and>
                        the (id_of b) \<in> set ids \<and> id_of a \<noteq> id_of b)
              (user_at g (etgt e)))
            (user_at g (esrc e))))
          (filter (\<lambda>e. etype e = ''RELATES_TO'') (edges g))))"

definition cy_density :: "pval list \<Rightarrow> graph \<Rightarrow> error + nat list" where
  "cy_density ids g = Inr [density_edge_count ids g]"

text \<open>\<open>MATCH (u:User {id: $user_id}) OPTIONAL MATCH (u)-[r]-() RETURN count(r) as degree\<close>\<close>

definition cy_degree :: "string \<Rightarrow> graph \<Rightarrow> error + pdict list" where
  "cy_degree uid g =
     Inr [[(''degree'',
            PInt (int (length (concat (map (incident g) (match_user g uid))))))]]"

text \<open>A query text that the model does not interpret, run in a read transaction.\<close>

definition run_opaque :: "world \<Rightarrow> string \<Rightarrow> pdict \<Rightarrow> graph \<Rightarrow> error + pdict list" where
  "run_opaque w query parameters g = Inr (fst (cypher w query parameters g))"

definition run_opaque_write ::
  "world \<Rightarrow> string \<Rightarrow> pdict \<Rightarrow> graph \<Rightarrow> error + pdict list \<times> graph" where
  "run_opaque_write w query parameters g = Inr (cypher w query parameters g)"

subsection \<open>Graph algorithms and bulk operations of \<open>Neo4jConnection\<close>\<close>

definition shortest_path_query :: "int \<Rightarrow> string" where
  "shortest_path_query max_hops =
     shortest_path_query_head @ str_int max_hops @ shortest_path_query_tail"

definition shortest_path ::
  "string \<Rightarrow> string \<Rightarrow> int \<Rightarrow> world \<Rightarrow> (error + pdict option) \<times> world" where
  "shortest_path start_id end_id max_hops w =
     (let query = shortest_path_query max_hops;
          parameters = [(''start_id'', PStr start_id), (''end_id'', PStr end_id)]
      in case execute_read query parameters (run_opaque w query parameters) w of
           (Inl e, w1) \<Rightarrow> (Inl e, w1)
         | (Inr result, w1) \<Rightarrow> (Inr (case result of [] \<Rightarrow> None | r # rs \<Rightarrow> Some r), w1))"

definition measure_value :: "string \<Rightarrow> pdict list \<Rightarrow> pval" where
  "measure_value key result = (case result of [] \<Rightarrow> PInt 0 | r # rs \<Rightarrow> dict_get r key (PInt 0))"

text \<open>
  \<open>centrality_measures\<close>: three reads, in the order of the dictionary of queries, each
  in its own \<open>try\<close>; whatever one of them raises makes its measure 0.
\<close>

definition centrality_measures :: "string \<Rightarrow> world \<Rightarrow> pdict \<times> world" where
  "centrality_measures user_id w =
     (let parameters = [(''user_id'', PStr user_id)];
          (r1, w1) = execute_read degree_query parameters (cy_degree user_id) w;
          degree = (case r1 of Inl e \<Rightarrow> PInt 0 | Inr result \<Rightarrow> measure_value ''degree'' result);
          (r2, w2) = execute_read betweenness_query parameters
                       (run_opaque w1 betweenness_query parameters) w1;
          betweenness = (case r2 of Inl e \<Rightarrow> PInt 0 | Inr result \<Rightarrow> measure_value ''score'' result);
          (r3, w3) = execute_read closeness_query parameters
                       (run_opaque w2 closeness_query parameters) w2;
          closeness = (case r3 of Inl e \<Rightarrow> PInt 0 | Inr result \<Rightarrow> measure_value ''score'' result)
      in ([(''degree'', degree), (''betweenness'', betweenness), (''closeness'', closeness)], w3))"

definition db_get_statistics :: "world \<Rightarrow> (error + stats_row option) \<times> world" where
  "db_get_statistics w =
     (case execute_read statistics_query [] cy_statistics w of
        (Inl e, w1) \<Rightarrow> (Inl e, w1)
      | (Inr result, w1) \<Rightarrow> (Inr (case result of [] \<Rightarrow> None | r # rs \<Rightarrow> Some r), w1))"

definition bulk_create_nodes_query :: "string \<Rightarrow> string" where
  "bulk_create_nodes_query label =
     bulk_create_nodes_query_head @ label @ bulk_create_nodes_query_tail"

definition bulk_create_nodes :: "pdict list \<Rightarrow> string \<Rightarrow> world \<Rightarrow> (error + pdict list) \<times> world" where
  "bulk_create_nodes new_nodes label w =
     (let query = bulk_create_nodes_query label;
          parameters = [(''nodes'', PList (map PDict new_nodes))]
      in execute_write query parameters (run_opaque_write w query parameters) w)"

text \<open>\<open>community_detection\<close>: one of two texts, and no parameters.\<close>

definition community_detection_query :: "string \<Rightarrow> string" where
  "community_detection_query algorithm =
     (if algorithm = ''louvain'' then louvain_query else label_propagation_query)"

definition community_detection :: "string \<Rightarrow> world \<Rightarrow> (error + pdict list) \<times> world" where
  "community_detection algorithm w =
     (let query = community_detection_query algorithm
      in execute_read query [] (run_opaque w query []) w)"

text \<open>
  \<open>create_indexes\<close> and \<open>create_constraints\<close>: every statement is sent in a write
  transaction of its own, and whatever it raises is logged and dropped.
\<close>

fun run_statements :: "string list \<Rightarrow> world \<Rightarrow> unit \<times> world" where
  "run_statements [] w = ((), w)"
| "run_statements (statement # statements) w =
     (case execute_write statement [] (run_opaque_write w statement []) w of
        (result, w1) \<Rightarrow> run_statements statements w1)"

definition create_indexes :: "world \<Rightarrow> unit \<times> world" where
  "create_indexes w = run_statements indexes w"

definition create_constraints :: "world \<Rightarrow> unit \<times> world" where
  "create_constraints w = run_statements constraints w"


section \<open>The service layer (services.py)\<close>

text \<open>
  The operations of \<open>SocialGraphService\<close>. The values of \<open>uuid.uuid4()\<close> and of
  \<open>datetime.utcnow().isoformat()\<close> are arguments of an operation. The constructors of the
  response models are not part of the model: an operation returns the records that it
  hands to them.
\<close>

datatype RelationshipType =
    FOLLOWS | FRIEND | COLLEAGUE | FAMILY | BLOCKS | LIKES | MENTIONS | REPORTS_TO
  | WORKS_WITH | KNOWS

fun type_value :: "RelationshipType \<Rightarrow> string" where
  "type_value FOLLOWS = ''FOLLOWS''"
| "type_value FRIEND = ''FRIEND''"
| "type_value COLLEAGUE = ''COLLEAGUE''"
| "type_value FAMILY = ''FAMILY''"
| "type_value BLOCKS = ''BLOCKS''"
| "type_value LIKES = ''LIKES''"
| "type_value MENTIONS = ''MENTIONS''"
| "type_value REPORTS_TO = ''REPORTS_TO''"
| "type_value WORKS_WITH = ''WORKS_WITH''"
| "type_value KNOWS = ''KNOWS''"

record UserCreate =
  username :: string
  email :: "string option"
  name :: "string option"
  bio :: "string option"
  avatar_url :: "string option"
  location :: "string option"
  metadata :: "pdict option"
  tags :: "string list option"

record RelationshipCreate =
  rel_type :: RelationshipType
  properties :: "pdict option"
  weight :: "real option"
  from_user_id :: string
  to_user_id :: string
  bidirectional :: bool

record Relationship =
  r_id :: string
  r_type :: RelationshipType
  r_from_user :: pdict
  r_to_user :: pdict
  r_created_at :: string
  r_updated_at :: string
  r_properties :: "pdict option"
  r_weight :: "real option"

record RecommendationResult =
  user :: node
  score :: real
  reason :: string
  mutual_connections :: "node list"

record GraphStatistics =
  total_nodes :: nat
  total_relationships :: nat
  node_types :: "(string \<times> nat) list"
  relationship_types :: "(string \<times> nat) list"
  average_degree :: real
  graph_density :: real
  component_count :: nat
  largest_component_size :: nat
  average_clustering :: real

record PathResult =
  path :: pval
  path_length :: pval
  path_nodes :: "node list"
  path_relationships :: "pval list"

datatype InteractionType =
    MESSAGE | COMMENT | REACTION | SHARE | VIEW | CLICK | MENTION | TAG | INVITE | RECOMMEND

fun interaction_value :: "InteractionType \<Rightarrow> string" where
  "interaction_value MESSAGE = ''MESSAGE''"
| "interaction_value COMMENT = ''COMMENT''"
| "interaction_value REACTION = ''REACTION''"
| "interaction_value SHARE = ''SHARE''"
| "interaction_value VIEW = ''VIEW''"
| "interaction_value CLICK = ''CLICK''"
| "interaction_value MENTION = ''MENTION''"
| "interaction_value TAG = ''TAG''"
| "interaction_value INVITE = ''INVITE''"
| "interaction_value RECOMMEND = ''RECOMMEND''"

record InteractionCreate =
  i_type :: InteractionType
  i_content :: "string option"
  i_metadata :: "pdict option"
  i_from_user_id :: string
  i_to_user_id :: string
  i_entity_id :: "string option"
  i_entity_type :: "string option"

record CommunityResult =
  c_community_id :: pval
  c_members :: "node list"
  c_size :: nat
  c_density :: real

definition opt_str :: "string option \<Rightarrow> pval" where
  "opt_str s = (case s of None \<Rightarrow> PNone | Some t \<Rightarrow> PStr t)"

definition opt_dict :: "pdict option \<Rightarrow> pval" where
  "opt_dict d = (case d of None \<Rightarrow> PNone | Some kvs \<Rightarrow> PDict kvs)"

text \<open>\<open>f"user:{user_id}"\<close> and the key of \<open>get_user_relationships\<close>,
  \<open>f"user:{user_id}:relationships:{rel_type or 'all'}"\<close>.\<close>

definition user_key :: "string \<Rightarrow> string" where
  "user_key user_id = ''user:'' @ user_id"

definition relationships_cache_key :: "string \<Rightarrow> string option \<Rightarrow> string" where
  "relationships_cache_key user_id rt =
     ''user:'' @ user_id @ '':relationships:'' @
       (case rt of None \<Rightarrow> ''all'' | Some t \<Rightarrow> if t = [] then ''all'' else t)"

subsection \<open>User management\<close>

text \<open>
  \<open>create_user\<close>. The last line, \<open>User(**result[0]["u"], id=user_id)\<close>, passes \<open>id\<close> twice
  when the returned node carries an \<open>id\<close>, which Python refuses with a \<open>TypeError\<close>.
\<close>

definition user_params :: "UserCreate \<Rightarrow> string \<Rightarrow> string \<Rightarrow> pdict" where
  "user_params user_data user_id now =
     [(''id'', PStr user_id),
      (''username'', PStr (username user_data)),
      (''email'', opt_str (email user_data)),
      (''name'', opt_str (name user_data)),
      (''bio'', opt_str (bio user_data)),
      (''avatar_url'', opt_str (avatar_url user_data)),
      (''location'', opt_str (location user_data)),
      (''created_at'', PStr now),
      (''updated_at'', PStr now),
      (''metadata'', PJsonStr (opt_dict (metadata user_data))),
      (''tags'', PList (map PStr (case tags user_data of None \<Rightarrow> [] | Some ts \<Rightarrow> ts)))]"

definition create_user ::
  "UserCreate \<Rightarrow> string \<Rightarrow> string \<Rightarrow> world \<Rightarrow> (error + pdict) \<times> world" where
  "create_user user_data user_id now w =
     (let params = user_params user_data user_id now
      in case execute_write create_user_query params (cy_create_user params) w of
           (Inl e, w1) \<Rightarrow> (Inl e, w1)
         | (Inr result, w1) \<Rightarrow>
             (case cache_call (CacheDelete (user_key user_id)) (cache_delete (user_key user_id)) w1 of
                (Inl e, w2) \<Rightarrow> (Inl e, w2)
              | (Inr u, w2) \<Rightarrow>
                  (case result of
                     [] \<Rightarrow> (Inl IndexError, w2)
                   | n # ns \<Rightarrow>
                       if map_of (nprops n) ''id'' \<noteq> None then (Inl TypeError, w2)
                       else (Inr ((''id'', PStr user_id) # nprops n), w2))))"

text \<open>
  \<open>get_user\<close>. A hit is decoded by \<open>json.loads\<close> and spread into the constructor,
  which needs an object: the JSON text of a dictionary gives the dictionary, and any
  other cached value ends the call with an exception (a literal text is not parsed
  here).
\<close>

definition get_user :: "string \<Rightarrow> world \<Rightarrow> (error + pdict option) \<times> world" where
  "get_user user_id w =
     (case cache_call (CacheGet (user_key user_id)) (cache_get (user_key user_id)) w of
        (Inl e, w1) \<Rightarrow> (Inl e, w1)
      | (Inr cached, w1) \<Rightarrow>
          if truthy cached then
            (case cached of
               PJsonStr (PDict d) \<Rightarrow> (Inr (Some d), w1)
             | _ \<Rightarrow> (Inl TypeError, w1))
          else
            (case execute_read get_user_query [(''id'', PStr user_id)] (cy_get_user user_id) w1 of
               (Inl e, w2) \<Rightarrow> (Inl e, w2)
             | (Inr result, w2) \<Rightarrow>
                 (case result of
                    [] \<Rightarrow> (Inr None, w2)
                  | (u, node_degree) # rest \<Rightarrow>
                      (let user_data = dict_set (nprops u) ''node_degree'' (PInt (int node_degree))
                       in case cache_call (CacheSet (user_key user_id))
                                 (cache_set (user_key user_id) (PJsonStr (PDict user_data)) 300) w2 of
                            (Inl e, w3) \<Rightarrow> (Inl e, w3)
                          | (Inr ok, w3) \<Rightarrow> (Inr (Some user_data), w3)))))"

text \<open>
  \<open>update_user\<close>. The \<open>SET\<close> clause is assembled from the keys of \<open>updates\<close>; the values
  travel as parameters.
\<close>

fun join :: "string \<Rightarrow> string list \<Rightarrow> string" where
  "join sep [] = []"
| "join sep [x] = x"
| "join sep (x # y # ys) = x @ sep @ join sep (y # ys)"

definition set_clause :: "string list \<Rightarrow> string" where
  "set_clause keys = join '', '' (map (\<lambda>key. ''u.'' @ key @ '' = $'' @ key) keys)"

definition update_user_query :: "string list \<Rightarrow> string" where
  "update_user_query keys = update_user_query_head @ set_clause keys @ update_user_query_tail"

text \<open>\<open>updates["updated_at"] = ...\<close> and \<open>params = {"id": user_id, **updates}\<close>\<close>

definition stamped :: "pdict \<Rightarrow> string \<Rightarrow> pdict" where
  "stamped updates now = dict_set updates ''updated_at'' (PStr now)"

definition update_params :: "string \<Rightarrow> pdict \<Rightarrow> pdict" where
  "update_params user_id updates =
     foldl (\<lambda>d kv. dict_set d (fst kv) (snd kv)) [(''id'', PStr user_id)] updates"

definition update_user ::
  "string \<Rightarrow> pdict \<Rightarrow> string \<Rightarrow> world \<Rightarrow> (error + pval) \<times> world" where
  "update_user user_id updates0 now w =
     (let updates = stamped updates0 now;
          query = update_user_query (map fst updates);
          params = update_params user_id updates
      in case execute_write query params (run_opaque_write w query params) w of
           (Inl e, w1) \<Rightarrow> (Inl e, w1)
         | (Inr result, w1) \<Rightarrow>
             (case cache_call (CacheDelete (user_key user_id)) (cache_delete (user_key user_id)) w1 of
                (Inl e, w2) \<Rightarrow> (Inl e, w2)
              | (Inr u, w2) \<Rightarrow>
                  (case result of
                     [] \<Rightarrow> (Inl IndexError, w2)
                   | row # rows \<Rightarrow>
                       (case map_of row ''u'' of
                          None \<Rightarrow> (Inl KeyError, w2)
                        | Some v \<Rightarrow> (Inr v, w2)))))"

definition delete_user :: "string \<Rightarrow> world \<Rightarrow> (error + unit) \<times> world" where
  "delete_user user_id w =
     (case execute_write delete_user_query [(''id'', PStr user_id)] (cy_delete_user user_id) w of
        (Inl e, w1) \<Rightarrow> (Inl e, w1)
      | (Inr result, w1) \<Rightarrow>
          cache_call (CacheDelete (user_key user_id)) (cache_delete (user_key user_id)) w1)"

subsection \<open>Relationship management\<close>

definition create_relationship_query :: "bool \<Rightarrow> string" where
  "create_relationship_query bidir =
     create_relationship_query_head @
     (if bidir then create_relationship_query_reverse else []) @
     create_relationship_query_tail"

text \<open>
  \<open>create_relationship\<close>. \<open>rel_id\<close> is the first \<open>uuid4()\<close>; \<open>id2\<close> is the second one,
  drawn only for a bidirectional request.
\<close>

definition relationship_params ::
  "RelationshipCreate \<Rightarrow> string \<Rightarrow> string \<Rightarrow> string \<Rightarrow> pdict" where
  "relationship_params rel_data rel_id id2 now =
     [(''id'', PStr rel_id),
      (''id2'', if bidirectional rel_data then PStr id2 else PNone),
      (''from_id'', PStr (from_user_id rel_data)),
      (''to_id'', PStr (to_user_id rel_data)),
      (''type'', PStr (type_value (rel_type rel_data))),
      (''weight'', case weight rel_data of None \<Rightarrow> PNone | Some x \<Rightarrow> PFloat x),
      (''properties'', PJsonStr (opt_dict (properties rel_data))),
      (''created_at'', PStr now),
      (''updated_at'', PStr now)]"

definition create_relationship ::
  "RelationshipCreate \<Rightarrow> string \<Rightarrow> string \<Rightarrow> string \<Rightarrow> world \<Rightarrow> (error + Relationship) \<times> world" where
  "create_relationship rel_data rel_id id2 now w =
     (let query = create_relationship_query (bidirectional rel_data);
          params = relationship_params rel_data rel_id id2 now
      in case execute_write query params
                (cy_create_relationship params query
                   (from_user_id rel_data) (to_user_id rel_data)) w of
           (Inl e, w1) \<Rightarrow> (Inl e, w1)
         | (Inr result, w1) \<Rightarrow>
             (case cache_call (CacheDelete (''user:'' @ from_user_id rel_data @ '':relationships''))
                     (cache_delete (''user:'' @ from_user_id rel_data @ '':relationships'')) w1 of
                (Inl e, w2) \<Rightarrow> (Inl e, w2)
              | (Inr u, w2) \<Rightarrow>
                  (case cache_call (CacheDelete (''user:'' @ to_user_id rel_data @ '':relationships''))
                          (cache_delete (''user:'' @ to_user_id rel_data @ '':relationships'')) w2 of
                     (Inl e, w3) \<Rightarrow> (Inl e, w3)
                   | (Inr u', w3) \<Rightarrow>
                       (case result of
                          [] \<Rightarrow> (Inl IndexError, w3)
                        | (a, b, r) # rows \<Rightarrow>
                            (Inr \<lparr>r_id = rel_id, r_type = rel_type rel_data,
                                  r_from_user = nprops a, r_to_user = nprops b,
                                  r_created_at = now, r_updated_at = now,
                                  r_properties = properties rel_data,
                                  r_weight = weight rel_data\<rparr>, w3)))))"

definition delete_relationship :: "string \<Rightarrow> world \<Rightarrow> (error + unit) \<times> world" where
  "delete_relationship rel_id w =
     (case execute_write delete_relationship_query [(''id'', PStr rel_id)]
             (cy_delete_relationship rel_id) w of
        (Inl e, w1) \<Rightarrow> (Inl e, w1)
      | (Inr result, w1) \<Rightarrow> (Inr (), w1))"

text \<open>
  \<open>d[key]\<close> of a dictionary and of any value, the \<open>**\<close> of a call, which needs a
  mapping, and \<open>if s:\<close> for an optional string.
\<close>

definition item :: "pdict \<Rightarrow> string \<Rightarrow> error + pval" where
  "item d key = (case map_of d key of None \<Rightarrow> Inl KeyError | Some v \<Rightarrow> Inr v)"

fun subscript :: "pval \<Rightarrow> string \<Rightarrow> error + pval" where
  "subscript (PDict d) key = item d key"
| "subscript v key = Inl TypeError"

fun spread :: "pval \<Rightarrow> error + pdict" where
  "spread (PDict d) = Inr d"
| "spread v = Inl TypeError"

fun spread_list :: "pval list \<Rightarrow> error + pdict list" where
  "spread_list [] = Inr []"
| "spread_list (v # vs) =
     (case spread v of
        Inl e \<Rightarrow> Inl e
      | Inr d \<Rightarrow> (case spread_list vs of Inl e \<Rightarrow> Inl e | Inr ds \<Rightarrow> Inr (d # ds)))"

definition given :: "string option \<Rightarrow> bool" where
  "given s = (case s of None \<Rightarrow> False | Some t \<Rightarrow> t \<noteq> [])"

text \<open>
  \<open>get_user_relationships\<close>. A hit is decoded by \<open>json.loads\<close> and every element is
  spread into the constructor (a literal text is not parsed here: it ends the call with
  an exception). On a miss the rows of the store are turned into relationships one by
  one. \<open>json.dumps\<close> of the list of their dictionaries raises a \<open>TypeError\<close> as soon as
  there is one, because \<open>created_at\<close> is a \<open>datetime\<close> by then; so only the empty list is
  ever cached.
\<close>

definition get_user_relationships_query :: "bool \<Rightarrow> string" where
  "get_user_relationships_query typed =
     get_user_relationships_query_head @
     (if typed then get_user_relationships_query_filter else []) @
     get_user_relationships_query_tail"

definition relationships_params :: "string \<Rightarrow> string option \<Rightarrow> pdict" where
  "relationships_params user_id rt =
     (''id'', PStr user_id) #
     (case rt of None \<Rightarrow> [] | Some t \<Rightarrow> if t \<noteq> [] then [(''rel_type'', PStr t)] else [])"

fun json_rows :: "pval \<Rightarrow> error + pdict list" where
  "json_rows (PJsonStr (PList vs)) = spread_list vs"
| "json_rows (PJsonStr (PDict d)) = (if d = [] then Inr [] else Inl TypeError)"
| "json_rows (PJsonStr (PStr s)) = (if s = [] then Inr [] else Inl TypeError)"
| "json_rows v = Inl TypeError"

definition relationship_of_row :: "pdict \<Rightarrow> error + pdict" where
  "relationship_of_row result =
     (case item result ''r'' of
        Inl e \<Rightarrow> Inl e
      | Inr r \<Rightarrow>
     (case subscript r ''id'' of
        Inl e \<Rightarrow> Inl e
      | Inr rid \<Rightarrow>
     (case subscript r ''type'' of
        Inl e \<Rightarrow> Inl e
      | Inr rtype \<Rightarrow>
     (case item result ''direction'' of
        Inl e \<Rightarrow> Inl e
      | Inr direction \<Rightarrow>
     (case item result (if direction = PStr ''outgoing'' then ''u'' else ''other'') of
        Inl e \<Rightarrow> Inl e
      | Inr from_user \<Rightarrow>
     (case spread from_user of
        Inl e \<Rightarrow> Inl e
      | Inr from_fields \<Rightarrow>
     (case item result (if direction = PStr ''outgoing'' then ''other'' else ''u'') of
        Inl e \<Rightarrow> Inl e
      | Inr to_user \<Rightarrow>
     (case spread to_user of
        Inl e \<Rightarrow> Inl e
      | Inr to_fields \<Rightarrow>
     (case subscript r ''created_at'' of
        Inl e \<Rightarrow> Inl e
      | Inr created \<Rightarrow>
     (case subscript r ''updated_at'' of
        Inl e \<Rightarrow> Inl e
      | Inr updated \<Rightarrow>
     (case (case r of PDict d \<Rightarrow> dict_get d ''properties'' (PJsonStr (PDict [])) | _ \<Rightarrow> PNone) of
        PJsonStr props \<Rightarrow>
          Inr [(''id'', rid), (''type'', rtype), (''from_user'', PDict from_fields),
               (''to_user'', PDict to_fields), (''created_at'', created),
               (''updated_at'', updated), (''properties'', props),
               (''weight'', (case r of PDict d \<Rightarrow> dict_get d ''weight'' (PFloat 1) | _ \<Rightarrow> PNone))]
      | _ \<Rightarrow> Inl TypeError)))))))))))"

fun relationships_of_rows :: "pdict list \<Rightarrow> error + pdict list" where
  "relationships_of_rows [] = Inr []"
| "relationships_of_rows (result # results) =
     (case relationship_of_row result of
        Inl e \<Rightarrow> Inl e
      | Inr rel \<Rightarrow>
          (case relationships_of_rows results of
             Inl e \<Rightarrow> Inl e
           | Inr rels \<Rightarrow> Inr (rel # rels)))"

definition get_user_relationships ::
  "string \<Rightarrow> string option \<Rightarrow> world \<Rightarrow> (error + pdict list) \<times> world" where
  "get_user_relationships user_id rt w =
     (let cache_key = relationships_cache_key user_id rt
      in case cache_call (CacheGet cache_key) (cache_get cache_key) w of
           (Inl e, w1) \<Rightarrow> (Inl e, w1)
         | (Inr cached, w1) \<Rightarrow>
             if truthy cached then (json_rows cached, w1)
             else
               (let query = get_user_relationships_query (given rt);
                    params = relationships_params user_id rt
                in case execute_read query params (run_opaque w1 query params) w1 of
                     (Inl e, w2) \<Rightarrow> (Inl e, w2)
                   | (Inr results, w2) \<Rightarrow>
                       (case relationships_of_rows results of
                          Inl e \<Rightarrow> (Inl e, w2)
                        | Inr relationships \<Rightarrow>
                            if relationships \<noteq> [] then (Inl TypeError, w2)
                            else
                              (case cache_call (CacheSet cache_key)
                                      (cache_set cache_key (PJsonStr (PList [])) 60) w2 of
                                 (Inl e, w3) \<Rightarrow> (Inl e, w3)
                               | (Inr ok, w3) \<Rightarrow> (Inr [], w3)))))"

subsection \<open>Interaction management\<close>

text \<open>\<open>record_interaction\<close> and \<open>get_user_interactions\<close>: what they return is the
  dictionary of the node \<open>i\<close> of each row, as it is spread into the constructor.\<close>

definition interaction_params :: "InteractionCreate \<Rightarrow> string \<Rightarrow> string \<Rightarrow> pdict" where
  "interaction_params interaction_data interaction_id now =
     [(''id'', PStr interaction_id),
      (''type'', PStr (interaction_value (i_type interaction_data))),
      (''from_id'', PStr (i_from_user_id interaction_data)),
      (''to_id'', PStr (i_to_user_id interaction_data)),
      (''entity_id'', opt_str (i_entity_id interaction_data)),
      (''entity_type'', opt_str (i_entity_type interaction_data)),
      (''content'', opt_str (i_content interaction_data)),
      (''metadata'', PJsonStr (opt_dict (i_metadata interaction_data))),
      (''timestamp'', PStr now)]"

definition record_interaction ::
  "InteractionCreate \<Rightarrow> string \<Rightarrow> string \<Rightarrow> world \<Rightarrow> (error + pdict) \<times> world" where
  "record_interaction interaction_data interaction_id now w =
     (let params = interaction_params interaction_data interaction_id now
      in case execute_write record_interaction_query params
                (run_opaque_write w record_interaction_query params) w of
           (Inl e, w1) \<Rightarrow> (Inl e, w1)
         | (Inr result, w1) \<Rightarrow>
             (case result of
                [] \<Rightarrow> (Inl IndexError, w1)
              | row # rows \<Rightarrow>
                  (case item row ''i'' of
                     Inl e \<Rightarrow> (Inl e, w1)
                   | Inr i \<Rightarrow> (spread i, w1))))"

definition get_user_interactions_query :: "bool \<Rightarrow> string" where
  "get_user_interactions_query typed =
     get_user_interactions_query_head @
     (if typed then get_user_interactions_query_filter else []) @
     get_user_interactions_query_tail"

definition interactions_params :: "string \<Rightarrow> string option \<Rightarrow> int \<Rightarrow> pdict" where
  "interactions_params user_id interaction_type limit =
     [(''id'', PStr user_id), (''limit'', PInt limit)] @
     (case interaction_type of
        None \<Rightarrow> []
      | Some t \<Rightarrow> if t \<noteq> [] then [(''type'', PStr t)] else [])"

fun interactions_of_rows :: "pdict list \<Rightarrow> error + pdict list" where
  "interactions_of_rows [] = Inr []"
| "interactions_of_rows (r # rs) =
     (case item r ''i'' of
        Inl e \<Rightarrow> Inl e
      | Inr i \<Rightarrow>
          (case spread i of
             Inl e \<Rightarrow> Inl e
           | Inr d \<Rightarrow>
               (case interactions_of_rows rs of
                  Inl e \<Rightarrow> Inl e
                | Inr ds \<Rightarrow> Inr (d # ds))))"

definition get_user_interactions ::
  "string \<Rightarrow> string option \<Rightarrow> int \<Rightarrow> world \<Rightarrow> (error + pdict list) \<times> world" where
  "get_user_interactions user_id interaction_type limit w =
     (let query = get_user_interactions_query (given interaction_type);
          params = interactions_params user_id interaction_type limit
      in case execute_read query params (run_opaque w query params) w of
           (Inl e, w1) \<Rightarrow> (Inl e, w1)
         | (Inr results, w1) \<Rightarrow> (interactions_of_rows results, w1))"

subsection \<open>Graph algorithms\<close>

definition find_shortest_path ::
  "string \<Rightarrow> string \<Rightarrow> int \<Rightarrow> world \<Rightarrow> (error + PathResult option) \<times> world" where
  "find_shortest_path source_id target_id max_hops w =
     (case shortest_path source_id target_id max_hops w of
        (Inl e, w1) \<Rightarrow> (Inl e, w1)
      | (Inr None, w1) \<Rightarrow> (Inr None, w1)
      | (Inr (Some result), w1) \<Rightarrow>
          if result = [] then (Inr None, w1)
          else
            (case map_of result ''node_ids'' of
               None \<Rightarrow> (Inl KeyError, w1)
             | Some node_ids \<Rightarrow>
                 (case execute_read path_nodes_query [(''node_ids'', node_ids)]
                         (case node_ids of PList ids \<Rightarrow> cy_users_by_ids ids
                                         | _ \<Rightarrow> (\<lambda>g. Inl StoreError)) w1 of
                    (Inl e, w2) \<Rightarrow> (Inl e, w2)
                  | (Inr node_results, w2) \<Rightarrow>
                      (case map_of result ''path_length'' of
                         None \<Rightarrow> (Inl KeyError, w2)
                       | Some len \<Rightarrow>
                           (Inr (Some \<lparr>path = dict_get result ''path'' (PList []),
                                       path_length = len, path_nodes = node_results,
                                       path_relationships = []\<rparr>), w2)))))"

text \<open>An arithmetic operand: \<open>int\<close>, \<open>float\<close> and \<open>bool\<close> are numbers, anything else is a
  \<open>TypeError\<close>.\<close>

fun number :: "pval \<Rightarrow> error + real" where
  "number (PInt i) = Inr (real_of_int i)"
| "number (PFloat r) = Inr r"
| "number (PBool b) = Inr (if b then 1 else 0)"
| "number v = Inl TypeError"

definition calculate_influence_score :: "string \<Rightarrow> world \<Rightarrow> (error + real) \<times> world" where
  "calculate_influence_score user_id w =
     (case centrality_measures user_id w of
        (centrality, w1) \<Rightarrow>
          (case (number (dict_get centrality ''degree'' (PInt 0)),
                 number (dict_get centrality ''betweenness'' (PInt 0)),
                 number (dict_get centrality ''closeness'' (PInt 0))) of
             (Inr d, Inr b, Inr c) \<Rightarrow>
               (let score = d * 0.3 + b * 0.4 + c * 0.3
                in (Inr (min 100 (score * 10)), w1))
           | _ \<Rightarrow> (Inl TypeError, w1)))"

definition recommend_connections ::
  "string \<Rightarrow> int \<Rightarrow> world \<Rightarrow> (error + RecommendationResult list) \<times> world" where
  "recommend_connections user_id limit w =
     (case execute_read recommend_connections_query
             [(''id'', PStr user_id), (''limit'', PInt limit)] (cy_recommend user_id limit) w of
        (Inl e, w1) \<Rightarrow> (Inl e, w1)
      | (Inr results, w1) \<Rightarrow>
          (Inr (map (\<lambda>(recommended, mutual_count, mutual).
                  \<lparr>user = recommended,
                   score = real mutual_count / 10,
                   reason = ''You have '' @ str_int (int mutual_count) @ '' mutual connections'',
                   mutual_connections = take 5 mutual\<rparr>) results), w1))"

subsection \<open>Graph statistics\<close>

text \<open>\<open>a / b\<close> of Python: a zero divisor raises.\<close>

definition py_div :: "real \<Rightarrow> real \<Rightarrow> error + real" where
  "py_div a b = (if b = 0 then Inl ZeroDivisionError else Inr (a / b))"

definition get_statistics :: "world \<Rightarrow> (error + GraphStatistics) \<times> world" where
  "get_statistics w =
     (case db_get_statistics w of
        (Inl e, w1) \<Rightarrow> (Inl e, w1)
      | (Inr stats, w1) \<Rightarrow>
          (case execute_read node_type_query [] cy_node_types w1 of
             (Inl e, w2) \<Rightarrow> (Inl e, w2)
           | (Inr ntypes, w2) \<Rightarrow>
               (case execute_read rel_type_query [] cy_rel_types w2 of
                  (Inl e, w3) \<Rightarrow> (Inl e, w3)
                | (Inr rtypes, w3) \<Rightarrow>
                    (let get_nodes = (\<lambda>dflt. case stats of None \<Rightarrow> dflt | Some s \<Rightarrow> sr_total_nodes s);
                         get_rels = (case stats of None \<Rightarrow> 0 | Some s \<Rightarrow> sr_total_relationships s)
                     in case py_div (real get_rels) (real (max ((get_nodes 1) ^ 2) 1)) of
                          Inl e \<Rightarrow> (Inl e, w3)
                        | Inr density \<Rightarrow>
                            (Inr \<lparr>total_nodes = get_nodes 0,
                                  total_relationships = get_rels,
                                  node_types = foldl (\<lambda>d kv. dict_set d (fst kv) (snd kv)) [] ntypes,
                                  relationship_types =
                                    foldl (\<lambda>d kv. dict_set d (fst kv) (snd kv)) [] rtypes,
                                  average_degree =
                                    (case stats of None \<Rightarrow> 0 | Some s \<Rightarrow> sr_avg_degree s),
                                  graph_density = density,
                                  component_count = 1,
                                  largest_component_size = get_nodes 0,
                                  average_clustering = 0\<rparr>, w3)))))"

subsection \<open>Helper methods\<close>

text \<open>
  \<open>_calculate_community_density\<close>: fewer than two members give \<open>0.0\<close> before anything
  is asked of the store.
\<close>

definition calculate_community_density :: "pdict list \<Rightarrow> world \<Rightarrow> (error + real) \<times> world" where
  "calculate_community_density members w =
     (if length members < 2 then (Inr 0, w)
      else
        (case those (map (\<lambda>m. map_of m ''id'') members) of
           None \<Rightarrow> (Inl KeyError, w)
         | Some ids \<Rightarrow>
             (case execute_read community_density_query [(''ids'', PList ids)] (cy_density ids) w of
                (Inl e, w1) \<Rightarrow> (Inl e, w1)
              | (Inr result, w1) \<Rightarrow>
                  (let edge_count = (case result of [] \<Rightarrow> 0 | c # cs \<Rightarrow> c);
                       max_edges = real (length members) * (real (length members) - 1) / 2
                   in (if max_edges > 0 then py_div (real edge_count) max_edges else Inr 0, w1)))))"

text \<open>
  \<open>detect_communities\<close>. \<open>next(...)\<close> takes the first row whose \<open>id\<close> is the user's;
  the members are the rows with the same \<open>communityId\<close>, where \<open>==\<close> compares two numbers
  by value and anything else structurally. \<open>c_community_id\<close> is the value that
  \<open>str()\<close> is applied to.
\<close>

fun find_community :: "string \<Rightarrow> pdict list \<Rightarrow> error + pdict option" where
  "find_community user_id [] = Inr None"
| "find_community user_id (c # cs) =
     (case item c ''id'' of
        Inl e \<Rightarrow> Inl e
      | Inr v \<Rightarrow> if v = PStr user_id then Inr (Some c) else find_community user_id cs)"

definition py_eq :: "pval \<Rightarrow> pval \<Rightarrow> bool" where
  "py_eq a b = (case (number a, number b) of (Inr x, Inr y) \<Rightarrow> x = y | _ \<Rightarrow> a = b)"

fun community_of :: "pdict \<Rightarrow> pdict list \<Rightarrow> error + pdict list" where
  "community_of user_community [] = Inr []"
| "community_of user_community (c # cs) =
     (case item c ''communityId'' of
        Inl e \<Rightarrow> Inl e
      | Inr v \<Rightarrow>
          (case item user_community ''communityId'' of
             Inl e \<Rightarrow> Inl e
           | Inr cid \<Rightarrow>
               (case community_of user_community cs of
                  Inl e \<Rightarrow> Inl e
                | Inr ms \<Rightarrow> Inr (if py_eq v cid then c # ms else ms))))"

definition detect_communities ::
  "string \<Rightarrow> string \<Rightarrow> world \<Rightarrow> (error + CommunityResult list) \<times> world" where
  "detect_communities user_id algorithm w =
     (case community_detection algorithm w of
        (Inl e, w1) \<Rightarrow> (Inl e, w1)
      | (Inr communities, w1) \<Rightarrow>
          (case find_community user_id communities of
             Inl e \<Rightarrow> (Inl e, w1)
           | Inr None \<Rightarrow> (Inr [], w1)
           | Inr (Some user_community) \<Rightarrow>
               (case community_of user_community communities of
                  Inl e \<Rightarrow> (Inl e, w1)
                | Inr community_members \<Rightarrow>
                    (case those (map (\<lambda>m. map_of m ''id'') community_members) of
                       None \<Rightarrow> (Inl KeyError, w1)
                     | Some ids \<Rightarrow>
                         (case execute_read community_users_query [(''ids'', PList ids)]
                                 (cy_users_by_ids ids) w1 of
                            (Inl e, w2) \<Rightarrow> (Inl e, w2)
                          | (Inr members, w2) \<Rightarrow>
                              (case calculate_community_density community_members w2 of
                                 (Inl e, w3) \<Rightarrow> (Inl e, w3)
                               | (Inr density, w3) \<Rightarrow>
                                   (Inr [\<lparr>c_community_id =
                                            dict_get user_community ''communityId'' PNone,
                                          c_members = members, c_size = length members,
                                          c_density = density\<rparr>], w3)))))))"

subsection \<open>Custom queries and the schema\<close>

text \<open>\<open>execute_query\<close> hands the caller's text to a read transaction; \<open>None\<close> for the
  parameters becomes the empty dictionary.\<close>

definition execute_query ::
  "string \<Rightarrow> pdict option \<Rightarrow> world \<Rightarrow> (error + pdict list) \<times> world" where
  "execute_query cypher_text parameters w =
     (let params = (case parameters of None \<Rightarrow> [] | Some d \<Rightarrow> d)
      in execute_read cypher_text params (run_opaque w cypher_text params) w)"

definition initialize_schema :: "world \<Rightarrow> unit \<times> world" where
  "initialize_schema w = (case create_constraints w of (u, w1) \<Rightarrow> create_indexes w1)"

definition reindex :: "world \<Rightarrow> unit \<times> world" where
  "reindex w = (case create_constraints w of (u, w1) \<Rightarrow> create_indexes w1)"

subsection \<open>Reading a trace\<close>

text \<open>The events that an operation adds to the trace.\<close>

definition new_events :: "world \<Rightarrow> 'a \<times> world \<Rightarrow> event list" where
  "new_events w res = drop (length (trace w)) (trace (snd res))"

text \<open>
  No cache invalidation is issued before a store write has completed: reading a trace
  from the start, a completed write comes before the first \<open>delete\<close> sent to the cache.
\<close>

fun write_before_invalidation :: "event list \<Rightarrow> bool" where
  "write_before_invalidation [] = True"
| "write_before_invalidation (StoreWrite q ps ok # es) = True"
| "write_before_invalidation (CacheDelete k # es) = False"
| "write_before_invalidation (e # es) = write_before_invalidation es"

text \<open>The query texts and the parameters that a trace sent to the store.\<close>

fun queries_sent :: "event list \<Rightarrow> string list" where
  "queries_sent [] = []"
| "queries_sent (StoreWrite q ps ok # es) = q # queries_sent es"
| "queries_sent (StoreRead q ps ok # es) = q # queries_sent es"
| "queries_sent (e # es) = queries_sent es"

fun parameters_sent :: "event list \<Rightarrow> pdict list" where
  "parameters_sent [] = []"
| "parameters_sent (StoreWrite q ps ok # es) = ps # parameters_sent es"
| "parameters_sent (StoreRead q ps ok # es) = ps # parameters_sent es"
| "parameters_sent (e # es) = parameters_sent es"

section \<open>A small graph\<close>

text \<open>
  Four users in a chain, alice, bob, carol and dave, with a \<open>FOLLOWS\<close> relationship from
  each to the next, a store that answers every uninterpreted query with no row, and an
  empty cache that has never been used.
\<close>

definition sample_user :: "nat \<Rightarrow> string \<Rightarrow> node" where
  "sample_user i uid =
     \<lparr>nid = i, nlabel = ''User'', nprops = [(''id'', PStr uid), (''username'', PStr uid)]\<rparr>"

definition sample_follows :: "nat \<Rightarrow> string \<Rightarrow> nat \<Rightarrow> nat \<Rightarrow> edge" where
  "sample_follows i rid a b =
     \<lparr>eid = i, etype = ''RELATES_TO'', esrc = a, etgt = b,
      eprops = [(''id'', PStr rid), (''type'', PStr ''FOLLOWS'')]\<rparr>"

definition sample_graph :: graph where
  "sample_graph =
     \<lparr>nodes = [sample_user 1 ''alice'', sample_user 2 ''bob'', sample_user 3 ''carol'',
               sample_user 4 ''dave''],
      edges = [sample_follows 1 ''r1'' 1 2, sample_follows 2 ''r2'' 2 3,
               sample_follows 3 ''r3'' 3 4]\<rparr>"

definition no_rows :: "string \<Rightarrow> pdict \<Rightarrow> graph \<Rightarrow> pdict list \<times> graph" where
  "no_rows query parameters g = ([], g)"

definition fresh_cache :: RedisCache where
  "fresh_cache = \<lparr>redis_client = False, entries = [], cache_faults = [], cache_log = []\<rparr>"

definition sample_world :: world where
  "sample_world =
     \<lparr>async_driver = False, db = sample_graph, store_faults = [], cypher = no_rows,
      cache = fresh_cache, trace = []\<rparr>"

text \<open>A store whose graph algorithms give every user the betweenness 40 and the
  closeness 0.5.\<close>

definition central_scores :: "string \<Rightarrow> pdict \<Rightarrow> graph \<Rightarrow> pdict list \<times> graph" where
  "central_scores query parameters g =
     (if query = betweenness_query then ([[(''score'', PFloat 40)]], g)
      else if query = closeness_query then ([[(''score'', PFloat (1 / 2))]], g)
      else ([], g))"

definition sample_members :: "pdict list" where
  "sample_members =
     [[(''id'', PStr ''alice''), (''communityId'', PInt 7)],
      [(''id'', PStr ''bob''), (''communityId'', PInt 7)],
      [(''id'', PStr ''carol''), (''communityId'', PInt 7)]]"

text \<open>A bidirectional request between alice and dave, and a cache that holds the
  relationship list of alice as \<open>get_user_relationships\<close> stores it for a user without
  relationships.\<close>

definition sample_request :: RelationshipCreate where
  "sample_request =
     \<lparr>rel_type = FRIEND, properties = Some [], weight = Some 1,
      from_user_id = ''alice'', to_user_id = ''dave'', bidirectional = True\<rparr>"

definition warm_cache :: RedisCache where
  "warm_cache =
     \<lparr>redis_client = True,
      entries = [(''user:alice:relationships:all'', PJsonStr (PList []), 60),
                 (''user:dave:relationships:FRIEND'', PJsonStr (PList []), 60)],
      cache_faults = [], cache_log = []\<rparr>"

text \<open>Alice and dave alone, without relationships, in front of that cache.\<close>

definition pair_world :: world where
  "pair_world =
     \<lparr>async_driver = True,
      db = \<lparr>nodes = [sample_user 1 ''alice'', sample_user 4 ''dave''], edges = []\<rparr>,
      store_faults = [], cypher = no_rows, cache = warm_cache, trace = []\<rparr>"

text \<open>
  A connected cache of 101 keys, \<open>k\<close>, \<open>kk\<close>, ... up to a hundred letters and then \<open>z\<close>,
  in front of a server that fails at its third command, and a matcher for which every
  key matches.
\<close>

definition match_all :: "string \<Rightarrow> string \<Rightarrow> bool" where
  "match_all pattern key = True"

definition hundred_keys :: "(string \<times> pval \<times> int) list" where
  "hundred_keys = map (\<lambda>i. (replicate (Suc i) (CHR ''k''), PStr [], 60)) [0..<100]"

definition crowded_cache :: RedisCache where
  "crowded_cache =
     \<lparr>redis_client = True, entries = hundred_keys @ [(''z'', PStr [], 60)],
      cache_faults = [False, False, True], cache_log = []\<rparr>"


text \<open>A sign-up and an interaction.\<close>

definition sample_signup :: UserCreate where
  "sample_signup =
     \<lparr>username = ''erin'', email = None, name = Some ''Erin'', bio = None, avatar_url = None,
      location = None, metadata = None, tags = None\<rparr>"

definition sample_view :: InteractionCreate where
  "sample_view =
     \<lparr>i_type = VIEW, i_content = None, i_metadata = None, i_from_user_id = ''alice'',
      i_to_user_id = ''bob'', i_entity_id = Some ''post1'', i_entity_type = Some ''post''\<rparr>"

section \<open>Properties of the cache layer\<close>

lemma ensure_client_raised:
  "raised (ensure_client c) \<longleftrightarrow> (\<not> redis_client c \<and> (\<exists>fs. cache_faults c = True # fs))"
  by (auto simp: raised_def ensure_client_def connect_def redis_ping_def next_fault_def log_msg_def
      split: list.splits bool.splits)

lemma cache_get_raised: "raised (cache_get key c) \<longleftrightarrow> raised (ensure_client c)"
  by (auto simp: raised_def cache_get_def split: prod.splits sum.splits)

lemma cache_set_raised: "raised (cache_set key v e c) \<longleftrightarrow> raised (ensure_client c)"
  by (auto simp: raised_def cache_set_def Let_def split: prod.splits sum.splits)

lemma cache_delete_raised: "raised (cache_delete key c) \<longleftrightarrow> raised (ensure_client c)"
  by (auto simp: raised_def cache_delete_def split: prod.splits sum.splits)

lemma cache_delete_pattern_raised:
  "raised (cache_delete_pattern mt p c) \<longleftrightarrow> raised (ensure_client c)"
  by (auto simp: raised_def cache_delete_pattern_def split: prod.splits sum.splits)

lemma cache_get_many_raised: "raised (cache_get_many ks c) \<longleftrightarrow> raised (ensure_client c)"
  by (auto simp: raised_def cache_get_many_def split: prod.splits sum.splits)

lemma cache_set_many_raised: "raised (cache_set_many m e c) \<longleftrightarrow> raised (ensure_client c)"
  by (auto simp: raised_def cache_set_many_def Let_def split: prod.splits sum.splits)

lemma cache_increment_raised: "raised (cache_increment key n c) \<longleftrightarrow> raised (ensure_client c)"
  by (auto simp: raised_def cache_increment_def split: prod.splits sum.splits)

lemma cache_get_ttl_raised: "raised (cache_get_ttl key c) \<longleftrightarrow> raised (ensure_client c)"
  by (auto simp: raised_def cache_get_ttl_def split: prod.splits sum.splits)

text \<open>The connection of the first use fails: logged at error level and raised.\<close>

lemma connect_fails:
  assumes "\<not> redis_client c" "cache_faults c = True # fs"
  shows "ensure_client c =
    (Inl ConnectionError,
     c\<lparr>redis_client := True, cache_faults := fs,
       cache_log := cache_log c @ [(''error'', ''Failed to connect to Redis'')]\<rparr>)"
  using assms
  by (simp add: ensure_client_def connect_def redis_ping_def next_fault_def log_msg_def)

lemma ensure_client_entries:
  "ensure_client c = (r, c1) \<Longrightarrow> entries c1 = entries c"
  by (auto simp: ensure_client_def connect_def redis_ping_def next_fault_def log_msg_def
      split: if_splits list.splits bool.splits)

text \<open>What each method answers when its command fails.\<close>

lemma cache_get_fails:
  assumes "ensure_client c = (Inr u, c1)" "cache_faults c1 = True # fs"
  shows "cache_get key c =
    (Inr PNone, c1\<lparr>cache_faults := fs,
                   cache_log := cache_log c1 @ [(''warning'', ''Cache get error'')]\<rparr>)"
  using assms by (simp add: cache_get_def redis_get_def next_fault_def log_msg_def)

lemma cache_set_fails:
  assumes "ensure_client c = (Inr u, c1)" "cache_faults c1 = True # fs"
  shows "fst (cache_set key v e c) = Inr False \<and>
    entries (snd (cache_set key v e c)) = entries c \<and>
    cache_log (snd (cache_set key v e c)) = cache_log c1 @ [(''warning'', ''Cache set error'')]"
  using assms ensure_client_entries [of c "Inr u" c1]
  by (simp add: cache_set_def redis_setex_def next_fault_def log_msg_def Let_def
      split: option.splits)

lemma cache_delete_fails:
  assumes "ensure_client c = (Inr u, c1)" "cache_faults c1 = True # fs"
  shows "cache_delete key c =
    (Inr (), c1\<lparr>cache_faults := fs,
                cache_log := cache_log c1 @ [(''warning'', ''Cache delete error'')]\<rparr>)"
  using assms by (simp add: cache_delete_def redis_delete_def next_fault_def log_msg_def)

lemma cache_get_many_fails:
  assumes "ensure_client c = (Inr u, c1)" "cache_faults c1 = True # fs"
  shows "cache_get_many ks c =
    (Inr [], c1\<lparr>cache_faults := fs,
                cache_log := cache_log c1 @ [(''warning'', ''Cache get_many error'')]\<rparr>)"
  using assms by (simp add: cache_get_many_def redis_mget_def next_fault_def log_msg_def)

lemma cache_set_many_fails:
  assumes "ensure_client c = (Inr u, c1)" "cache_faults c1 = True # fs" "m \<noteq> []"
  shows "fst (cache_set_many m e c) = Inr False \<and>
    entries (snd (cache_set_many m e c)) = entries c \<and>
    cache_log (snd (cache_set_many m e c)) =
      cache_log c1 @ [(''warning'', ''Cache set_many error'')]"
  using assms ensure_client_entries [of c "Inr u" c1]
  by (simp add: cache_set_many_def redis_pipeline_setex_def next_fault_def log_msg_def Let_def
      split: option.splits)

lemma cache_set_many_empty:
  assumes "ensure_client c = (Inr u, c1)"
  shows "cache_set_many [] e c = (Inr True, c1)"
  using assms by (simp add: cache_set_many_def redis_pipeline_setex_def)

lemma cache_increment_fails:
  assumes "ensure_client c = (Inr u, c1)" "cache_faults c1 = True # fs"
  shows "cache_increment key n c =
    (Inr 0, c1\<lparr>cache_faults := fs,
               cache_log := cache_log c1 @ [(''warning'', ''Cache increment error'')]\<rparr>)"
  using assms by (simp add: cache_increment_def redis_incrby_def next_fault_def log_msg_def)

lemma cache_get_ttl_fails:
  assumes "ensure_client c = (Inr u, c1)" "cache_faults c1 = True # fs"
  shows "cache_get_ttl key c =
    (Inr (- 1), c1\<lparr>cache_faults := fs,
                   cache_log := cache_log c1 @ [(''warning'', ''Cache get_ttl error'')]\<rparr>)"
  using assms by (simp add: cache_get_ttl_def redis_ttl_def next_fault_def log_msg_def)

text \<open>A command that fails leaves the keys, the values and the log as they were.\<close>

lemma command_failure_frame:
  "redis_get key c1 = (Inl err, c2) \<Longrightarrow> entries c2 = entries c1 \<and> cache_log c2 = cache_log c1"
  "redis_setex key e v c1 = (Inl err, c2) \<Longrightarrow>
     entries c2 = entries c1 \<and> cache_log c2 = cache_log c1"
  "redis_delete keys c1 = (Inl err, c2) \<Longrightarrow>
     entries c2 = entries c1 \<and> cache_log c2 = cache_log c1"
  "redis_mget keys c1 = (Inl err, c2) \<Longrightarrow>
     entries c2 = entries c1 \<and> cache_log c2 = cache_log c1"
  "redis_pipeline_setex kvs e c1 = (Inl err, c2) \<Longrightarrow>
     entries c2 = entries c1 \<and> cache_log c2 = cache_log c1"
  "redis_incrby key n c1 = (Inl err, c2) \<Longrightarrow>
     entries c2 = entries c1 \<and> cache_log c2 = cache_log c1"
  "redis_ttl key c1 = (Inl err, c2) \<Longrightarrow> entries c2 = entries c1 \<and> cache_log c2 = cache_log c1"
  by (auto simp: redis_get_def redis_setex_def redis_delete_def redis_mget_def
      redis_pipeline_setex_def redis_incrby_def redis_ttl_def next_fault_def Let_def
      split: list.splits bool.splits option.splits if_splits prod.splits pval.splits)

lemma every_failure_caught:
  assumes "ensure_client c = (Inr (), c1)"
  shows "(redis_get key c1 = (Inl err, c2) \<longrightarrow>
         cache_get key c =
           (Inr PNone, c2\<lparr>cache_log := cache_log c1 @ [(''warning'', ''Cache get error'')]\<rparr>) \<and>
         entries c2 = entries c) \<and>
      (redis_setex key e (case v of PDict d \<Rightarrow> PJsonStr v | PList xs \<Rightarrow> PJsonStr v | _ \<Rightarrow> v) c1 =
         (Inl err, c2) \<longrightarrow>
         cache_set key v e c =
           (Inr False, c2\<lparr>cache_log := cache_log c1 @ [(''warning'', ''Cache set error'')]\<rparr>) \<and>
         entries c2 = entries c) \<and>
      (redis_delete [key] c1 = (Inl err, c2) \<longrightarrow>
         cache_delete key c =
           (Inr (), c2\<lparr>cache_log := cache_log c1 @ [(''warning'', ''Cache delete error'')]\<rparr>) \<and>
         entries c2 = entries c) \<and>
      (redis_mget ks c1 = (Inl err, c2) \<longrightarrow>
         cache_get_many ks c =
           (Inr [], c2\<lparr>cache_log := cache_log c1 @ [(''warning'', ''Cache get_many error'')]\<rparr>) \<and>
         entries c2 = entries c) \<and>
      (redis_pipeline_setex (map (\<lambda>kv. (fst kv, py_str (snd kv))) m) e c1 = (Inl err, c2) \<longrightarrow>
         cache_set_many m e c =
           (Inr False, c2\<lparr>cache_log := cache_log c1 @ [(''warning'', ''Cache set_many error'')]\<rparr>) \<and>
         entries c2 = entries c) \<and>
      (redis_incrby key n c1 = (Inl err, c2) \<longrightarrow>
         cache_increment key n c =
           (Inr 0, c2\<lparr>cache_log := cache_log c1 @ [(''warning'', ''Cache increment error'')]\<rparr>) \<and>
         entries c2 = entries c) \<and>
      (redis_ttl key c1 = (Inl err, c2) \<longrightarrow>
         cache_get_ttl key c =
           (Inr (- 1), c2\<lparr>cache_log := cache_log c1 @ [(''warning'', ''Cache get_ttl error'')]\<rparr>) \<and>
         entries c2 = entries c)"
  using assms ensure_client_entries [OF assms]
    command_failure_frame [where ?c1.0 = c1 and err = err and ?c2.0 = c2]
  by (auto simp: cache_get_def cache_set_def cache_delete_def cache_get_many_def
      cache_set_many_def cache_increment_def cache_get_ttl_def log_msg_def Let_def)

text \<open>
  The loop of \<open>delete_pattern\<close> fails exactly when one of the commands it gets to send
  fails; it writes nothing to the log itself, and what it has deleted are keys of its
  pages.
\<close>

lemma loop_fails_iff:
  "delete_pattern_loop pages c = (r, c') \<Longrightarrow>
     (isl r \<longleftrightarrow> True \<in> set (take (loop_commands pages) (cache_faults c))) \<and>
     cache_log c' = cache_log c"
proof (induction pages arbitrary: c r c')
  case Nil
  then show ?case
    by (auto simp: loop_commands_def)
next
  case (Cons page pages)
  show ?case
  proof (cases "cache_faults c")
    case Nil
    show ?thesis
    proof (cases "page = []")
      case True
      with Cons.prems Nil have "delete_pattern_loop pages c = (r, c')"
        by (simp add: redis_scan_def next_fault_def)
      from Cons.IH [OF this] Nil show ?thesis
        by simp
    next
      case False
      let ?c2 = "c\<lparr>entries := filter (\<lambda>e. fst e \<notin> set page) (entries c)\<rparr>"
      from Cons.prems Nil False have "delete_pattern_loop pages ?c2 = (r, c')"
        by (simp add: redis_scan_def redis_delete_def next_fault_def)
      from Cons.IH [OF this] Nil show ?thesis
        by simp
    qed
  next
    case (Cons f fs)
    note faults = this
    show ?thesis
    proof (cases f)
      case True
      with Cons.prems faults show ?thesis
        by (auto simp: redis_scan_def next_fault_def loop_commands_def)
    next
      case f: False
      let ?c1 = "c\<lparr>cache_faults := fs\<rparr>"
      show ?thesis
      proof (cases "page = []")
        case True
        with Cons.prems faults f have "delete_pattern_loop pages ?c1 = (r, c')"
          by (simp add: redis_scan_def next_fault_def)
        from Cons.IH [OF this] faults f True show ?thesis
          by (simp add: loop_commands_def)
      next
        case page: False
        show ?thesis
        proof (cases fs)
          case Nil
          let ?c2 = "?c1\<lparr>entries := filter (\<lambda>e. fst e \<notin> set page) (entries ?c1)\<rparr>"
          from Cons.prems faults f page Nil have "delete_pattern_loop pages ?c2 = (r, c')"
            by (simp add: redis_scan_def redis_delete_def next_fault_def)
          from Cons.IH [OF this] faults f page Nil show ?thesis
            by (simp add: loop_commands_def)
        next
          case (Cons g gs)
          show ?thesis
          proof (cases g)
            case True
            with Cons.prems faults f page Cons show ?thesis
              by (auto simp: redis_scan_def redis_delete_def next_fault_def loop_commands_def)
          next
            case False
            let ?c2 = "c\<lparr>cache_faults := gs,
                         entries := filter (\<lambda>e. fst e \<notin> set page) (entries c)\<rparr>"
            from Cons.prems faults f page Cons False
            have "delete_pattern_loop pages ?c2 = (r, c')"
              by (simp add: redis_scan_def redis_delete_def next_fault_def)
            from Cons.IH [OF this] faults f page Cons False show ?thesis
              by (simp add: loop_commands_def)
          qed
        qed
      qed
    qed
  qed
qed

lemma loop_entries:
  "delete_pattern_loop pages c = (r, c') \<Longrightarrow>
     set (entries c') \<subseteq> set (entries c) \<and>
     (\<forall>e \<in> set (entries c). fst e \<notin> set (concat pages) \<longrightarrow> e \<in> set (entries c')) \<and>
     (\<not> isl r \<longrightarrow> entries c' = filter (\<lambda>e. fst e \<notin> set (concat pages)) (entries c))"
proof (induction pages arbitrary: c r c')
  case Nil
  then show ?case
    by auto
next
  case (Cons page pages)
  obtain f c1 where nf: "next_fault c = (f, c1)"
    by (cases "next_fault c")
  then have e1: "entries c1 = entries c"
    by (auto simp: next_fault_def split: list.splits)
  show ?case
  proof (cases f)
    case True
    with Cons.prems nf e1 show ?thesis
      by (auto simp: redis_scan_def)
  next
    case False
    show ?thesis
    proof (cases "page = []")
      case True
      with Cons.prems nf False have "delete_pattern_loop pages c1 = (r, c')"
        by (simp add: redis_scan_def)
      from Cons.IH [OF this] e1 True show ?thesis
        by simp
    next
      case page: False
      obtain g c2 where ng: "next_fault c1 = (g, c2)"
        by (cases "next_fault c1")
      then have e2: "entries c2 = entries c"
        using e1 by (auto simp: next_fault_def split: list.splits)
      show ?thesis
      proof (cases g)
        case True
        with Cons.prems nf False page ng e1 e2 show ?thesis
          by (auto simp: redis_scan_def redis_delete_def)
      next
        case g: False
        let ?c3 = "c2\<lparr>entries := filter (\<lambda>e. fst e \<notin> set page) (entries c2)\<rparr>"
        from Cons.prems nf False page ng g have "delete_pattern_loop pages ?c3 = (r, c')"
          by (simp add: redis_scan_def redis_delete_def)
        from Cons.IH [OF this] e2 show ?thesis
          by (auto simp: conj_commute)
      qed
    qed
  qed
qed

lemma concat_chunks: "0 < n \<Longrightarrow> concat (chunks n xs) = xs"
  by (induction n xs rule: chunks.induct) (simp_all add: append_take_drop_id)

lemma scan_pages_concat:
  "concat (scan_pages mt p c) = filter (mt p) (map fst (entries c))"
proof -
  let ?ks = "map fst (entries c)"
  have cc: "concat (chunks 100 ?ks) = ?ks"
    by (simp add: concat_chunks)
  show ?thesis
  proof (cases "chunks 100 ?ks")
    case Nil
    with cc have "?ks = []"
      by simp
    with Nil show ?thesis
      by (simp add: scan_pages_def)
  next
    case (Cons page pages)
    then have "scan_pages mt p c = map (filter (mt p)) (chunks 100 ?ks)"
      by (simp add: scan_pages_def)
    then have "concat (scan_pages mt p c) = filter (mt p) (concat (chunks 100 ?ks))"
      by (simp only: filter_concat)
    with cc show ?thesis
      by simp
  qed
qed

lemma scan_pages_keys:
  "e \<in> set (entries c) \<Longrightarrow> fst e \<in> set (concat (scan_pages mt p c)) \<longleftrightarrow> mt p (fst e)"
  by (auto simp: scan_pages_concat)

lemma cache_delete_pattern_fails:
  assumes "ensure_client c = (Inr u, c1)"
    "True \<in> set (take (loop_commands (scan_pages mt p c1)) (cache_faults c1))"
  shows "fst (cache_delete_pattern mt p c) = Inr () \<and>
    cache_log (snd (cache_delete_pattern mt p c)) =
      cache_log c1 @ [(''warning'', ''Cache delete pattern error'')] \<and>
    set (entries (snd (cache_delete_pattern mt p c))) \<subseteq> set (entries c) \<and>
    (\<forall>e \<in> set (entries c). \<not> mt p (fst e) \<longrightarrow> e \<in> set (entries (snd (cache_delete_pattern mt p c))))"
proof -
  obtain r c2 where l: "delete_pattern_loop (scan_pages mt p c1) c1 = (r, c2)"
    by (cases "delete_pattern_loop (scan_pages mt p c1) c1")
  from loop_fails_iff [OF l] assms(2) obtain e where r: "r = Inl e" and lg: "cache_log c2 = cache_log c1"
    by (cases r) auto
  from ensure_client_entries [OF assms(1)] have e1: "entries c1 = entries c" .
  from loop_entries [OF l] e1 have
    "set (entries c2) \<subseteq> set (entries c)"
    "\<forall>e \<in> set (entries c). fst e \<notin> set (concat (scan_pages mt p c1)) \<longrightarrow> e \<in> set (entries c2)"
    by simp_all
  then have "set (entries c2) \<subseteq> set (entries c)"
    "\<forall>e \<in> set (entries c). \<not> mt p (fst e) \<longrightarrow> e \<in> set (entries c2)"
    using scan_pages_keys [of _ c1 mt p] by (simp add: e1, fastforce simp: e1)
  with assms(1) l r lg show ?thesis
    by (simp add: cache_delete_pattern_def log_msg_def)
qed

lemma cache_delete_pattern_succeeds:
  assumes "ensure_client c = (Inr u, c1)"
    "True \<notin> set (take (loop_commands (scan_pages mt p c1)) (cache_faults c1))"
  shows "fst (cache_delete_pattern mt p c) = Inr () \<and>
    cache_log (snd (cache_delete_pattern mt p c)) = cache_log c1 \<and>
    entries (snd (cache_delete_pattern mt p c)) = filter (\<lambda>e. \<not> mt p (fst e)) (entries c)"
proof -
  obtain r c2 where l: "delete_pattern_loop (scan_pages mt p c1) c1 = (r, c2)"
    by (cases "delete_pattern_loop (scan_pages mt p c1) c1")
  from loop_fails_iff [OF l] assms(2) obtain v where r: "r = Inr v" and lg: "cache_log c2 = cache_log c1"
    by (cases r) auto
  from ensure_client_entries [OF assms(1)] have e1: "entries c1 = entries c" .
  from loop_entries [OF l] r e1 have
    "entries c2 = filter (\<lambda>e. fst e \<notin> set (concat (scan_pages mt p c1))) (entries c)"
    by simp
  also have "\<dots> = filter (\<lambda>e. \<not> mt p (fst e)) (entries c)"
    using scan_pages_keys [of _ c1 mt p] by (intro filter_cong) (simp_all add: e1)
  finally have "entries c2 = filter (\<lambda>e. \<not> mt p (fst e)) (entries c)" .
  with assms(1) l r lg show ?thesis
    by (simp add: cache_delete_pattern_def)
qed

lemma two_pages:
  assumes "length ks = 100"
  shows "chunks 100 (ks @ [k]) = [ks, [k]]"
proof -
  from assms obtain k' ks' where "ks = k' # ks'" and "length ks' = 99"
    by (cases ks) auto
  then show ?thesis
    by simp
qed

lemma hundred_keys_nonempty: "hundred_keys \<noteq> []"
proof -
  have "length hundred_keys = 100"
    by (simp add: hundred_keys_def)
  then show ?thesis
    by auto
qed

lemma crowded_pages:
  "scan_pages match_all p crowded_cache = [map fst hundred_keys, [''z'']]"
proof -
  have "length (map fst hundred_keys) = 100"
    by (simp add: hundred_keys_def)
  then have "chunks 100 (map fst hundred_keys @ [''z'']) = [map fst hundred_keys, [''z'']]"
    by (rule two_pages)
  then show ?thesis
    by (simp add: scan_pages_def crowded_cache_def match_all_def)
qed

lemma crowded_commands:
  "True \<in> set (take (loop_commands (scan_pages match_all p crowded_cache))
                    (cache_faults crowded_cache))"
  by (simp add: crowded_pages loop_commands_def hundred_keys_nonempty)
    (simp add: crowded_cache_def)

lemma hundred_keys_go:
  "filter (\<lambda>e. fst e \<notin> fst ` set hundred_keys) hundred_keys = []"
  by (simp add: filter_empty_conv)

lemma z_stays: "''z'' \<notin> fst ` set hundred_keys"
  by (auto simp: hundred_keys_def)

text \<open>
  C2, as stated, fails at two inputs. An instance that was never connected, in front of
  a server that refuses the connection: \<open>get\<close> raises instead of answering a miss. And a
  connected instance of 101 keys whose server fails at the third command:
  \<open>delete_pattern\<close> catches the failure and logs it, but the hundred keys of the first
  page are gone, so the write was not a no-op.
\<close>

theorem cache_failure_escapes_or_half_done:
  "cache_get ''user:alice''
     \<lparr>redis_client = False, entries = [], cache_faults = [True], cache_log = []\<rparr> =
   (Inl ConnectionError,
    \<lparr>redis_client = True, entries = [], cache_faults = [],
     cache_log = [(''error'', ''Failed to connect to Redis'')]\<rparr>) \<and>
   cache_delete_pattern match_all ''user:'' crowded_cache =
   (Inr (),
    \<lparr>redis_client = True, entries = [(''z'', PStr [], 60)], cache_faults = [],
     cache_log = [(''warning'', ''Cache delete pattern error'')]\<rparr>)"
proof -
  have "ensure_client crowded_cache = (Inr (), crowded_cache)"
    by (simp add: ensure_client_def crowded_cache_def)
  moreover have "delete_pattern_loop [map fst hundred_keys, [''z'']] crowded_cache =
    (Inl RedisError,
     \<lparr>redis_client = True, entries = [(''z'', PStr [], 60)], cache_faults = [],
      cache_log = []\<rparr>)"
    using hundred_keys_nonempty
    by (simp add: redis_scan_def redis_delete_def next_fault_def crowded_cache_def
        hundred_keys_go z_stays)
  ultimately have "cache_delete_pattern match_all ''user:'' crowded_cache =
   (Inr (),
    \<lparr>redis_client = True, entries = [(''z'', PStr [], 60)], cache_faults = [],
     cache_log = [(''warning'', ''Cache delete pattern error'')]\<rparr>)"
    by (simp add: cache_delete_pattern_def crowded_pages log_msg_def)
  moreover have "cache_get ''user:alice''
     \<lparr>redis_client = False, entries = [], cache_faults = [True], cache_log = []\<rparr> =
   (Inl ConnectionError,
    \<lparr>redis_client = True, entries = [], cache_faults = [],
     cache_log = [(''error'', ''Failed to connect to Redis'')]\<rparr>)"
    by (simp add: cache_get_def ensure_client_def connect_def redis_ping_def next_fault_def
        log_msg_def)
  ultimately show ?thesis
    by simp
qed

text \<open>
  C2, amended. A method raises exactly when it has to connect and the connection
  fails; that failure is logged at error level, and nothing is deleted or stored.
  After that, with the client the instance held or has just obtained: whenever the
  command of \<open>get\<close>, \<open>set\<close>, \<open>delete\<close>, \<open>get_many\<close>, \<open>set_many\<close>, \<open>increment\<close> or
  \<open>get_ttl\<close> fails, for whatever reason, the method logs a warning, answers \<open>None\<close>,
  \<open>False\<close>, nothing, \<open>{}\<close>, \<open>False\<close>, \<open>0\<close> and \<open>-1\<close>, and the keys and values are as
  before. It fails in particular when the server fails at it; only \<open>set_many\<close> of the
  empty mapping sends nothing and answers \<open>True\<close>. When any of the commands of
  \<open>delete_pattern\<close> fails, the method logs a warning and answers nothing; the keys it
  has deleted by then match the pattern, every other entry is as before. When none
  fails, it logs nothing and exactly the keys that match are deleted.
\<close>

theorem cache_failure_caught_once_connected:
  "((raised (cache_get key c) \<longleftrightarrow> \<not> redis_client c \<and> (\<exists>fs. cache_faults c = True # fs)) \<and>
    (raised (cache_set key v e c) \<longleftrightarrow> \<not> redis_client c \<and> (\<exists>fs. cache_faults c = True # fs)) \<and>
    (raised (cache_delete key c) \<longleftrightarrow> \<not> redis_client c \<and> (\<exists>fs. cache_faults c = True # fs)) \<and>
    (raised (cache_delete_pattern mt p c) \<longleftrightarrow>
       \<not> redis_client c \<and> (\<exists>fs. cache_faults c = True # fs)) \<and>
    (raised (cache_get_many ks c) \<longleftrightarrow> \<not> redis_client c \<and> (\<exists>fs. cache_faults c = True # fs)) \<and>
    (raised (cache_set_many m e c) \<longleftrightarrow> \<not> redis_client c \<and> (\<exists>fs. cache_faults c = True # fs)) \<and>
    (raised (cache_increment key n c) \<longleftrightarrow>
       \<not> redis_client c \<and> (\<exists>fs. cache_faults c = True # fs)) \<and>
    (raised (cache_get_ttl key c) \<longleftrightarrow> \<not> redis_client c \<and> (\<exists>fs. cache_faults c = True # fs))) \<and>
   (\<not> redis_client c \<and> cache_faults c = True # fs \<longrightarrow>
      (let c' = c\<lparr>redis_client := True, cache_faults := fs,
                  cache_log := cache_log c @ [(''error'', ''Failed to connect to Redis'')]\<rparr>
       in cache_get key c = (Inl ConnectionError, c') \<and>
          cache_set key v e c = (Inl ConnectionError, c') \<and>
          cache_delete key c = (Inl ConnectionError, c') \<and>
          cache_delete_pattern mt p c = (Inl ConnectionError, c') \<and>
          cache_get_many ks c = (Inl ConnectionError, c') \<and>
          cache_set_many m e c = (Inl ConnectionError, c') \<and>
          cache_increment key n c = (Inl ConnectionError, c') \<and>
          cache_get_ttl key c = (Inl ConnectionError, c'))) \<and>
   (ensure_client c = (Inr (), c1) \<and> cache_faults c1 = True # fs \<longrightarrow>
      cache_get key c =
        (Inr PNone, c1\<lparr>cache_faults := fs,
                       cache_log := cache_log c1 @ [(''warning'', ''Cache get error'')]\<rparr>) \<and>
      fst (cache_set key v e c) = Inr False \<and>
      entries (snd (cache_set key v e c)) = entries c \<and>
      cache_log (snd (cache_set key v e c)) =
        cache_log c1 @ [(''warning'', ''Cache set error'')] \<and>
      cache_delete key c =
        (Inr (), c1\<lparr>cache_faults := fs,
                    cache_log := cache_log c1 @ [(''warning'', ''Cache delete error'')]\<rparr>) \<and>
      cache_get_many ks c =
        (Inr [], c1\<lparr>cache_faults := fs,
                    cache_log := cache_log c1 @ [(''warning'', ''Cache get_many error'')]\<rparr>) \<and>
      (m \<noteq> [] \<longrightarrow>
         fst (cache_set_many m e c) = Inr False \<and>
         entries (snd (cache_set_many m e c)) = entries c \<and>
         cache_log (snd (cache_set_many m e c)) =
           cache_log c1 @ [(''warning'', ''Cache set_many error'')]) \<and>
      cache_increment key n c =
        (Inr 0, c1\<lparr>cache_faults := fs,
                   cache_log := cache_log c1 @ [(''warning'', ''Cache increment error'')]\<rparr>) \<and>
      cache_get_ttl key c =
        (Inr (- 1), c1\<lparr>cache_faults := fs,
                       cache_log := cache_log c1 @ [(''warning'', ''Cache get_ttl error'')]\<rparr>)) \<and>
   (ensure_client c = (Inr (), c1) \<longrightarrow>
      entries c1 = entries c \<and>
      cache_set_many [] e c = (Inr True, c1) \<and>
      fst (cache_delete_pattern mt p c) = Inr () \<and>
      (if True \<in> set (take (loop_commands (scan_pages mt p c1)) (cache_faults c1))
       then cache_log (snd (cache_delete_pattern mt p c)) =
              cache_log c1 @ [(''warning'', ''Cache delete pattern error'')] \<and>
            set (entries (snd (cache_delete_pattern mt p c))) \<subseteq> set (entries c) \<and>
            (\<forall>entry \<in> set (entries c).
               \<not> mt p (fst entry) \<longrightarrow> entry \<in> set (entries (snd (cache_delete_pattern mt p c))))
       else cache_log (snd (cache_delete_pattern mt p c)) = cache_log c1 \<and>
            entries (snd (cache_delete_pattern mt p c)) =
              filter (\<lambda>entry. \<not> mt p (fst entry)) (entries c))) \<and>
   (ensure_client c = (Inr (), c1) \<longrightarrow>
      (redis_get key c1 = (Inl err, c2) \<longrightarrow>
         cache_get key c =
           (Inr PNone, c2\<lparr>cache_log := cache_log c1 @ [(''warning'', ''Cache get error'')]\<rparr>) \<and>
         entries c2 = entries c) \<and>
      (redis_setex key e (case v of PDict d \<Rightarrow> PJsonStr v | PList xs \<Rightarrow> PJsonStr v | _ \<Rightarrow> v) c1 =
         (Inl err, c2) \<longrightarrow>
         cache_set key v e c =
           (Inr False, c2\<lparr>cache_log := cache_log c1 @ [(''warning'', ''Cache set error'')]\<rparr>) \<and>
         entries c2 = entries c) \<and>
      (redis_delete [key] c1 = (Inl err, c2) \<longrightarrow>
         cache_delete key c =
           (Inr (), c2\<lparr>cache_log := cache_log c1 @ [(''warning'', ''Cache delete error'')]\<rparr>) \<and>
         entries c2 = entries c) \<and>
      (redis_mget ks c1 = (Inl err, c2) \<longrightarrow>
         cache_get_many ks c =
           (Inr [], c2\<lparr>cache_log := cache_log c1 @ [(''warning'', ''Cache get_many error'')]\<rparr>) \<and>
         entries c2 = entries c) \<and>
      (redis_pipeline_setex (map (\<lambda>kv. (fst kv, py_str (snd kv))) m) e c1 = (Inl err, c2) \<longrightarrow>
         cache_set_many m e c =
           (Inr False, c2\<lparr>cache_log := cache_log c1 @ [(''warning'', ''Cache set_many error'')]\<rparr>) \<and>
         entries c2 = entries c) \<and>
      (redis_incrby key n c1 = (Inl err, c2) \<longrightarrow>
         cache_increment key n c =
           (Inr 0, c2\<lparr>cache_log := cache_log c1 @ [(''warning'', ''Cache increment error'')]\<rparr>) \<and>
         entries c2 = entries c) \<and>
      (redis_ttl key c1 = (Inl err, c2) \<longrightarrow>
         cache_get_ttl key c =
           (Inr (- 1), c2\<lparr>cache_log := cache_log c1 @ [(''warning'', ''Cache get_ttl error'')]\<rparr>) \<and>
         entries c2 = entries c))"
  (is "?raises \<and> ?refused \<and> ?failed \<and> ?pattern \<and> ?caught")
proof -
  have a: ?raises
    by (simp add: cache_get_raised cache_set_raised cache_delete_raised
        cache_delete_pattern_raised cache_get_many_raised cache_set_many_raised
        cache_increment_raised cache_get_ttl_raised ensure_client_raised)
  have b: ?refused
  proof (intro impI)
    assume "\<not> redis_client c \<and> cache_faults c = True # fs"
    then have "ensure_client c =
      (Inl ConnectionError,
       c\<lparr>redis_client := True, cache_faults := fs,
         cache_log := cache_log c @ [(''error'', ''Failed to connect to Redis'')]\<rparr>)"
      by (simp add: connect_fails)
    then show "let c' = c\<lparr>redis_client := True, cache_faults := fs,
                  cache_log := cache_log c @ [(''error'', ''Failed to connect to Redis'')]\<rparr>
       in cache_get key c = (Inl ConnectionError, c') \<and>
          cache_set key v e c = (Inl ConnectionError, c') \<and>
          cache_delete key c = (Inl ConnectionError, c') \<and>
          cache_delete_pattern mt p c = (Inl ConnectionError, c') \<and>
          cache_get_many ks c = (Inl ConnectionError, c') \<and>
          cache_set_many m e c = (Inl ConnectionError, c') \<and>
          cache_increment key n c = (Inl ConnectionError, c') \<and>
          cache_get_ttl key c = (Inl ConnectionError, c')"
      by (simp add: cache_get_def cache_set_def cache_delete_def cache_delete_pattern_def
          cache_get_many_def cache_set_many_def cache_increment_def cache_get_ttl_def Let_def)
  qed
  have c: ?failed
  proof (intro impI)
    assume h: "ensure_client c = (Inr (), c1) \<and> cache_faults c1 = True # fs"
    then have h1: "ensure_client c = (Inr (), c1)" and h2: "cache_faults c1 = True # fs"
      by simp_all
    from cache_get_fails [OF h1 h2] cache_set_fails [OF h1 h2] cache_delete_fails [OF h1 h2]
      cache_get_many_fails [OF h1 h2] cache_set_many_fails [OF h1 h2]
      cache_increment_fails [OF h1 h2] cache_get_ttl_fails [OF h1 h2]
    show "cache_get key c =
        (Inr PNone, c1\<lparr>cache_faults := fs,
                       cache_log := cache_log c1 @ [(''warning'', ''Cache get error'')]\<rparr>) \<and>
      fst (cache_set key v e c) = Inr False \<and>
      entries (snd (cache_set key v e c)) = entries c \<and>
      cache_log (snd (cache_set key v e c)) =
        cache_log c1 @ [(''warning'', ''Cache set error'')] \<and>
      cache_delete key c =
        (Inr (), c1\<lparr>cache_faults := fs,
                    cache_log := cache_log c1 @ [(''warning'', ''Cache delete error'')]\<rparr>) \<and>
      cache_get_many ks c =
        (Inr [], c1\<lparr>cache_faults := fs,
                    cache_log := cache_log c1 @ [(''warning'', ''Cache get_many error'')]\<rparr>) \<and>
      (m \<noteq> [] \<longrightarrow>
         fst (cache_set_many m e c) = Inr False \<and>
         entries (snd (cache_set_many m e c)) = entries c \<and>
         cache_log (snd (cache_set_many m e c)) =
           cache_log c1 @ [(''warning'', ''Cache set_many error'')]) \<and>
      cache_increment key n c =
        (Inr 0, c1\<lparr>cache_faults := fs,
                   cache_log := cache_log c1 @ [(''warning'', ''Cache increment error'')]\<rparr>) \<and>
      cache_get_ttl key c =
        (Inr (- 1), c1\<lparr>cache_faults := fs,
                       cache_log := cache_log c1 @ [(''warning'', ''Cache get_ttl error'')]\<rparr>)"
      by blast
  qed
  have d: ?pattern
  proof (intro impI)
    assume h: "ensure_client c = (Inr (), c1)"
    show "entries c1 = entries c \<and>
      cache_set_many [] e c = (Inr True, c1) \<and>
      fst (cache_delete_pattern mt p c) = Inr () \<and>
      (if True \<in> set (take (loop_commands (scan_pages mt p c1)) (cache_faults c1))
       then cache_log (snd (cache_delete_pattern mt p c)) =
              cache_log c1 @ [(''warning'', ''Cache delete pattern error'')] \<and>
            set (entries (snd (cache_delete_pattern mt p c))) \<subseteq> set (entries c) \<and>
            (\<forall>entry \<in> set (entries c).
               \<not> mt p (fst entry) \<longrightarrow> entry \<in> set (entries (snd (cache_delete_pattern mt p c))))
       else cache_log (snd (cache_delete_pattern mt p c)) = cache_log c1 \<and>
            entries (snd (cache_delete_pattern mt p c)) =
              filter (\<lambda>entry. \<not> mt p (fst entry)) (entries c))"
    proof (cases "True \<in> set (take (loop_commands (scan_pages mt p c1)) (cache_faults c1))")
      case True
      from cache_delete_pattern_fails [OF h True] ensure_client_entries [OF h]
        cache_set_many_empty [OF h] True
      show ?thesis
        by simp
    next
      case False
      from cache_delete_pattern_succeeds [OF h False] ensure_client_entries [OF h]
        cache_set_many_empty [OF h] False
      show ?thesis
        by simp
    qed
  qed
  have e: ?caught
    using every_failure_caught [of c c1 key err c2 e v ks m n] by blast
  show ?thesis
    by (rule conjI [OF a conjI [OF b conjI [OF c conjI [OF d e]]]])
qed

theorem cache_failure_caught_once_connected_witness:
  "cache_set ''user:alice'' (PStr ''x'') 300
     \<lparr>redis_client = False, entries = [], cache_faults = [True], cache_log = []\<rparr> =
   (Inl ConnectionError,
    \<lparr>redis_client = True, entries = [], cache_faults = [],
     cache_log = [(''error'', ''Failed to connect to Redis'')]\<rparr>) \<and>
   raised (cache_get_ttl ''user:alice''
     \<lparr>redis_client = False, entries = [], cache_faults = [True], cache_log = []\<rparr>) \<and>
   cache_get ''user:alice''
     \<lparr>redis_client = False, entries = [(''user:alice'', PStr ''x'', 60)],
      cache_faults = [False, True], cache_log = []\<rparr> =
   (Inr PNone,
    \<lparr>redis_client = True, entries = [(''user:alice'', PStr ''x'', 60)], cache_faults = [],
     cache_log = [(''info'', ''Connected to Redis''), (''warning'', ''Cache get error'')]\<rparr>) \<and>
   fst (cache_set_many [(''user:bob'', PInt 1)] 60
     \<lparr>redis_client = False, entries = [(''user:alice'', PStr ''x'', 60)],
      cache_faults = [False, True], cache_log = []\<rparr>) = Inr False \<and>
   cache_set_many [] 60
     \<lparr>redis_client = False, entries = [(''user:alice'', PStr ''x'', 60)],
      cache_faults = [False, True], cache_log = []\<rparr> =
   (Inr True,
    \<lparr>redis_client = True, entries = [(''user:alice'', PStr ''x'', 60)],
     cache_faults = [True], cache_log = [(''info'', ''Connected to Redis'')]\<rparr>) \<and>
   fst (cache_delete_pattern match_all ''user:'' crowded_cache) = Inr () \<and>
   cache_log (snd (cache_delete_pattern match_all ''user:'' crowded_cache)) =
     [(''warning'', ''Cache delete pattern error'')] \<and>
   cache_increment ''hits'' 1
     \<lparr>redis_client = True, entries = [(''hits'', PStr ''007'', 60)], cache_faults = [],
      cache_log = []\<rparr> =
   (Inr 0,
    \<lparr>redis_client = True, entries = [(''hits'', PStr ''007'', 60)], cache_faults = [],
     cache_log = [(''warning'', ''Cache increment error'')]\<rparr>) \<and>
   cache_set ''hits'' (PStr ''1'') 0
     \<lparr>redis_client = True, entries = [(''hits'', PStr ''007'', 60)], cache_faults = [],
      cache_log = []\<rparr> =
   (Inr False,
    \<lparr>redis_client = True, entries = [(''hits'', PStr ''007'', 60)], cache_faults = [],
     cache_log = [(''warning'', ''Cache set error'')]\<rparr>)"
proof -
  let ?odd = "\<lparr>redis_client = True, entries = [(''hits'', PStr ''007'', 60)], cache_faults = [],
      cache_log = []\<rparr>"
  have odd: "ensure_client ?odd = (Inr (), ?odd)"
    "redis_incrby ''hits'' 1 ?odd = (Inl RedisError, ?odd)"
    "redis_setex ''hits'' 0 (PStr ''1'') ?odd = (Inl RedisError, ?odd)"
    by (simp_all add: ensure_client_def redis_incrby_def redis_setex_def next_fault_def
        parse_int_def nonzero_digit_def digit_val_def valid_expire_def)
  let ?cold = "\<lparr>redis_client = False, entries = [], cache_faults = [True], cache_log = []\<rparr>"
  let ?lazy = "\<lparr>redis_client = False, entries = [(''user:alice'', PStr ''x'', 60)],
      cache_faults = [False, True], cache_log = []\<rparr>"
  let ?warm = "\<lparr>redis_client = True, entries = [(''user:alice'', PStr ''x'', 60)],
      cache_faults = [True], cache_log = [(''info'', ''Connected to Redis'')]\<rparr>"
  have cold: "\<not> redis_client ?cold \<and> cache_faults ?cold = True # []"
    by simp
  have lazy: "ensure_client ?lazy = (Inr (), ?warm) \<and> cache_faults ?warm = True # []"
    by (simp add: ensure_client_def connect_def redis_ping_def next_fault_def log_msg_def)
  have crowded: "ensure_client crowded_cache = (Inr (), crowded_cache)"
    by (simp add: ensure_client_def crowded_cache_def)
  have empty_log: "cache_log crowded_cache = []"
    by (simp add: crowded_cache_def)
  note t = cache_failure_caught_once_connected
  from t [where c = ?cold and fs = "[]" and key = "''user:alice''" and v = "PStr ''x''"
      and e = 300 and ?c1.0 = ?cold and mt = match_all and p = "''user:''" and ks = "[]"
      and m = "[]" and n = 1] cold
  have "cache_set ''user:alice'' (PStr ''x'') 300 ?cold =
      (Inl ConnectionError,
       \<lparr>redis_client = True, entries = [], cache_faults = [],
        cache_log = [(''error'', ''Failed to connect to Redis'')]\<rparr>)"
    "raised (cache_get_ttl ''user:alice'' ?cold)"
    by (simp_all add: Let_def raised_def)
  moreover
  from t [where c = ?lazy and ?c1.0 = ?warm and fs = "[]" and key = "''user:alice''"
      and m = "[(''user:bob'', PInt 1)]" and e = 60 and v = "PStr ''x''" and mt = match_all
      and p = "''user:''" and ks = "[]" and n = 1] lazy
  have "cache_get ''user:alice'' ?lazy =
      (Inr PNone,
       \<lparr>redis_client = True, entries = [(''user:alice'', PStr ''x'', 60)], cache_faults = [],
        cache_log = [(''info'', ''Connected to Redis''), (''warning'', ''Cache get error'')]\<rparr>)"
    "fst (cache_set_many [(''user:bob'', PInt 1)] 60 ?lazy) = Inr False"
    "cache_set_many [] 60 ?lazy = (Inr True, ?warm)"
    by simp_all
  moreover
  from t [where c = crowded_cache and ?c1.0 = crowded_cache and mt = match_all
      and p = "''user:''" and fs = "[]" and key = "''user:alice''" and m = "[]" and e = 60
      and v = "PStr ''x''" and ks = "[]" and n = 1] crowded crowded_commands [of "''user:''"] empty_log
  have "fst (cache_delete_pattern match_all ''user:'' crowded_cache) = Inr ()"
    "cache_log (snd (cache_delete_pattern match_all ''user:'' crowded_cache)) =
       [(''warning'', ''Cache delete pattern error'')]"
    by simp_all
  moreover
  from t [where c = ?odd and ?c1.0 = ?odd and ?c2.0 = ?odd and err = RedisError
      and key = "''hits''" and n = 1 and e = 0 and v = "PStr ''1''" and mt = match_all
      and p = "''user:''" and fs = "[]" and m = "[]" and ks = "[]"] odd
  have "cache_increment ''hits'' 1 ?odd =
      (Inr 0,
       \<lparr>redis_client = True, entries = [(''hits'', PStr ''007'', 60)], cache_faults = [],
        cache_log = [(''warning'', ''Cache increment error'')]\<rparr>)"
    "cache_set ''hits'' (PStr ''1'') 0 ?odd =
      (Inr False,
       \<lparr>redis_client = True, entries = [(''hits'', PStr ''007'', 60)], cache_faults = [],
        cache_log = [(''warning'', ''Cache set error'')]\<rparr>)"
    by simp_all
  ultimately show ?thesis
    by blast
qed

section \<open>Properties of the store client\<close>

lemmas sample_defs = sample_world_def sample_graph_def sample_user_def sample_follows_def
  fresh_cache_def no_rows_def

lemma execute_read_cases:
  "execute_read q ps run w = (res, w') \<Longrightarrow>
     (\<exists>e. res = Inl e) \<or> (\<exists>rows. res = Inr rows \<and> run (db w) = Inr rows)"
  by (auto simp: execute_read_def ensure_driver_def connect_async_def store_fault_def log_event_def
      split: prod.splits sum.splits bool.splits list.splits if_splits)

lemma execute_read_error:
  "execute_read q ps run w = (Inl e, w') \<Longrightarrow> e = StoreError \<or> run (db w) = Inl e"
  by (auto simp: execute_read_def ensure_driver_def connect_async_def store_fault_def log_event_def
      split: prod.splits sum.splits bool.splits list.splits if_splits)

lemma execute_read_ok:
  "store_faults w = [] \<Longrightarrow> run (db w) = Inr rows \<Longrightarrow>
   execute_read q ps run w =
     (Inr rows, w\<lparr>async_driver := True, trace := trace w @ [StoreRead q ps True]\<rparr>)"
  by (cases "async_driver w")
     (auto simp: execute_read_def ensure_driver_def connect_async_def store_fault_def log_event_def)



lemma execute_write_trace:
  "execute_write q ps run w = (res, w1) \<Longrightarrow>
     trace w1 = trace w @ [StoreWrite q ps (\<not> isl res)] \<and> cache w1 = cache w"
  by (auto simp: execute_write_def ensure_driver_def connect_async_def store_fault_def log_event_def
      split: prod.splits sum.splits bool.splits list.splits if_splits)

lemma execute_read_trace:
  "execute_read q ps run w = (res, w1) \<Longrightarrow>
     trace w1 = trace w @ [StoreRead q ps (\<not> isl res)] \<and> cache w1 = cache w \<and> db w1 = db w"
  by (auto simp: execute_read_def ensure_driver_def connect_async_def store_fault_def log_event_def
      split: prod.splits sum.splits bool.splits list.splits if_splits)

lemma cache_call_trace:
  "cache_call ev f w = (r, w1) \<Longrightarrow> trace w1 = trace w @ [ev]"
  by (auto simp: cache_call_def split: prod.splits)

lemma cache_call_frame:
  "cache_call ev f w = (r, w') \<Longrightarrow>
     db w' = db w \<and> store_faults w' = store_faults w \<and> async_driver w' = async_driver w \<and>
     cypher w' = cypher w"
  by (auto simp: cache_call_def split: prod.splits)

lemma cache_call_cache:
  "cache_call ev f w = (r, w') \<Longrightarrow> (r, cache w') = f (cache w)"
  by (auto simp: cache_call_def split: prod.splits)

lemma new_events_append:
  "trace (snd res) = trace w @ evs \<Longrightarrow> new_events w res = evs"
  by (simp add: new_events_def)

lemma reverse_clause_query: "reverse_clause (create_relationship_query b) = b"
proof (cases b)
  case True
  have "create_relationship_query_reverse =
      ''\<newline>            '' @ ''CREATE (b)-[r2:RELATES_TO {'' @
      drop 40 create_relationship_query_reverse"
    by (simp add: create_relationship_query_reverse_def)
  then have "create_relationship_query True =
      (create_relationship_query_head @ ''\<newline>            '') @
      ''CREATE (b)-[r2:RELATES_TO {'' @
      (drop 40 create_relationship_query_reverse @ create_relationship_query_tail)"
    by (simp add: create_relationship_query_def)
  then have "sublist ''CREATE (b)-[r2:RELATES_TO {'' (create_relationship_query True)"
    unfolding sublist_def by blast
  with True show ?thesis
    by (simp add: reverse_clause_def)
next
  case False
  have "\<not> sublist ''CREATE (b)-[r2:RELATES_TO {''
      (create_relationship_query_head @ create_relationship_query_tail)"
    by (simp add: create_relationship_query_head_def create_relationship_query_tail_def
        sublist_code)
  with False show ?thesis
    by (simp add: reverse_clause_def create_relationship_query_def)
qed

section \<open>Community density\<close>

lemma density_small:
  "length members < 2 \<Longrightarrow> calculate_community_density members w = (Inr 0, w)"
  by (simp add: calculate_community_density_def)

lemma max_edges_pos:
  assumes "2 \<le> (n::nat)"
  shows "0 < real n * (real n - 1) / 2"
proof -
  have "0 < real n" and "0 < real n - 1" using assms by simp_all
  then have "0 < real n * (real n - 1)" by (rule mult_pos_pos)
  then show ?thesis by simp
qed

lemma density_quotient:
  assumes "2 \<le> (n::nat)"
  shows "(if real n * (real n - 1) / 2 > 0 then py_div c (real n * (real n - 1) / 2) else Inr 0)
     = Inr (c / (real n * (real n - 1) / 2))"
proof -
  have pos: "0 < real n * (real n - 1) / 2" using assms by (rule max_edges_pos)
  then have "real n * (real n - 1) / 2 \<noteq> 0" by linarith
  with pos show ?thesis unfolding py_div_def by (simp only: if_True if_False)
qed

lemma density_no_zero_division:
  "fst (calculate_community_density members w) \<noteq> Inl ZeroDivisionError"
proof (cases "length members < 2")
  case True
  then show ?thesis by (simp add: density_small)
next
  case False
  then have two: "2 \<le> length members" by simp
  show ?thesis
  proof (cases "those (map (\<lambda>m. map_of m ''id'') members)")
    case None
    with False show ?thesis by (simp add: calculate_community_density_def)
  next
    case (Some ids)
    obtain res w1 where r: "execute_read community_density_query [(''ids'', PList ids)] (cy_density ids) w = (res, w1)"
      by (cases "execute_read community_density_query [(''ids'', PList ids)] (cy_density ids) w")
    show ?thesis
    proof (cases res)
      case (Inl e)
      with execute_read_error [of _ _ "cy_density ids" w e w1] r
      have "e = StoreError" by (auto simp: cy_density_def)
      with False Some r Inl show ?thesis by (simp add: calculate_community_density_def)
    next
      case (Inr rows)
      have "calculate_community_density members w =
        (Inr (real (case rows of [] \<Rightarrow> 0 | c # cs \<Rightarrow> c) /
           (real (length members) * (real (length members) - 1) / 2)), w1)"
        unfolding calculate_community_density_def Let_def
        using False Some r Inr by (simp only: if_False option.case prod.case sum.case density_quotient [OF two])
      then show ?thesis by simp
    qed
  qed
qed

lemma density_value:
  assumes "2 \<le> length members" "those (map (\<lambda>m. map_of m ''id'') members) = Some ids"
    "store_faults w = []"
  shows "fst (calculate_community_density members w) =
     Inr (real (density_edge_count ids (db w)) /
          (real (length members) * (real (length members) - 1) / 2))"
proof -
  have nt: "\<not> length members < 2" using assms(1) by simp
  have r: "execute_read community_density_query [(''ids'', PList ids)] (cy_density ids) w =
     (Inr [density_edge_count ids (db w)],
      w\<lparr>async_driver := True,
        trace := trace w @ [StoreRead community_density_query [(''ids'', PList ids)] True]\<rparr>)"
    by (rule execute_read_ok [OF assms(3)]) (simp add: cy_density_def)
  show ?thesis
    unfolding calculate_community_density_def Let_def
    using nt assms(2) r
    by (simp only: if_False option.case prod.case sum.case list.case fst_conv
        density_quotient [OF assms(1)])
qed

text \<open>
  C7: community density is the number of relationships among the members divided by
  \<open>members * (members - 1) / 2\<close>; for a community of 0 or 1 members it is exactly 0,
  nothing is asked of the store, and no division by zero is ever performed: whatever
  the members, the store and its failures, the operation never ends in a
  \<open>ZeroDivisionError\<close>. With two or more members that all carry an \<open>id\<close> and a store
  that answers, the result is the quotient, and its divisor is not zero.
\<close>

theorem community_density_defined:
  "(length members < 2 \<longrightarrow> calculate_community_density members w = (Inr 0, w)) \<and>
   fst (calculate_community_density members w) \<noteq> Inl ZeroDivisionError \<and>
   (2 \<le> length members \<and> those (map (\<lambda>m. map_of m ''id'') members) = Some ids \<and>
    store_faults w = [] \<longrightarrow>
      fst (calculate_community_density members w) =
        Inr (real (density_edge_count ids (db w)) /
             (real (length members) * (real (length members) - 1) / 2)) \<and>
      real (length members) * (real (length members) - 1) / 2 \<noteq> 0)"
proof -
  have "2 \<le> length members \<Longrightarrow> real (length members) * (real (length members) - 1) / 2 \<noteq> 0"
    using max_edges_pos [of "length members"] by linarith
  then show ?thesis
    using density_small [of members w] density_no_zero_division [of members w]
      density_value [of members ids w]
    by blast
qed

theorem community_density_defined_witness:
  "calculate_community_density [] sample_world = (Inr 0, sample_world) \<and>
   calculate_community_density [[(''id'', PStr ''alice'')]] sample_world = (Inr 0, sample_world) \<and>
   fst (calculate_community_density sample_members sample_world) = Inr (2 / 3)"
proof -
  have ids: "those (map (\<lambda>m. map_of m ''id'') sample_members) =
      Some [PStr ''alice'', PStr ''bob'', PStr ''carol'']"
    by (simp add: sample_members_def)
  have cnt: "density_edge_count [PStr ''alice'', PStr ''bob'', PStr ''carol''] (db sample_world) = 2"
    by (simp add: sample_defs density_edge_count_def user_at_def is_user_def id_of_def is_str_def)
  have len: "length sample_members = 3"
    by (simp add: sample_members_def)
  have nf: "store_faults sample_world = []"
    by (simp add: sample_world_def)
  show ?thesis
    using community_density_defined [of "[]" sample_world]
      community_density_defined [of "[[(''id'', PStr ''alice'')]]" sample_world]
      community_density_defined [of sample_members sample_world
        "[PStr ''alice'', PStr ''bob'', PStr ''carol'']"]
      ids cnt len nf
    by simp
qed

section \<open>Influence score\<close>

lemma degree_measure:
  "\<exists>n. 0 \<le> n \<and> dict_get (fst (centrality_measures user_id w)) ''degree'' (PInt 0) = PInt n"
proof -
  obtain r1 w1 where r: "execute_read degree_query [(''user_id'', PStr user_id)] (cy_degree user_id) w = (r1, w1)"
    by (cases "execute_read degree_query [(''user_id'', PStr user_id)] (cy_degree user_id) w")
  have d: "dict_get (fst (centrality_measures user_id w)) ''degree'' (PInt 0) =
     (case r1 of Inl e \<Rightarrow> PInt 0 | Inr result \<Rightarrow> measure_value ''degree'' result)"
    using r by (simp add: centrality_measures_def Let_def dict_get_def split: prod.splits)
  show ?thesis
  proof (cases r1)
    case (Inl e)
    with d show ?thesis by simp
  next
    case (Inr rows)
    with execute_read_cases [OF r] have "cy_degree user_id (db w) = Inr rows" by simp
    then have "measure_value ''degree'' rows =
        PInt (int (length (concat (map (incident (db w)) (match_user (db w) user_id)))))"
      by (auto simp: cy_degree_def measure_value_def dict_get_def)
    with d Inr show ?thesis by simp
  qed
qed

lemma influence_result:
  "fst (calculate_influence_score user_id w) =
     (case (number (dict_get (fst (centrality_measures user_id w)) ''degree'' (PInt 0)),
            number (dict_get (fst (centrality_measures user_id w)) ''betweenness'' (PInt 0)),
            number (dict_get (fst (centrality_measures user_id w)) ''closeness'' (PInt 0))) of
        (Inr d, Inr b, Inr c) \<Rightarrow> Inr (min 100 ((d * 0.3 + b * 0.4 + c * 0.3) * 10))
      | _ \<Rightarrow> Inl TypeError)"
  by (simp add: calculate_influence_score_def Let_def split: prod.splits sum.splits)

lemma clamped:
  "0 \<le> (d::real) \<Longrightarrow> 0 \<le> b \<Longrightarrow> 0 \<le> c \<Longrightarrow>
     min 100 ((d * 0.3 + b * 0.4 + c * 0.3) * 10) =
       max 0 (min 100 ((d * 0.3 + b * 0.4 + c * 0.3) * 10))"
  by simp

lemma closeness_differs: "closeness_query \<noteq> betweenness_query"
  by (simp add: closeness_query_def betweenness_query_def)

lemma execute_read_opaque:
  "store_faults w = [] \<Longrightarrow>
   execute_read q ps (run_opaque w0 q0 ps0) w =
     (Inr (fst (cypher w0 q0 ps0 (db w))),
      w\<lparr>async_driver := True, trace := trace w @ [StoreRead q ps True]\<rparr>)"
  by (rule execute_read_ok) (simp_all add: run_opaque_def)

lemma centrality_measures_ok:
  assumes "store_faults w = []"
  shows "fst (centrality_measures user_id w) =
    [(''degree'',
      PInt (int (length (concat (map (incident (db w)) (match_user (db w) user_id)))))),
     (''betweenness'',
      measure_value ''score'' (fst (cypher w betweenness_query [(''user_id'', PStr user_id)] (db w)))),
     (''closeness'',
      measure_value ''score'' (fst (cypher w closeness_query [(''user_id'', PStr user_id)] (db w))))]"
proof -
  let ?ps = "[(''user_id'', PStr user_id)]"
  let ?w1 = "w\<lparr>async_driver := True, trace := trace w @ [StoreRead degree_query ?ps True]\<rparr>"
  let ?w2 = "?w1\<lparr>async_driver := True,
      trace := trace ?w1 @ [StoreRead betweenness_query ?ps True]\<rparr>"
  have a: "execute_read degree_query ?ps (cy_degree user_id) w =
      (Inr [[(''degree'',
              PInt (int (length (concat (map (incident (db w)) (match_user (db w) user_id))))))]],
       ?w1)"
    by (rule execute_read_ok [where run = "cy_degree user_id"])
       (simp_all add: assms cy_degree_def)
  have b: "execute_read betweenness_query ?ps (run_opaque ?w1 betweenness_query ?ps) ?w1 =
      (Inr (fst (cypher w betweenness_query ?ps (db w))), ?w2)"
    using execute_read_opaque [of ?w1 betweenness_query ?ps ?w1 betweenness_query ?ps] assms
    by simp
  have c: "execute_read closeness_query ?ps (run_opaque ?w2 closeness_query ?ps) ?w2 =
      (Inr (fst (cypher w closeness_query ?ps (db w))),
       ?w2\<lparr>async_driver := True, trace := trace ?w2 @ [StoreRead closeness_query ?ps True]\<rparr>)"
    using execute_read_opaque [of ?w2 closeness_query ?ps ?w2 closeness_query ?ps] assms
    by simp
  show ?thesis
    using c by (simp add: centrality_measures_def a b Let_def measure_value_def dict_get_def)
qed

text \<open>
  C6: the betweenness and the closeness that the store computes for a user are numbers
  that are not negative (and 0 when the store fails); the degree is a count. Then
  \<open>calculate_influence_score\<close> returns, for every user and whatever the store's failures,
  the weighted sum \<open>degree * 0.3 + betweenness * 0.4 + closeness * 0.3\<close> of the measures of
  \<open>centrality_measures\<close>, scaled by 10 and clamped to the interval from 0 to 100. When the
  store does not fail, the degree is the number of relationships at the user's node,
  and the betweenness and the closeness are the scores in the first row that the store
  returns for their queries, or 0 when it returns no row.
\<close>

theorem influence_score_clamped:
  assumes "number (dict_get (fst (centrality_measures user_id w)) ''betweenness'' (PInt 0)) = Inr b"
    and "0 \<le> b"
    and "number (dict_get (fst (centrality_measures user_id w)) ''closeness'' (PInt 0)) = Inr c"
    and "0 \<le> c"
  shows "\<exists>d s.
     number (dict_get (fst (centrality_measures user_id w)) ''degree'' (PInt 0)) = Inr d \<and>
     0 \<le> d \<and>
     fst (calculate_influence_score user_id w) = Inr s \<and>
     s = max 0 (min 100 ((d * 0.3 + b * 0.4 + c * 0.3) * 10)) \<and>
     0 \<le> s \<and> s \<le> 100 \<and>
     (store_faults w = [] \<longrightarrow>
        d = real (length (concat (map (incident (db w)) (match_user (db w) user_id)))) \<and>
        number (measure_value ''score''
          (fst (cypher w betweenness_query [(''user_id'', PStr user_id)] (db w)))) = Inr b \<and>
        number (measure_value ''score''
          (fst (cypher w closeness_query [(''user_id'', PStr user_id)] (db w)))) = Inr c)"
proof -
  obtain n where n: "0 \<le> n"
    "dict_get (fst (centrality_measures user_id w)) ''degree'' (PInt 0) = PInt n"
    using degree_measure by blast
  let ?d = "real_of_int n"
  let ?s = "max 0 (min 100 ((?d * 0.3 + b * 0.4 + c * 0.3) * 10))"
  from n have d: "number (dict_get (fst (centrality_measures user_id w)) ''degree'' (PInt 0)) =
      Inr ?d" "0 \<le> ?d"
    by simp_all
  have "fst (calculate_influence_score user_id w) =
      Inr (min 100 ((?d * 0.3 + b * 0.4 + c * 0.3) * 10))"
    by (simp only: influence_result d(1) assms(1) assms(3) prod.case sum.case)
  also have "min 100 ((?d * 0.3 + b * 0.4 + c * 0.3) * 10) = ?s"
    using d(2) assms(2) assms(4) by (rule clamped)
  finally have r: "fst (calculate_influence_score user_id w) = Inr ?s" .
  have bounds: "0 \<le> ?s" "?s \<le> 100"
    by simp_all
  have quiet: "store_faults w = [] \<longrightarrow>
        ?d = real (length (concat (map (incident (db w)) (match_user (db w) user_id)))) \<and>
        number (measure_value ''score''
          (fst (cypher w betweenness_query [(''user_id'', PStr user_id)] (db w)))) = Inr b \<and>
        number (measure_value ''score''
          (fst (cypher w closeness_query [(''user_id'', PStr user_id)] (db w)))) = Inr c"
  proof
    assume "store_faults w = []"
    from centrality_measures_ok [OF this, of user_id] n(2) assms(1) assms(3)
    show "?d = real (length (concat (map (incident (db w)) (match_user (db w) user_id)))) \<and>
        number (measure_value ''score''
          (fst (cypher w betweenness_query [(''user_id'', PStr user_id)] (db w)))) = Inr b \<and>
        number (measure_value ''score''
          (fst (cypher w closeness_query [(''user_id'', PStr user_id)] (db w)))) = Inr c"
      by (simp add: dict_get_def)
  qed
  from d r bounds quiet show ?thesis
    by blast
qed

theorem influence_score_clamped_witness:
  "fst (calculate_influence_score ''bob'' sample_world) = Inr 6 \<and>
   fst (calculate_influence_score ''bob'' (sample_world\<lparr>cypher := central_scores\<rparr>)) = Inr 100 \<and>
   number (measure_value ''score''
     (fst (central_scores betweenness_query [(''user_id'', PStr ''bob'')] sample_graph))) = Inr 40"
proof -
  have calm: "store_faults (sample_world\<lparr>cypher := central_scores\<rparr>) = []"
    "db (sample_world\<lparr>cypher := central_scores\<rparr>) = sample_graph"
    by (simp_all add: sample_world_def)
  have quiet: "fst (centrality_measures ''bob'' sample_world) =
      [(''degree'', PInt 2), (''betweenness'', PInt 0), (''closeness'', PInt 0)]"
    by (simp add: centrality_measures_def execute_read_def ensure_driver_def connect_async_def
        store_fault_def log_event_def cy_degree_def run_opaque_def measure_value_def dict_get_def
        sample_defs match_user_def is_user_def id_of_def incident_def Let_def)
  have busy: "fst (centrality_measures ''bob'' (sample_world\<lparr>cypher := central_scores\<rparr>)) =
      [(''degree'', PInt 2), (''betweenness'', PFloat 40), (''closeness'', PFloat (1 / 2))]"
    by (simp add: centrality_measures_def execute_read_def ensure_driver_def connect_async_def
        store_fault_def log_event_def cy_degree_def run_opaque_def measure_value_def dict_get_def
        sample_defs match_user_def is_user_def id_of_def incident_def Let_def
        central_scores_def closeness_differs)
  from influence_score_clamped [where user_id = "''bob''" and w = sample_world and b = 0
      and c = 0]
  have "fst (calculate_influence_score ''bob'' sample_world) = Inr 6"
    by (simp add: quiet dict_get_def)
  moreover
  from influence_score_clamped [where user_id = "''bob''"
      and w = "sample_world\<lparr>cypher := central_scores\<rparr>" and b = 40 and c = "1 / 2"]
  have "fst (calculate_influence_score ''bob'' (sample_world\<lparr>cypher := central_scores\<rparr>)) =
      Inr 100"
    "number (measure_value ''score''
       (fst (central_scores betweenness_query [(''user_id'', PStr ''bob'')] sample_graph))) = Inr 40"
    using calm by (simp_all add: busy dict_get_def)
  ultimately show ?thesis
    by simp
qed

section \<open>Statistics\<close>










section \<open>Recommendations\<close>

lemma reach_source:
  "(u, r) \<in> set (reach_2_3 g uid) \<Longrightarrow> u \<in> set (match_user g uid)"
  by (auto simp: reach_2_3_def)

lemma reach_target:
  "(u, r) \<in> set (reach_2_3 g uid) \<Longrightarrow> r \<in> set (nodes g) \<and> is_user r"
  by (auto simp: reach_2_3_def user_at_def)

lemma count_groups_fst: "fst ` set (count_groups xs) = set xs"
  by (auto simp: count_groups_def image_iff)

lemma cy_recommend_row:
  assumes "cy_recommend uid limit g = Inr rows" "(r, c, ms) \<in> set rows"
  shows "r \<in> set (nodes g) \<and> is_user r \<and>
    (\<exists>u \<in> set (match_user g uid). \<not> connected g u r \<and> nid u \<noteq> nid r)"
proof -
  let ?rows = "filter (\<lambda>(u, r). \<not> connected g u r \<and> nid u \<noteq> nid r) (reach_2_3 g uid)"
  let ?ranked = "sort_key (\<lambda>rc. - int (snd rc)) (count_groups (map snd ?rows))"
  from assms have "(r, c, ms) \<in> set (filter (\<lambda>(r, c, ms). ms \<noteq> [])
      (map (\<lambda>(r, c). (r, c, mutuals g uid r)) (take (nat limit) ?ranked)))"
    by (auto simp: cy_recommend_def Let_def split: if_splits)
  then have "(r, c) \<in> set (take (nat limit) ?ranked)" by auto
  then have "(r, c) \<in> set ?ranked" by (rule in_set_takeD)
  then have "(r, c) \<in> set (count_groups (map snd ?rows))" by simp
  then have "r \<in> fst ` set (count_groups (map snd ?rows))" by force
  then have "r \<in> set (map snd ?rows)" by (simp only: count_groups_fst)
  then obtain u where "(u, r) \<in> set ?rows" by auto
  then have "(u, r) \<in> set (reach_2_3 g uid)" "\<not> connected g u r \<and> nid u \<noteq> nid r" by auto
  with reach_source reach_target show ?thesis by blast
qed

lemma recommend_rows:
  assumes "fst (recommend_connections uid limit w) = Inr recs" "rec \<in> set recs"
  shows "\<exists>rows c ms. cy_recommend uid limit (db w) = Inr rows \<and> (user rec, c, ms) \<in> set rows"
proof -
  obtain res w1 where r: "execute_read recommend_connections_query
       [(''id'', PStr uid), (''limit'', PInt limit)] (cy_recommend uid limit) w = (res, w1)"
    by (cases "execute_read recommend_connections_query
       [(''id'', PStr uid), (''limit'', PInt limit)] (cy_recommend uid limit) w")
  with assms(1) obtain rows where rows: "res = Inr rows"
    by (cases res) (auto simp: recommend_connections_def)
  with execute_read_cases [OF r] have cy: "cy_recommend uid limit (db w) = Inr rows" by simp
  from assms r rows have "rec \<in> set (map (\<lambda>(recommended, mutual_count, mutual).
                  \<lparr>user = recommended,
                   score = real mutual_count / 10,
                   reason = ''You have '' @ str_int (int mutual_count) @ '' mutual connections'',
                   mutual_connections = take 5 mutual\<rparr>) rows)"
    by (simp add: recommend_connections_def)
  then obtain x where "x \<in> set rows" "user rec = fst x" by (auto split: prod.splits)
  then have "(user rec, fst (snd x), snd (snd x)) \<in> set rows" by simp
  with cy show ?thesis by blast
qed

lemma recommend_returns:
  assumes "store_faults w = []" "0 \<le> limit"
  shows "\<exists>recs. fst (recommend_connections uid limit w) = Inr recs"
proof -
  from assms(2) obtain rows where "cy_recommend uid limit (db w) = Inr rows"
    by (simp add: cy_recommend_def Let_def)
  with assms(1) have "execute_read recommend_connections_query
       [(''id'', PStr uid), (''limit'', PInt limit)] (cy_recommend uid limit) w =
       (Inr rows, w\<lparr>async_driver := True, trace := trace w @ [StoreRead recommend_connections_query
       [(''id'', PStr uid), (''limit'', PInt limit)] True]\<rparr>)"
    by (rule execute_read_ok [where run = "cy_recommend uid limit"])
  then show ?thesis by (simp add: recommend_connections_def)
qed

lemma recommend_excludes:
  assumes "match_user (db w) uid = [u]"
    and "fst (recommend_connections uid limit w) = Inr recs"
    and "rec \<in> set recs"
  shows "nid (user rec) \<noteq> nid u \<and> user rec \<noteq> u \<and> id_of (user rec) \<noteq> Some (PStr uid) \<and>
    \<not> connected (db w) u (user rec)"
proof -
  from recommend_rows [OF assms(2,3)] obtain rows c ms where
    "cy_recommend uid limit (db w) = Inr rows" "(user rec, c, ms) \<in> set rows"
    by blast
  from cy_recommend_row [OF this] assms(1)
  have m: "user rec \<in> set (nodes (db w))" "is_user (user rec)"
    and x: "\<not> connected (db w) u (user rec)" "nid u \<noteq> nid (user rec)"
    by auto
  have "id_of (user rec) \<noteq> Some (PStr uid)"
  proof
    assume "id_of (user rec) = Some (PStr uid)"
    with m have "user rec \<in> set (match_user (db w) uid)"
      by (simp add: match_user_def)
    with assms(1) x(2) show False
      by simp
  qed
  with x show ?thesis
    by auto
qed

text \<open>
  C5: the list that \<open>recommend_connections\<close> returns for a user, whatever the limit,
  never contains that user and never contains a user with a relationship to or from
  that user. User ids are unique in the store (the constraint \<open>user_id_unique\<close>): \<open>u\<close>
  is the one \<open>User\<close> node that carries the id. With a store that answers and a limit
  that is not negative, the operation returns a list.
\<close>

theorem recommendation_exclusion:
  "(store_faults w = [] \<and> 0 \<le> limit \<longrightarrow>
      (\<exists>recs. fst (recommend_connections uid limit w) = Inr recs)) \<and>
   (match_user (db w) uid = [u] \<and> fst (recommend_connections uid limit w) = Inr recs \<and>
    rec \<in> set recs \<longrightarrow>
      nid (user rec) \<noteq> nid u \<and> user rec \<noteq> u \<and> id_of (user rec) \<noteq> Some (PStr uid) \<and>
      \<not> connected (db w) u (user rec))"
  using recommend_returns [of w limit uid] recommend_excludes [of w uid u limit recs rec]
  by blast

lemma sample_recommendation:
  "fst (recommend_connections ''alice'' 10 sample_world) =
     Inr [\<lparr>user = sample_user 3 ''carol'', score = 1 / 10,
            reason = ''You have 1 mutual connections'',
            mutual_connections = [sample_user 2 ''bob'']\<rparr>]"
proof -
  have "cy_recommend ''alice'' 10 (db sample_world) =
      Inr [(sample_user 3 ''carol'', 1, [sample_user 2 ''bob''])]"
    by (simp add: sample_defs match_user_def is_user_def id_of_def reach_2_3_def hops_def
        user_at_def cy_recommend_def connected_def count_groups_def mutuals_def Let_def)
  moreover have "store_faults sample_world = []"
    by (simp add: sample_world_def)
  ultimately have "execute_read recommend_connections_query
       [(''id'', PStr ''alice''), (''limit'', PInt 10)] (cy_recommend ''alice'' 10) sample_world =
     (Inr [(sample_user 3 ''carol'', 1, [sample_user 2 ''bob''])],
      sample_world\<lparr>async_driver := True,
        trace := trace sample_world @ [StoreRead recommend_connections_query
          [(''id'', PStr ''alice''), (''limit'', PInt 10)] True]\<rparr>)"
    by (intro execute_read_ok [where run = "cy_recommend ''alice'' 10"])
  then show ?thesis
    by (simp add: recommend_connections_def str_int_def digit_char_def)
qed

theorem recommendation_exclusion_witness:
  "fst (recommend_connections ''alice'' 10 sample_world) =
     Inr [\<lparr>user = sample_user 3 ''carol'', score = 1 / 10,
            reason = ''You have 1 mutual connections'',
            mutual_connections = [sample_user 2 ''bob'']\<rparr>] \<and>
   sample_user 3 ''carol'' \<noteq> sample_user 1 ''alice'' \<and>
   id_of (sample_user 3 ''carol'') \<noteq> Some (PStr ''alice'') \<and>
   \<not> connected (db sample_world) (sample_user 1 ''alice'') (sample_user 3 ''carol'')"
proof -
  have m: "match_user (db sample_world) ''alice'' = [sample_user 1 ''alice'']"
    by (simp add: sample_defs match_user_def is_user_def id_of_def)
  show ?thesis
    using recommendation_exclusion [of sample_world 10 "''alice''" "sample_user 1 ''alice''"
        "[\<lparr>user = sample_user 3 ''carol'', score = 1 / 10,
            reason = ''You have 1 mutual connections'',
            mutual_connections = [sample_user 2 ''bob'']\<rparr>]"
        "\<lparr>user = sample_user 3 ''carol'', score = 1 / 10,
            reason = ''You have 1 mutual connections'',
            mutual_connections = [sample_user 2 ''bob'']\<rparr>"]
      m sample_recommendation
    by simp
qed

section \<open>Bidirectional relationships\<close>



lemma rel_props_fields:
  "map_of (rel_props (relationship_params rd rel_id id2 now) ''id'') ''id'' = Some (PStr rel_id)"
  "bidirectional rd \<Longrightarrow>
     map_of (rel_props (relationship_params rd rel_id id2 now) ''id2'') ''id'' = Some (PStr id2)"
  "map_of (rel_props (relationship_params rd rel_id id2 now) k) ''created_at'' = Some (PStr now)"
  by (simp_all add: rel_props_def set_props_def dict_get_def relationship_params_def
      split: option.splits)




section \<open>The order of store writes and cache invalidations\<close>

lemma create_user_events:
  "\<exists>ok ks. new_events w (create_user ud uid now w) =
      StoreWrite create_user_query (user_params ud uid now) ok # map CacheDelete ks \<and>
      (ok \<or> ks = [])"
proof -
  let ?ps = "user_params ud uid now"
  obtain res w1 where r: "execute_write create_user_query ?ps (cy_create_user ?ps) w = (res, w1)"
    by (cases "execute_write create_user_query ?ps (cy_create_user ?ps) w")
  note t1 = execute_write_trace [OF r]
  show ?thesis
  proof (cases res)
    case (Inl e)
    with r t1 have "trace (snd (create_user ud uid now w)) =
        trace w @ (StoreWrite create_user_query ?ps False # map CacheDelete [])"
      by (simp add: create_user_def Let_def)
    from new_events_append [OF this] show ?thesis by blast
  next
    case (Inr rows)
    obtain r2 w2 where c: "cache_call (CacheDelete (user_key uid)) (cache_delete (user_key uid)) w1 = (r2, w2)"
      by (cases "cache_call (CacheDelete (user_key uid)) (cache_delete (user_key uid)) w1")
    note t2 = cache_call_trace [OF c]
    from r Inr c t1 t2 have "trace (snd (create_user ud uid now w)) =
        trace w @ (StoreWrite create_user_query ?ps True # map CacheDelete [user_key uid])"
      by (auto simp: create_user_def Let_def split: sum.splits list.splits)
    from new_events_append [OF this] show ?thesis by blast
  qed
qed

lemma update_user_events:
  "\<exists>ok ks. new_events w (update_user uid ups now w) =
      StoreWrite (update_user_query (map fst (stamped ups now)))
        (update_params uid (stamped ups now)) ok # map CacheDelete ks \<and>
      (ok \<or> ks = [])"
proof -
  let ?q = "update_user_query (map fst (stamped ups now))"
  let ?ps = "update_params uid (stamped ups now)"
  obtain res w1 where r: "execute_write ?q ?ps (run_opaque_write w ?q ?ps) w = (res, w1)"
    by (cases "execute_write ?q ?ps (run_opaque_write w ?q ?ps) w")
  note t1 = execute_write_trace [OF r]
  show ?thesis
  proof (cases res)
    case (Inl e)
    with r t1 have "trace (snd (update_user uid ups now w)) =
        trace w @ (StoreWrite ?q ?ps False # map CacheDelete [])"
      by (simp add: update_user_def Let_def)
    from new_events_append [OF this] show ?thesis by blast
  next
    case (Inr rows)
    obtain r2 w2 where c: "cache_call (CacheDelete (user_key uid)) (cache_delete (user_key uid)) w1 = (r2, w2)"
      by (cases "cache_call (CacheDelete (user_key uid)) (cache_delete (user_key uid)) w1")
    note t2 = cache_call_trace [OF c]
    from r Inr c t1 t2 have "trace (snd (update_user uid ups now w)) =
        trace w @ (StoreWrite ?q ?ps True # map CacheDelete [user_key uid])"
      by (auto simp: update_user_def Let_def split: sum.splits list.splits option.splits)
    from new_events_append [OF this] show ?thesis by blast
  qed
qed

lemma delete_user_events:
  "\<exists>ok ks. new_events w (delete_user uid w) =
      StoreWrite delete_user_query [(''id'', PStr uid)] ok # map CacheDelete ks \<and>
      (ok \<or> ks = [])"
proof -
  let ?ps = "[(''id'', PStr uid)]"
  obtain res w1 where r: "execute_write delete_user_query ?ps (cy_delete_user uid) w = (res, w1)"
    by (cases "execute_write delete_user_query ?ps (cy_delete_user uid) w")
  note t1 = execute_write_trace [OF r]
  show ?thesis
  proof (cases res)
    case (Inl e)
    with r t1 have "trace (snd (delete_user uid w)) =
        trace w @ (StoreWrite delete_user_query ?ps False # map CacheDelete [])"
      by (simp add: delete_user_def Let_def)
    from new_events_append [OF this] show ?thesis by blast
  next
    case (Inr rows)
    obtain r2 w2 where c: "cache_call (CacheDelete (user_key uid)) (cache_delete (user_key uid)) w1 = (r2, w2)"
      by (cases "cache_call (CacheDelete (user_key uid)) (cache_delete (user_key uid)) w1")
    note t2 = cache_call_trace [OF c]
    from r Inr c t1 t2 have "trace (snd (delete_user uid w)) =
        trace w @ (StoreWrite delete_user_query ?ps True # map CacheDelete [user_key uid])"
      by (auto simp: delete_user_def Let_def split: sum.splits list.splits)
    from new_events_append [OF this] show ?thesis by blast
  qed
qed

lemma create_relationship_events:
  "\<exists>ok ks. new_events w (create_relationship rd rid id2 now w) =
      StoreWrite (create_relationship_query (bidirectional rd))
        (relationship_params rd rid id2 now) ok # map CacheDelete ks \<and>
      (ok \<or> ks = [])"
proof -
  let ?q = "create_relationship_query (bidirectional rd)"
  let ?ps = "relationship_params rd rid id2 now"
  let ?run = "cy_create_relationship ?ps ?q (from_user_id rd) (to_user_id rd)"
  let ?k1 = "''user:'' @ from_user_id rd @ '':relationships''"
  let ?k2 = "''user:'' @ to_user_id rd @ '':relationships''"
  obtain res w1 where r: "execute_write ?q ?ps ?run w = (res, w1)"
    by (cases "execute_write ?q ?ps ?run w")
  note t1 = execute_write_trace [OF r]
  show ?thesis
  proof (cases res)
    case (Inl e)
    with r t1 have "trace (snd (create_relationship rd rid id2 now w)) =
        trace w @ (StoreWrite ?q ?ps False # map CacheDelete [])"
      by (simp add: create_relationship_def Let_def)
    from new_events_append [OF this] show ?thesis by blast
  next
    case (Inr rows)
    obtain r2 w2 where c: "cache_call (CacheDelete ?k1) (cache_delete ?k1) w1 = (r2, w2)"
      by (cases "cache_call (CacheDelete ?k1) (cache_delete ?k1) w1")
    note t2 = cache_call_trace [OF c]
    show ?thesis
    proof (cases r2)
      case e2: (Inl e)
      with r Inr c t1 t2 have "trace (snd (create_relationship rd rid id2 now w)) =
          trace w @ (StoreWrite ?q ?ps True # map CacheDelete [?k1])"
        by (simp add: create_relationship_def Let_def)
      from new_events_append [OF this] show ?thesis by blast
    next
      case u2: (Inr u)
      obtain r3 w3 where d: "cache_call (CacheDelete ?k2) (cache_delete ?k2) w2 = (r3, w3)"
        by (cases "cache_call (CacheDelete ?k2) (cache_delete ?k2) w2")
      note t3 = cache_call_trace [OF d]
      from r Inr c u2 d t1 t2 t3 have "trace (snd (create_relationship rd rid id2 now w)) =
          trace w @ (StoreWrite ?q ?ps True # map CacheDelete [?k1, ?k2])"
        by (auto simp: create_relationship_def Let_def split: sum.splits list.splits)
      from new_events_append [OF this] show ?thesis by blast
    qed
  qed
qed

lemma delete_relationship_events:
  "\<exists>ok. new_events w (delete_relationship rid w) =
      [StoreWrite delete_relationship_query [(''id'', PStr rid)] ok]"
proof -
  let ?ps = "[(''id'', PStr rid)]"
  obtain res w1 where r: "execute_write delete_relationship_query ?ps (cy_delete_relationship rid) w = (res, w1)"
    by (cases "execute_write delete_relationship_query ?ps (cy_delete_relationship rid) w")
  note t1 = execute_write_trace [OF r]
  from r t1 have "trace (snd (delete_relationship rid w)) =
      trace w @ [StoreWrite delete_relationship_query ?ps (\<not> isl res)]"
    by (auto simp: delete_relationship_def split: sum.splits)
  from new_events_append [OF this] show ?thesis by blast
qed

lemma queries_sent_deletes: "queries_sent (map CacheDelete ks) = []"
  by (induction ks) simp_all

lemma parameters_sent_deletes: "parameters_sent (map CacheDelete ks) = []"
  by (induction ks) simp_all

text \<open>
  C4: in every execution of \<open>create_user\<close>, \<open>update_user\<close>, \<open>delete_user\<close>,
  \<open>create_relationship\<close> and \<open>delete_relationship\<close>, under every script of store and
  cache failures, the first thing the operation does is the store write, and that write
  has completed, successfully or with a reported failure, before any cache invalidation
  is issued. The events of the operation are the completed write followed by cache
  deletions only, and by none when the write failed.
\<close>

theorem store_write_before_invalidation:
  "write_before_invalidation (new_events w (create_user ud uid now w)) \<and>
   write_before_invalidation (new_events w (update_user uid ups now w)) \<and>
   write_before_invalidation (new_events w (delete_user uid w)) \<and>
   write_before_invalidation (new_events w (create_relationship rd rid id2 now w)) \<and>
   write_before_invalidation (new_events w (delete_relationship rid w)) \<and>
   (\<exists>ok ks. new_events w (create_user ud uid now w) =
      StoreWrite create_user_query (user_params ud uid now) ok # map CacheDelete ks \<and>
      (ok \<or> ks = [])) \<and>
   (\<exists>ok ks. new_events w (update_user uid ups now w) =
      StoreWrite (update_user_query (map fst (stamped ups now)))
        (update_params uid (stamped ups now)) ok # map CacheDelete ks \<and>
      (ok \<or> ks = [])) \<and>
   (\<exists>ok ks. new_events w (delete_user uid w) =
      StoreWrite delete_user_query [(''id'', PStr uid)] ok # map CacheDelete ks \<and>
      (ok \<or> ks = [])) \<and>
   (\<exists>ok ks. new_events w (create_relationship rd rid id2 now w) =
      StoreWrite (create_relationship_query (bidirectional rd))
        (relationship_params rd rid id2 now) ok # map CacheDelete ks \<and>
      (ok \<or> ks = [])) \<and>
   (\<exists>ok. new_events w (delete_relationship rid w) =
      [StoreWrite delete_relationship_query [(''id'', PStr rid)] ok])"
proof -
  obtain ok1 ks1 where e1: "new_events w (create_user ud uid now w) =
      StoreWrite create_user_query (user_params ud uid now) ok1 # map CacheDelete ks1"
    using create_user_events by blast
  obtain ok2 ks2 where e2: "new_events w (update_user uid ups now w) =
      StoreWrite (update_user_query (map fst (stamped ups now)))
        (update_params uid (stamped ups now)) ok2 # map CacheDelete ks2"
    using update_user_events by blast
  obtain ok3 ks3 where e3: "new_events w (delete_user uid w) =
      StoreWrite delete_user_query [(''id'', PStr uid)] ok3 # map CacheDelete ks3"
    using delete_user_events by blast
  obtain ok4 ks4 where e4: "new_events w (create_relationship rd rid id2 now w) =
      StoreWrite (create_relationship_query (bidirectional rd))
        (relationship_params rd rid id2 now) ok4 # map CacheDelete ks4"
    using create_relationship_events by blast
  obtain ok5 where e5: "new_events w (delete_relationship rid w) =
      [StoreWrite delete_relationship_query [(''id'', PStr rid)] ok5]"
    using delete_relationship_events by blast
  have "write_before_invalidation (new_events w (create_user ud uid now w))"
    "write_before_invalidation (new_events w (update_user uid ups now w))"
    "write_before_invalidation (new_events w (delete_user uid w))"
    "write_before_invalidation (new_events w (create_relationship rd rid id2 now w))"
    "write_before_invalidation (new_events w (delete_relationship rid w))"
    by (simp_all add: e1 e2 e3 e4 e5)
  then show ?thesis
    using create_user_events [of w ud uid now] update_user_events [of w uid ups now]
      delete_user_events [of w uid] create_relationship_events [of w rd rid id2 now]
      delete_relationship_events [of w rid]
    by blast
qed

section \<open>Reading a user that the store does not have\<close>

lemma cache_get_entries: "entries (snd (cache_get k c)) = entries c"
  by (auto simp: cache_get_def ensure_client_def connect_def redis_ping_def redis_get_def
      next_fault_def log_msg_def split: prod.splits sum.splits list.splits bool.splits)

lemma cache_get_no_faults:
  assumes "cache_faults c = []"
  shows "fst (cache_get k c) = Inr (case map_of (entries c) k of None \<Rightarrow> PNone | Some (v, t) \<Rightarrow> v)
    \<and> cache_faults (snd (cache_get k c)) = []"
  using assms
  by (auto simp: cache_get_def ensure_client_def connect_def redis_ping_def redis_get_def
      next_fault_def log_msg_def split: prod.splits sum.splits list.splits bool.splits)

lemma get_user_absent:
  assumes "match_user (db w) uid = []"
  shows "entries (cache (snd (get_user uid w))) = entries (cache w) \<and>
    (\<exists>evs. new_events w (get_user uid w) = CacheGet (user_key uid) # evs \<and>
       (evs = [] \<or> (\<exists>ok. evs = [StoreRead get_user_query [(''id'', PStr uid)] ok])))"
proof -
  let ?k = "user_key uid"
  obtain r1 w1 where c: "cache_call (CacheGet ?k) (cache_get ?k) w = (r1, w1)"
    by (cases "cache_call (CacheGet ?k) (cache_get ?k) w")
  note t1 = cache_call_trace [OF c] and f1 = cache_call_frame [OF c]
  from cache_call_cache [OF c] have "cache w1 = snd (cache_get ?k (cache w))"
    by (metis snd_conv)
  then have e1: "entries (cache w1) = entries (cache w)" by (simp add: cache_get_entries)
  show ?thesis
  proof (cases r1)
    case (Inl e)
    with c t1 e1 have "entries (cache (snd (get_user uid w))) = entries (cache w)"
      and "trace (snd (get_user uid w)) = trace w @ (CacheGet ?k # [])"
      by (simp_all add: get_user_def)
    with new_events_append show ?thesis by blast
  next
    case (Inr cached)
    show ?thesis
    proof (cases "truthy cached")
      case True
      with c Inr t1 e1 have "entries (cache (snd (get_user uid w))) = entries (cache w)"
        and "trace (snd (get_user uid w)) = trace w @ (CacheGet ?k # [])"
        by (auto simp: get_user_def split: pval.splits)
      with new_events_append show ?thesis by blast
    next
      case False
      obtain r2 w2 where r: "execute_read get_user_query [(''id'', PStr uid)] (cy_get_user uid) w1 = (r2, w2)"
        by (cases "execute_read get_user_query [(''id'', PStr uid)] (cy_get_user uid) w1")
      note t2 = execute_read_trace [OF r]
      from execute_read_cases [OF r] f1 assms have "isl r2 \<or> r2 = Inr []"
        by (auto simp: cy_get_user_def)
      with c Inr False r t1 t2 e1 have "entries (cache (snd (get_user uid w))) = entries (cache w)"
        and "trace (snd (get_user uid w)) =
           trace w @ (CacheGet ?k # [StoreRead get_user_query [(''id'', PStr uid)] (\<not> isl r2)])"
        by (auto simp: get_user_def split: sum.splits)
      with new_events_append show ?thesis by blast
    qed
  qed
qed

lemma get_user_not_found:
  assumes "match_user (db w) uid = []" "store_faults w = []" "cache_faults (cache w) = []"
    "map_of (entries (cache w)) (user_key uid) = None"
  shows "fst (get_user uid w) = Inr None \<and>
    new_events w (get_user uid w) =
      [CacheGet (user_key uid), StoreRead get_user_query [(''id'', PStr uid)] True] \<and>
    match_user (db (snd (get_user uid w))) uid = [] \<and> store_faults (snd (get_user uid w)) = [] \<and>
    cache_faults (cache (snd (get_user uid w))) = [] \<and>
    map_of (entries (cache (snd (get_user uid w)))) (user_key uid) = None"
proof -
  let ?k = "user_key uid"
  obtain r1 w1 where c: "cache_call (CacheGet ?k) (cache_get ?k) w = (r1, w1)"
    by (cases "cache_call (CacheGet ?k) (cache_get ?k) w")
  note t1 = cache_call_trace [OF c] and f1 = cache_call_frame [OF c]
  from cache_call_cache [OF c] have cg: "r1 = fst (cache_get ?k (cache w))"
    "cache w1 = snd (cache_get ?k (cache w))"
    by (metis fst_conv, metis snd_conv)
  with cache_get_no_faults [OF assms(3), of ?k] assms(4)
  have r1: "r1 = Inr PNone" and cf: "cache_faults (cache w1) = []" by simp_all
  from cg have e1: "entries (cache w1) = entries (cache w)" by (simp add: cache_get_entries)
  have run: "cy_get_user uid (db w1) = Inr []"
    using f1 assms(1) by (simp add: cy_get_user_def)
  have sf: "store_faults w1 = []" using f1 assms(2) by simp
  have r: "execute_read get_user_query [(''id'', PStr uid)] (cy_get_user uid) w1 =
     (Inr [], w1\<lparr>async_driver := True,
        trace := trace w1 @ [StoreRead get_user_query [(''id'', PStr uid)] True]\<rparr>)"
    using sf run by (rule execute_read_ok [where run = "cy_get_user uid"])
  have g: "get_user uid w = (Inr None, w1\<lparr>async_driver := True,
        trace := trace w1 @ [StoreRead get_user_query [(''id'', PStr uid)] True]\<rparr>)"
    using c r1 r by (simp add: get_user_def)
  then have "trace (snd (get_user uid w)) =
      trace w @ [CacheGet ?k, StoreRead get_user_query [(''id'', PStr uid)] True]"
    using t1 by simp
  from new_events_append [OF this] g f1 assms cf e1 sf show ?thesis by simp
qed

lemma map_of_dict_set: "map_of (dict_set d k v) k = Some v"
  by (induction d) auto

lemma cache_set_no_faults:
  assumes "cache_faults c = []"
  shows "entries (snd (cache_set k (PJsonStr (PDict d)) 300 c)) =
    dict_set (entries c) k (PJsonStr (PDict d), 300)"
  using assms
  by (auto simp: cache_set_def ensure_client_def connect_def redis_ping_def redis_setex_def
      next_fault_def log_msg_def valid_expire_def Let_def
      split: prod.splits sum.splits list.splits bool.splits)

lemma get_user_found:
  assumes "match_user (db w) uid = u # us" "store_faults w = []" "cache_faults (cache w) = []"
    "map_of (entries (cache w)) (user_key uid) = None"
  shows "map_of (entries (cache (snd (get_user uid w)))) (user_key uid) =
    Some (PJsonStr (PDict (dict_set (nprops u) ''node_degree''
           (PInt (int (length (incident (db w) u)))))), 300)"
proof -
  let ?k = "user_key uid"
  let ?d = "dict_set (nprops u) ''node_degree'' (PInt (int (length (incident (db w) u))))"
  obtain r1 w1 where c: "cache_call (CacheGet ?k) (cache_get ?k) w = (r1, w1)"
    by (cases "cache_call (CacheGet ?k) (cache_get ?k) w")
  note f1 = cache_call_frame [OF c]
  from cache_call_cache [OF c] have cg: "r1 = fst (cache_get ?k (cache w))"
    "cache w1 = snd (cache_get ?k (cache w))"
    by (metis fst_conv, metis snd_conv)
  with cache_get_no_faults [OF assms(3), of ?k] assms(4)
  have r1: "r1 = Inr PNone" and cf: "cache_faults (cache w1) = []"
    by simp_all
  from cg have e1: "entries (cache w1) = entries (cache w)"
    by (simp add: cache_get_entries)
  have run: "cy_get_user uid (db w1) =
      Inr ((u, length (incident (db w) u)) # map (\<lambda>u. (u, length (incident (db w) u))) us)"
    using f1 assms(1) by (simp add: cy_get_user_def)
  have sf: "store_faults w1 = []"
    using f1 assms(2) by simp
  let ?w2 = "w1\<lparr>async_driver := True,
        trace := trace w1 @ [StoreRead get_user_query [(''id'', PStr uid)] True]\<rparr>"
  have r: "execute_read get_user_query [(''id'', PStr uid)] (cy_get_user uid) w1 =
     (Inr ((u, length (incident (db w) u)) # map (\<lambda>u. (u, length (incident (db w) u))) us), ?w2)"
    using sf run by (rule execute_read_ok [where run = "cy_get_user uid"])
  obtain r3 w3 where s: "cache_call (CacheSet ?k) (cache_set ?k (PJsonStr (PDict ?d)) 300) ?w2 =
      (r3, w3)"
    by (cases "cache_call (CacheSet ?k) (cache_set ?k (PJsonStr (PDict ?d)) 300) ?w2")
  from cache_call_cache [OF s]
  have "cache w3 = snd (cache_set ?k (PJsonStr (PDict ?d)) 300 (cache ?w2))"
    by (metis snd_conv)
  then have "cache w3 = snd (cache_set ?k (PJsonStr (PDict ?d)) 300 (cache w1))"
    by simp
  with cache_set_no_faults [OF cf] e1
  have e3: "entries (cache w3) = dict_set (entries (cache w)) ?k (PJsonStr (PDict ?d), 300)"
    by simp
  have "snd (get_user uid w) = w3"
    using c r1 r s by (auto simp: get_user_def Let_def split: sum.splits)
  with e3 show ?thesis
    by (simp add: map_of_dict_set)
qed

text \<open>
  C10: when the store has no user with the id, \<open>get_user\<close> leaves the keyspace of the
  cache as it was and issues no \<open>set\<close>, in every execution. When the key is not cached
  and the store and the cache answer, it returns \<open>None\<close> after a read of the store, and
  a second call reads the store again and returns \<open>None\<close> again. The keyspace changes
  only when the user is found; then the user is cached under \<open>user:<id>\<close> for 300
  seconds.
\<close>

theorem get_user_not_found_is_not_cached:
  "(match_user (db w) uid = [] \<longrightarrow>
      entries (cache (snd (get_user uid w))) = entries (cache w) \<and>
      CacheSet (user_key uid) \<notin> set (new_events w (get_user uid w))) \<and>
   (match_user (db w) uid = [] \<and> store_faults w = [] \<and> cache_faults (cache w) = [] \<and>
    map_of (entries (cache w)) (user_key uid) = None \<longrightarrow>
      fst (get_user uid w) = Inr None \<and>
      new_events w (get_user uid w) =
        [CacheGet (user_key uid), StoreRead get_user_query [(''id'', PStr uid)] True] \<and>
      fst (get_user uid (snd (get_user uid w))) = Inr None \<and>
      new_events (snd (get_user uid w)) (get_user uid (snd (get_user uid w))) =
        [CacheGet (user_key uid), StoreRead get_user_query [(''id'', PStr uid)] True]) \<and>
   (entries (cache (snd (get_user uid w))) \<noteq> entries (cache w) \<longrightarrow>
      match_user (db w) uid \<noteq> []) \<and>
   (match_user (db w) uid = u # us \<and> store_faults w = [] \<and> cache_faults (cache w) = [] \<and>
    map_of (entries (cache w)) (user_key uid) = None \<longrightarrow>
      map_of (entries (cache (snd (get_user uid w)))) (user_key uid) =
        Some (PJsonStr (PDict (dict_set (nprops u) ''node_degree''
               (PInt (int (length (incident (db w) u)))))), 300))"
proof -
  have a: "match_user (db w) uid = [] \<longrightarrow>
      entries (cache (snd (get_user uid w))) = entries (cache w) \<and>
      CacheSet (user_key uid) \<notin> set (new_events w (get_user uid w))"
    using get_user_absent [of w uid] by auto
  have b: "match_user (db w) uid = [] \<and> store_faults w = [] \<and> cache_faults (cache w) = [] \<and>
    map_of (entries (cache w)) (user_key uid) = None \<longrightarrow>
      fst (get_user uid w) = Inr None \<and>
      new_events w (get_user uid w) =
        [CacheGet (user_key uid), StoreRead get_user_query [(''id'', PStr uid)] True] \<and>
      fst (get_user uid (snd (get_user uid w))) = Inr None \<and>
      new_events (snd (get_user uid w)) (get_user uid (snd (get_user uid w))) =
        [CacheGet (user_key uid), StoreRead get_user_query [(''id'', PStr uid)] True]"
  proof
    assume h: "match_user (db w) uid = [] \<and> store_faults w = [] \<and> cache_faults (cache w) = [] \<and>
      map_of (entries (cache w)) (user_key uid) = None"
    then have first: "fst (get_user uid w) = Inr None \<and>
      new_events w (get_user uid w) =
        [CacheGet (user_key uid), StoreRead get_user_query [(''id'', PStr uid)] True] \<and>
      match_user (db (snd (get_user uid w))) uid = [] \<and> store_faults (snd (get_user uid w)) = [] \<and>
      cache_faults (cache (snd (get_user uid w))) = [] \<and>
      map_of (entries (cache (snd (get_user uid w)))) (user_key uid) = None"
      using get_user_not_found [of w uid] by blast
    then have "fst (get_user uid (snd (get_user uid w))) = Inr None \<and>
      new_events (snd (get_user uid w)) (get_user uid (snd (get_user uid w))) =
        [CacheGet (user_key uid), StoreRead get_user_query [(''id'', PStr uid)] True]"
      using get_user_not_found [of "snd (get_user uid w)" uid] by blast
    with first show "fst (get_user uid w) = Inr None \<and>
      new_events w (get_user uid w) =
        [CacheGet (user_key uid), StoreRead get_user_query [(''id'', PStr uid)] True] \<and>
      fst (get_user uid (snd (get_user uid w))) = Inr None \<and>
      new_events (snd (get_user uid w)) (get_user uid (snd (get_user uid w))) =
        [CacheGet (user_key uid), StoreRead get_user_query [(''id'', PStr uid)] True]"
      by blast
  qed
  from a b get_user_found [of w uid u us] show ?thesis
    by blast
qed

theorem get_user_not_found_is_not_cached_witness:
  "fst (get_user ''zed'' sample_world) = Inr None \<and>
   entries (cache (snd (get_user ''zed'' sample_world))) = [] \<and>
   new_events (snd (get_user ''zed'' sample_world))
     (get_user ''zed'' (snd (get_user ''zed'' sample_world))) =
     [CacheGet (user_key ''zed''), StoreRead get_user_query [(''id'', PStr ''zed'')] True] \<and>
   map_of (entries (cache (snd (get_user ''bob'' sample_world)))) (user_key ''bob'') =
     Some (PJsonStr (PDict [(''id'', PStr ''bob''), (''username'', PStr ''bob''),
                            (''node_degree'', PInt 2)]), 300)"
proof -
  have z: "match_user (db sample_world) ''zed'' = []"
    by (simp add: sample_defs match_user_def is_user_def id_of_def)
  have b: "match_user (db sample_world) ''bob'' = [sample_user 2 ''bob'']"
    by (simp add: sample_defs match_user_def is_user_def id_of_def)
  have d: "dict_set (nprops (sample_user 2 ''bob'')) ''node_degree''
        (PInt (int (length (incident (db sample_world) (sample_user 2 ''bob''))))) =
      [(''id'', PStr ''bob''), (''username'', PStr ''bob''), (''node_degree'', PInt 2)]"
    by (simp add: sample_defs incident_def)
  have s: "store_faults sample_world = []" "cache_faults (cache sample_world) = []"
    "entries (cache sample_world) = []"
    by (simp_all add: sample_defs)
  show ?thesis
    using get_user_not_found_is_not_cached [of sample_world "''zed''"]
      get_user_not_found_is_not_cached [of sample_world "''bob''" "sample_user 2 ''bob''" "[]"]
      z b d s
    by simp
qed

section \<open>Relationship lists in the cache\<close>

lemma pair_created:
  "snd (create_relationship sample_request ''n1'' ''n2'' ''t0'' pair_world) =
     pair_world\<lparr>
       db := \<lparr>nodes = [sample_user 1 ''alice'', sample_user 4 ''dave''],
               edges =
                 [\<lparr>eid = 1, etype = ''RELATES_TO'', esrc = 1, etgt = 4,
                   eprops = rel_props (relationship_params sample_request ''n1'' ''n2'' ''t0'') ''id''\<rparr>,
                  \<lparr>eid = 2, etype = ''RELATES_TO'', esrc = 4, etgt = 1,
                   eprops = rel_props (relationship_params sample_request ''n1'' ''n2'' ''t0'') ''id2''\<rparr>]\<rparr>,
       trace := [StoreWrite (create_relationship_query True)
          (relationship_params sample_request ''n1'' ''n2'' ''t0'') True,
        CacheDelete ''user:alice:relationships'', CacheDelete ''user:dave:relationships'']\<rparr>"
  by (simp add: create_relationship_def execute_write_def ensure_driver_def
      store_fault_def log_event_def cy_create_relationship_def reverse_clause_query
      match_user_def is_user_def
      id_of_def pair_world_def sample_user_def sample_request_def warm_cache_def cache_call_def
      cache_delete_def ensure_client_def redis_delete_def next_fault_def next_eid_def Let_def)

lemma pair_deleted:
  "snd (delete_relationship ''n1''
       (snd (create_relationship sample_request ''n1'' ''n2'' ''t0'' pair_world))) =
     pair_world\<lparr>
       db := \<lparr>nodes = [sample_user 1 ''alice'', sample_user 4 ''dave''],
               edges =
                 [\<lparr>eid = 2, etype = ''RELATES_TO'', esrc = 4, etgt = 1,
                   eprops = rel_props (relationship_params sample_request ''n1'' ''n2'' ''t0'') ''id2''\<rparr>]\<rparr>,
       trace := [StoreWrite (create_relationship_query True)
          (relationship_params sample_request ''n1'' ''n2'' ''t0'') True,
        CacheDelete ''user:alice:relationships'', CacheDelete ''user:dave:relationships'',
        StoreWrite delete_relationship_query [(''id'', PStr ''n1'')] True]\<rparr>"
proof -
  have bi: "bidirectional sample_request"
    by (simp add: sample_request_def)
  show ?thesis
    unfolding pair_created
    by (simp add: delete_relationship_def execute_write_def ensure_driver_def
      store_fault_def log_event_def cy_delete_relationship_def has_rel_id_def pair_world_def
      rel_props_fields bi)
qed

text \<open>
  C1 at a concrete input. Alice and dave have no relationships, and the cache holds
  their empty relationship lists under \<open>user:alice:relationships:all\<close> and
  \<open>user:dave:relationships:FRIEND\<close>. \<open>create_relationship\<close> between them succeeds and
  adds two relationships; it deletes \<open>user:alice:relationships\<close> and
  \<open>user:dave:relationships\<close>, and both lists are still in the cache. Then
  \<open>delete_relationship\<close> of the first of the two succeeds, sends nothing to the cache,
  and both lists are still there.
\<close>

theorem relationship_lists_stay_cached:
  "fst (create_relationship sample_request ''n1'' ''n2'' ''t0'' pair_world) =
     Inr \<lparr>r_id = ''n1'', r_type = FRIEND,
           r_from_user = [(''id'', PStr ''alice''), (''username'', PStr ''alice'')],
           r_to_user = [(''id'', PStr ''dave''), (''username'', PStr ''dave'')],
           r_created_at = ''t0'', r_updated_at = ''t0'', r_properties = Some [],
           r_weight = Some 1\<rparr> \<and>
   new_events pair_world (create_relationship sample_request ''n1'' ''n2'' ''t0'' pair_world) =
     [StoreWrite (create_relationship_query True)
        (relationship_params sample_request ''n1'' ''n2'' ''t0'') True,
      CacheDelete ''user:alice:relationships'', CacheDelete ''user:dave:relationships''] \<and>
   length (edges (db (snd (create_relationship sample_request ''n1'' ''n2'' ''t0'' pair_world)))) = 2 \<and>
   map_of (entries (cache (snd (create_relationship sample_request ''n1'' ''n2'' ''t0'' pair_world))))
     (relationships_cache_key ''alice'' None) = Some (PJsonStr (PList []), 60) \<and>
   map_of (entries (cache (snd (create_relationship sample_request ''n1'' ''n2'' ''t0'' pair_world))))
     (relationships_cache_key ''dave'' (Some ''FRIEND'')) = Some (PJsonStr (PList []), 60) \<and>
   new_events (snd (create_relationship sample_request ''n1'' ''n2'' ''t0'' pair_world))
     (delete_relationship ''n1''
        (snd (create_relationship sample_request ''n1'' ''n2'' ''t0'' pair_world))) =
     [StoreWrite delete_relationship_query [(''id'', PStr ''n1'')] True] \<and>
   length (edges (db (snd (delete_relationship ''n1''
     (snd (create_relationship sample_request ''n1'' ''n2'' ''t0'' pair_world)))))) = 1 \<and>
   map_of (entries (cache (snd (delete_relationship ''n1''
     (snd (create_relationship sample_request ''n1'' ''n2'' ''t0'' pair_world))))))
     (relationships_cache_key ''alice'' None) = Some (PJsonStr (PList []), 60) \<and>
   map_of (entries (cache (snd (delete_relationship ''n1''
     (snd (create_relationship sample_request ''n1'' ''n2'' ''t0'' pair_world))))))
     (relationships_cache_key ''dave'' (Some ''FRIEND'')) = Some (PJsonStr (PList []), 60)"
proof -
  have r: "fst (create_relationship sample_request ''n1'' ''n2'' ''t0'' pair_world) =
     Inr \<lparr>r_id = ''n1'', r_type = FRIEND,
           r_from_user = [(''id'', PStr ''alice''), (''username'', PStr ''alice'')],
           r_to_user = [(''id'', PStr ''dave''), (''username'', PStr ''dave'')],
           r_created_at = ''t0'', r_updated_at = ''t0'', r_properties = Some [],
           r_weight = Some 1\<rparr>"
    by (simp add: create_relationship_def execute_write_def ensure_driver_def
      store_fault_def log_event_def cy_create_relationship_def reverse_clause_query
      match_user_def is_user_def
      id_of_def pair_world_def sample_user_def sample_request_def warm_cache_def cache_call_def
      cache_delete_def ensure_client_def redis_delete_def next_fault_def next_eid_def Let_def)
  have k: "map_of (entries (cache pair_world)) (relationships_cache_key ''alice'' None) =
      Some (PJsonStr (PList []), 60)"
    "map_of (entries (cache pair_world)) (relationships_cache_key ''dave'' (Some ''FRIEND'')) =
      Some (PJsonStr (PList []), 60)"
    "trace pair_world = []"
    by (simp_all add: pair_world_def warm_cache_def relationships_cache_key_def)
  let ?c = "snd (create_relationship sample_request ''n1'' ''n2'' ''t0'' pair_world)"
  have c: "trace ?c =
      [StoreWrite (create_relationship_query True)
         (relationship_params sample_request ''n1'' ''n2'' ''t0'') True,
       CacheDelete ''user:alice:relationships'', CacheDelete ''user:dave:relationships'']"
    "cache ?c = cache pair_world" "length (edges (db ?c)) = 2"
    by (simp_all add: pair_created)
  have d: "trace (snd (delete_relationship ''n1'' ?c)) =
      [StoreWrite (create_relationship_query True)
         (relationship_params sample_request ''n1'' ''n2'' ''t0'') True,
       CacheDelete ''user:alice:relationships'', CacheDelete ''user:dave:relationships'',
       StoreWrite delete_relationship_query [(''id'', PStr ''n1'')] True]"
    "cache (snd (delete_relationship ''n1'' ?c)) = cache pair_world"
    "length (edges (db (snd (delete_relationship ''n1'' ?c)))) = 1"
    by (simp_all add: pair_deleted)
  show ?thesis
    using r k by (simp add: new_events_def c d)
qed

section \<open>Query texts and bound parameters\<close>

lemma execute_read_sent:
  "trace (snd (execute_read q ps run w)) =
     trace w @ [StoreRead q ps (\<not> isl (fst (execute_read q ps run w)))]"
  using execute_read_trace [of q ps run w] by (cases "execute_read q ps run w") simp

lemma execute_write_sent:
  "trace (snd (execute_write q ps run w)) =
     trace w @ [StoreWrite q ps (\<not> isl (fst (execute_write q ps run w)))]"
  using execute_write_trace [of q ps run w] by (cases "execute_write q ps run w") simp

lemma get_user_text:
  "prefix (queries_sent (new_events w (get_user uid w))) [get_user_query] \<and>
   prefix (parameters_sent (new_events w (get_user uid w))) [[(''id'', PStr uid)]]"
  by (auto simp: get_user_def new_events_def Let_def
      split: prod.splits sum.splits list.splits option.splits pval.splits if_splits
      dest!: execute_read_trace execute_write_trace cache_call_trace)

lemma record_interaction_text:
  "queries_sent (new_events w (record_interaction idata iid now w)) = [record_interaction_query] \<and>
   parameters_sent (new_events w (record_interaction idata iid now w)) =
     [interaction_params idata iid now]"
  by (auto simp: record_interaction_def new_events_def Let_def
      split: prod.splits sum.splits list.splits option.splits
      dest!: execute_read_trace execute_write_trace cache_call_trace)

lemma get_user_relationships_text:
  "prefix (queries_sent (new_events w (get_user_relationships uid rt w)))
     [get_user_relationships_query (given rt)] \<and>
   prefix (parameters_sent (new_events w (get_user_relationships uid rt w)))
     [relationships_params uid rt]"
  by (auto simp: get_user_relationships_def new_events_def Let_def
      split: prod.splits sum.splits list.splits option.splits if_splits
      dest!: execute_read_trace execute_write_trace cache_call_trace)

lemma get_user_interactions_text:
  "queries_sent (new_events w (get_user_interactions uid it limit w)) =
     [get_user_interactions_query (given it)] \<and>
   parameters_sent (new_events w (get_user_interactions uid it limit w)) =
     [interactions_params uid it limit]"
  by (auto simp: get_user_interactions_def new_events_def Let_def
      split: prod.splits sum.splits list.splits option.splits
      dest!: execute_read_trace)

lemma shortest_path_text:
  "queries_sent (new_events w (shortest_path src tgt max_hops w)) =
     [shortest_path_query max_hops] \<and>
   parameters_sent (new_events w (shortest_path src tgt max_hops w)) =
     [[(''start_id'', PStr src), (''end_id'', PStr tgt)]]"
  by (auto simp: shortest_path_def new_events_def Let_def
      split: prod.splits sum.splits list.splits option.splits
      dest!: execute_read_trace)

lemma find_shortest_path_text:
  "queries_sent (new_events w (find_shortest_path src tgt max_hops w)) =
     [shortest_path_query max_hops] \<or>
   queries_sent (new_events w (find_shortest_path src tgt max_hops w)) =
     [shortest_path_query max_hops, path_nodes_query]"
  "take 1 (parameters_sent (new_events w (find_shortest_path src tgt max_hops w))) =
     [[(''start_id'', PStr src), (''end_id'', PStr tgt)]]"
  by (auto simp: find_shortest_path_def shortest_path_def new_events_def Let_def
      split: prod.splits sum.splits list.splits option.splits if_splits
      dest!: execute_read_trace)

lemma calculate_community_density_text:
  "prefix (queries_sent (new_events w (calculate_community_density ms w)))
     [community_density_query]"
  by (auto simp: calculate_community_density_def new_events_def Let_def
      split: prod.splits sum.splits list.splits option.splits if_splits
      dest!: execute_read_trace)

lemma calculate_community_density_trace:
  "calculate_community_density ms w = (r, w1) \<Longrightarrow>
     \<exists>evs. trace w1 = trace w @ evs \<and> prefix (queries_sent evs) [community_density_query]"
  by (auto simp: calculate_community_density_def Let_def
      split: prod.splits sum.splits list.splits option.splits if_splits
      dest!: execute_read_trace)

lemma detect_communities_text:
  "prefix (queries_sent (new_events w (detect_communities uid algorithm w)))
     [community_detection_query algorithm, community_users_query, community_density_query]"
  "take 1 (parameters_sent (new_events w (detect_communities uid algorithm w))) = [[]]"
  by (auto simp: detect_communities_def community_detection_def new_events_def Let_def
      split: prod.splits sum.splits list.splits option.splits if_splits
      dest!: execute_read_trace calculate_community_density_trace)

lemma centrality_measures_text:
  "queries_sent (new_events w (centrality_measures uid w)) =
     [degree_query, betweenness_query, closeness_query] \<and>
   parameters_sent (new_events w (centrality_measures uid w)) =
     [[(''user_id'', PStr uid)], [(''user_id'', PStr uid)], [(''user_id'', PStr uid)]]"
  by (auto simp: centrality_measures_def new_events_def Let_def
      split: prod.splits sum.splits list.splits option.splits
      dest!: execute_read_trace)

lemma calculate_influence_score_trace:
  "trace (snd (calculate_influence_score uid w)) = trace (snd (centrality_measures uid w))"
  by (auto simp: calculate_influence_score_def Let_def split: prod.splits sum.splits)

lemma calculate_influence_score_text:
  "queries_sent (new_events w (calculate_influence_score uid w)) =
     [degree_query, betweenness_query, closeness_query] \<and>
   parameters_sent (new_events w (calculate_influence_score uid w)) =
     [[(''user_id'', PStr uid)], [(''user_id'', PStr uid)], [(''user_id'', PStr uid)]]"
  using centrality_measures_text [of w uid]
  by (simp add: new_events_def calculate_influence_score_trace)

lemma recommend_connections_text:
  "queries_sent (new_events w (recommend_connections uid limit w)) =
     [recommend_connections_query] \<and>
   parameters_sent (new_events w (recommend_connections uid limit w)) =
     [[(''id'', PStr uid), (''limit'', PInt limit)]]"
  by (auto simp: recommend_connections_def new_events_def Let_def
      split: prod.splits sum.splits list.splits option.splits
      dest!: execute_read_trace)

lemma get_statistics_text:
  "prefix (queries_sent (new_events w (get_statistics w)))
     [statistics_query, node_type_query, rel_type_query] \<and>
   prefix (parameters_sent (new_events w (get_statistics w))) [[], [], []]"
  by (auto simp: get_statistics_def db_get_statistics_def new_events_def Let_def
      split: prod.splits sum.splits list.splits option.splits
      dest!: execute_read_trace)

lemma execute_query_text:
  "queries_sent (new_events w (execute_query q ps w)) = [q] \<and>
   parameters_sent (new_events w (execute_query q ps w)) =
     [case ps of None \<Rightarrow> [] | Some d \<Rightarrow> d]"
  by (simp add: execute_query_def new_events_def Let_def execute_read_sent
      split: option.splits)

lemma bulk_create_nodes_text:
  "queries_sent (new_events w (bulk_create_nodes ns label w)) =
     [bulk_create_nodes_query label] \<and>
   parameters_sent (new_events w (bulk_create_nodes ns label w)) =
     [[(''nodes'', PList (map PDict ns))]]"
  by (simp add: bulk_create_nodes_def new_events_def Let_def execute_write_sent)

lemma run_statements_trace:
  "\<exists>evs. trace (snd (run_statements ss w)) = trace w @ evs \<and>
     queries_sent evs = ss \<and> parameters_sent evs = map (\<lambda>s. []) ss"
proof (induction ss arbitrary: w)
  case Nil
  then show ?case
    by simp
next
  case (Cons s ss)
  obtain r w1 where e: "execute_write s [] (run_opaque_write w s []) w = (r, w1)"
    by (cases "execute_write s [] (run_opaque_write w s []) w")
  from execute_write_trace [OF e] have t: "trace w1 = trace w @ [StoreWrite s [] (\<not> isl r)]"
    by simp
  from Cons.IH [of w1] obtain evs where
    "trace (snd (run_statements ss w1)) = trace w1 @ evs"
    "queries_sent evs = ss" "parameters_sent evs = map (\<lambda>s. []) ss"
    by blast
  with e t have "trace (snd (run_statements (s # ss) w)) =
      trace w @ (StoreWrite s [] (\<not> isl r) # evs) \<and>
      queries_sent (StoreWrite s [] (\<not> isl r) # evs) = s # ss \<and>
      parameters_sent (StoreWrite s [] (\<not> isl r) # evs) = map (\<lambda>s. []) (s # ss)"
    by simp
  then show ?case
    by blast
qed

lemma queries_sent_append: "queries_sent (xs @ ys) = queries_sent xs @ queries_sent ys"
  by (induction xs rule: queries_sent.induct) simp_all

lemma parameters_sent_append:
  "parameters_sent (xs @ ys) = parameters_sent xs @ parameters_sent ys"
  by (induction xs rule: parameters_sent.induct) simp_all

lemma initialize_schema_text:
  "queries_sent (new_events w (initialize_schema w)) = constraints @ indexes \<and>
   parameters_sent (new_events w (initialize_schema w)) = map (\<lambda>s. []) (constraints @ indexes)"
proof -
  obtain u w1 where c: "create_constraints w = (u, w1)"
    by (cases "create_constraints w")
  from run_statements_trace [of constraints w] c obtain evs where
    a: "trace w1 = trace w @ evs" "queries_sent evs = constraints"
       "parameters_sent evs = map (\<lambda>s. []) constraints"
    by (auto simp: create_constraints_def)
  from run_statements_trace [of indexes w1] obtain evs' where
    b: "trace (snd (create_indexes w1)) = trace w1 @ evs'" "queries_sent evs' = indexes"
       "parameters_sent evs' = map (\<lambda>s. []) indexes"
    by (auto simp: create_indexes_def)
  from a b c have "trace (snd (initialize_schema w)) = trace w @ (evs @ evs')"
    by (simp add: initialize_schema_def)
  from new_events_append [OF this] a b show ?thesis
    by (simp add: queries_sent_append parameters_sent_append)
qed

lemma reindex_text:
  "queries_sent (new_events w (reindex w)) = constraints @ indexes \<and>
   parameters_sent (new_events w (reindex w)) = map (\<lambda>s. []) (constraints @ indexes)"
  using initialize_schema_text [of w]
  by (simp add: new_events_def reindex_def initialize_schema_def)

lemma map_of_foldl_dict_set:
  "map_of (foldl (\<lambda>d kv. dict_set d (fst kv) (snd kv)) d0 ups) k =
     (case map_of (rev ups) k of None \<Rightarrow> map_of d0 k | Some v \<Rightarrow> Some v)"
proof (induction ups arbitrary: d0)
  case Nil
  then show ?case
    by simp
next
  case (Cons kv ups)
  have m: "map_of (dict_set d k' v') k = (if k = k' then Some v' else map_of d k)" for d k' v'
    by (induction d) auto
  show ?case
    by (simp add: Cons.IH m map_add_def split: option.splits)
qed

lemma map_of_rev_distinct:
  assumes "distinct (map fst xs)"
  shows "map_of (rev xs) k = map_of xs k"
proof -
  have d: "distinct (map fst (rev xs))"
    using assms by (simp add: rev_map [symmetric])
  have "map_of (rev xs) k = Some v \<longleftrightarrow> map_of xs k = Some v" for v
    using map_of_eq_Some_iff [OF d] map_of_eq_Some_iff [OF assms] by simp
  then show ?thesis
    by (metis not_Some_eq)
qed

lemma map_fst_dict_set:
  "map fst (dict_set d k v) = (if k \<in> set (map fst d) then map fst d else map fst d @ [k])"
  by (induction d) fastforce+

lemma stamped_keys:
  "map fst ups = map fst ups' \<Longrightarrow> map fst (stamped ups now) = map fst (stamped ups' now')"
  by (simp add: stamped_def map_fst_dict_set)

lemma update_user_text:
  "queries_sent (new_events w (update_user uid ups now w)) =
     [update_user_query (map fst (stamped ups now))] \<and>
   parameters_sent (new_events w (update_user uid ups now w)) =
     [update_params uid (stamped ups now)]"
  using update_user_events [of w uid ups now]
  by (auto simp: queries_sent_deletes parameters_sent_deletes)

lemma create_user_text:
  "queries_sent (new_events w (create_user ud uid now w)) = [create_user_query] \<and>
   parameters_sent (new_events w (create_user ud uid now w)) = [user_params ud uid now]"
  using create_user_events [of w ud uid now]
  by (auto simp: queries_sent_deletes parameters_sent_deletes)

lemma delete_user_text:
  "queries_sent (new_events w (delete_user uid w)) = [delete_user_query] \<and>
   parameters_sent (new_events w (delete_user uid w)) = [[(''id'', PStr uid)]]"
  using delete_user_events [of w uid]
  by (auto simp: queries_sent_deletes parameters_sent_deletes)

lemma delete_relationship_text:
  "queries_sent (new_events w (delete_relationship rid w)) = [delete_relationship_query] \<and>
   parameters_sent (new_events w (delete_relationship rid w)) = [[(''id'', PStr rid)]]"
  using delete_relationship_events [of w rid]
  by auto

lemma create_relationship_text:
  "queries_sent (new_events w (create_relationship rd rid id2 now w)) =
     [create_relationship_query (bidirectional rd)] \<and>
   parameters_sent (new_events w (create_relationship rd rid id2 now w)) =
     [relationship_params rd rid id2 now]"
  using create_relationship_events [of w rd rid id2 now]
  by (auto simp: queries_sent_deletes parameters_sent_deletes)

lemma map_of_dict_set_other: "k \<noteq> k' \<Longrightarrow> map_of (dict_set d k' v) k = map_of d k"
  by (induction d) auto

lemma update_params_id:
  "map_of ups ''id'' = None \<Longrightarrow>
     map_of (update_params uid (stamped ups now)) ''id'' = Some (PStr uid)"
  "distinct (map fst ups) \<Longrightarrow> map_of ups ''id'' = Some v \<Longrightarrow>
     map_of (update_params uid (stamped ups now)) ''id'' = Some v"
proof -
  let ?u = "stamped ups now"
  have u: "map_of ?u ''id'' = map_of ups ''id''"
    by (simp add: stamped_def map_of_dict_set_other)
  have p: "map_of (update_params uid ?u) ''id'' =
      (case map_of (rev ?u) ''id'' of None \<Rightarrow> Some (PStr uid) | Some v \<Rightarrow> Some v)"
    by (simp add: update_params_def map_of_foldl_dict_set split: option.splits)
  {
    assume "map_of ups ''id'' = None"
    with u have "''id'' \<notin> fst ` set (rev ?u)"
      by (simp add: map_of_eq_None_iff)
    then have "map_of (rev ?u) ''id'' = None"
      by (simp add: map_of_eq_None_iff)
    with p show "map_of (update_params uid ?u) ''id'' = Some (PStr uid)"
      by simp
  }
  {
    assume d: "distinct (map fst ups)" and s: "map_of ups ''id'' = Some v"
    from d have "distinct (map fst ?u)"
      by (simp add: stamped_def map_fst_dict_set)
    from map_of_rev_distinct [OF this] u s have "map_of (rev ?u) ''id'' = Some v"
      by simp
    with p show "map_of (update_params uid ?u) ''id'' = Some v"
      by simp
  }
qed

lemma texts_differ:
  "update_user_query [''name'', ''updated_at''] \<noteq> update_user_query [''bio'', ''updated_at'']"
  "shortest_path_query 6 \<noteq> shortest_path_query 3"
  "bulk_create_nodes_query ''User'' \<noteq> bulk_create_nodes_query ''Admin''"
  "create_relationship_query True \<noteq> create_relationship_query False"
  "get_user_interactions_query True \<noteq> get_user_interactions_query False"
  "louvain_query \<noteq> label_propagation_query"
  by (simp_all add: update_user_query_def set_clause_def shortest_path_query_def str_int_def
      digit_char_def bulk_create_nodes_query_def create_relationship_query_def
      create_relationship_query_reverse_def get_user_interactions_query_def
      get_user_interactions_query_filter_def louvain_query_def label_propagation_query_def)

lemma detect_communities_sample:
  "queries_sent (new_events sample_world (detect_communities ''alice'' algorithm sample_world)) =
     [community_detection_query algorithm]"
  by (simp add: detect_communities_def community_detection_def execute_read_def
      ensure_driver_def connect_async_def store_fault_def log_event_def run_opaque_def
      new_events_def sample_defs Let_def)

text \<open>
  C3, as stated: the query text of every operation is a fixed string that does not
  depend on the caller's data, and field names, \<open>maxHops\<close> and labels are bound
  parameters. Counterexample, all on the sample graph: two calls of \<open>update_user\<close> that
  differ in the name of the updated field send different texts, because the field name
  is written into the \<open>SET\<close> clause; so do two path lookups that differ in \<open>max_hops\<close>,
  two bulk creations that differ in the label, and two custom queries, whose text is the
  caller's. The text also follows the \<open>bidirectional\<close> flag of a relationship, whether
  an interaction type is given, and whether the algorithm is \<open>louvain\<close>.
\<close>

theorem query_text_depends_on_caller_data:
  "queries_sent (new_events sample_world
      (update_user ''alice'' [(''name'', PStr ''A'')] ''t0'' sample_world)) \<noteq>
   queries_sent (new_events sample_world
      (update_user ''alice'' [(''bio'', PStr ''A'')] ''t0'' sample_world)) \<and>
   queries_sent (new_events sample_world (find_shortest_path ''alice'' ''dave'' 6 sample_world)) \<noteq>
   queries_sent (new_events sample_world (find_shortest_path ''alice'' ''dave'' 3 sample_world)) \<and>
   queries_sent (new_events sample_world (bulk_create_nodes [] ''User'' sample_world)) \<noteq>
   queries_sent (new_events sample_world (bulk_create_nodes [] ''Admin'' sample_world)) \<and>
   queries_sent (new_events sample_world
      (execute_query ''MATCH (n) RETURN n'' None sample_world)) \<noteq>
   queries_sent (new_events sample_world
      (execute_query ''MATCH (n) DETACH DELETE n'' None sample_world)) \<and>
   queries_sent (new_events sample_world
      (create_relationship sample_request ''n1'' ''n2'' ''t0'' sample_world)) \<noteq>
   queries_sent (new_events sample_world
      (create_relationship (sample_request\<lparr>bidirectional := False\<rparr>) ''n1'' ''n2'' ''t0''
         sample_world)) \<and>
   queries_sent (new_events sample_world
      (get_user_interactions ''alice'' None 100 sample_world)) \<noteq>
   queries_sent (new_events sample_world
      (get_user_interactions ''alice'' (Some ''VIEW'') 100 sample_world)) \<and>
   queries_sent (new_events sample_world (detect_communities ''alice'' ''louvain'' sample_world)) \<noteq>
   queries_sent (new_events sample_world
      (detect_communities ''alice'' ''label_propagation'' sample_world))"
proof -
  have "queries_sent (new_events sample_world
      (find_shortest_path ''alice'' ''dave'' 6 sample_world)) = [shortest_path_query 6]"
    "queries_sent (new_events sample_world
      (find_shortest_path ''alice'' ''dave'' 3 sample_world)) = [shortest_path_query 3]"
    by (simp_all add: find_shortest_path_def shortest_path_def execute_read_def
        ensure_driver_def connect_async_def store_fault_def log_event_def run_opaque_def
        new_events_def sample_defs Let_def)
  then show ?thesis
    by (simp add: update_user_text stamped_def bulk_create_nodes_text execute_query_text
        create_relationship_text get_user_interactions_text detect_communities_sample
        community_detection_query_def given_def sample_request_def texts_differ
        texts_differ [symmetric])
qed

text \<open>
  C3, amended. Every operation of the service sends texts of a fixed list: one text for
  \<open>create_user\<close>, \<open>get_user\<close> (none on a cache hit), \<open>delete_user\<close>,
  \<open>delete_relationship\<close>, \<open>record_interaction\<close>, \<open>recommend_connections\<close> and the
  density of a community; one of two for \<open>create_relationship\<close> (by the \<open>bidirectional\<close>
  flag), \<open>get_user_relationships\<close> and \<open>get_user_interactions\<close> (by whether a type is
  given) and \<open>detect_communities\<close> (by whether the algorithm is \<open>louvain\<close>); the three
  centrality texts for \<open>calculate_influence_score\<close>, up to three for \<open>get_statistics\<close>
  and \<open>detect_communities\<close>, the seven schema statements for \<open>initialize_schema\<close> and
  \<open>reindex\<close>. The values of the caller travel as parameters. There are four exceptions:
  \<open>update_user\<close> writes the field names of the update into the \<open>SET\<close> clause, so that
  its text depends on the names only; the path lookup writes \<open>max_hops\<close> into the text in
  decimal; \<open>bulk_create_nodes\<close> writes the label into the text; \<open>execute_query\<close> sends
  the caller's text. \<open>update_user\<close> binds \<open>id\<close> to the user id when the update has no
  field \<open>id\<close>, and to the value of that field when it has one.
\<close>

theorem query_text_and_parameters:
  "queries_sent (new_events w (create_user ud uid now w)) =
        [create_user_query] \<and>
   parameters_sent (new_events w (create_user ud uid now w)) =
        [user_params ud uid now] \<and>
   prefix (queries_sent (new_events w (get_user uid w)))
        [get_user_query] \<and>
   prefix (parameters_sent (new_events w (get_user uid w)))
        [[(''id'', PStr uid)]] \<and>
   queries_sent (new_events w (delete_user uid w)) =
        [delete_user_query] \<and>
   parameters_sent (new_events w (delete_user uid w)) =
        [[(''id'', PStr uid)]] \<and>
   queries_sent (new_events w (create_relationship rd rid id2 now w)) =
        [create_relationship_query (bidirectional rd)] \<and>
   parameters_sent (new_events w (create_relationship rd rid id2 now w)) =
        [relationship_params rd rid id2 now] \<and>
   prefix (queries_sent (new_events w (get_user_relationships uid rt w)))
        [get_user_relationships_query (given rt)] \<and>
   prefix (parameters_sent (new_events w (get_user_relationships uid rt w)))
        [relationships_params uid rt] \<and>
   queries_sent (new_events w (delete_relationship rid w)) =
        [delete_relationship_query] \<and>
   parameters_sent (new_events w (delete_relationship rid w)) =
        [[(''id'', PStr rid)]] \<and>
   queries_sent (new_events w (record_interaction idata iid now w)) =
        [record_interaction_query] \<and>
   parameters_sent (new_events w (record_interaction idata iid now w)) =
        [interaction_params idata iid now] \<and>
   queries_sent (new_events w (get_user_interactions uid it limit w)) =
        [get_user_interactions_query (given it)] \<and>
   parameters_sent (new_events w (get_user_interactions uid it limit w)) =
        [interactions_params uid it limit] \<and>
   prefix (queries_sent (new_events w (detect_communities uid algorithm w)))
        [community_detection_query algorithm, community_users_query, community_density_query] \<and>
   take 1 (parameters_sent (new_events w (detect_communities uid algorithm w))) = [[]] \<and>
   prefix (queries_sent (new_events w (calculate_community_density ms w)))
        [community_density_query] \<and>
   queries_sent (new_events w (calculate_influence_score uid w)) =
        [degree_query, betweenness_query, closeness_query] \<and>
   parameters_sent (new_events w (calculate_influence_score uid w)) =
        [[(''user_id'', PStr uid)], [(''user_id'', PStr uid)], [(''user_id'', PStr uid)]] \<and>
   queries_sent (new_events w (recommend_connections uid limit w)) =
        [recommend_connections_query] \<and>
   parameters_sent (new_events w (recommend_connections uid limit w)) =
        [[(''id'', PStr uid), (''limit'', PInt limit)]] \<and>
   prefix (queries_sent (new_events w (get_statistics w)))
        [statistics_query, node_type_query, rel_type_query] \<and>
   prefix (parameters_sent (new_events w (get_statistics w)))
        [[], [], []] \<and>
   queries_sent (new_events w (initialize_schema w)) =
        constraints @ indexes \<and>
   parameters_sent (new_events w (initialize_schema w)) =
        map (\<lambda>statement. []) (constraints @ indexes) \<and>
   queries_sent (new_events w (reindex w)) =
        constraints @ indexes \<and>
   parameters_sent (new_events w (reindex w)) =
        map (\<lambda>statement. []) (constraints @ indexes) \<and>
   queries_sent (new_events w (update_user uid ups now w)) =
        [update_user_query_head @ set_clause (map fst (stamped ups now)) @ update_user_query_tail] \<and>
   parameters_sent (new_events w (update_user uid ups now w)) =
        [update_params uid (stamped ups now)] \<and>
   (map fst ups = map fst ups' \<longrightarrow>
         queries_sent (new_events w (update_user uid ups now w)) =
         queries_sent (new_events w' (update_user uid' ups' now' w'))) \<and>
   (map_of ups ''id'' = None \<longrightarrow>
         map_of (update_params uid (stamped ups now)) ''id'' = Some (PStr uid)) \<and>
   (distinct (map fst ups) \<and> map_of ups ''id'' = Some v \<longrightarrow>
         map_of (update_params uid (stamped ups now)) ''id'' = Some v) \<and>
   queries_sent (new_events w (shortest_path src tgt max_hops w)) =
        [shortest_path_query_head @ str_int max_hops @ shortest_path_query_tail] \<and>
   parameters_sent (new_events w (shortest_path src tgt max_hops w)) =
        [[(''start_id'', PStr src), (''end_id'', PStr tgt)]] \<and>
   (queries_sent (new_events w (find_shortest_path src tgt max_hops w)) =
         [shortest_path_query max_hops] \<or>
       queries_sent (new_events w (find_shortest_path src tgt max_hops w)) =
         [shortest_path_query max_hops, path_nodes_query]) \<and>
   take 1 (parameters_sent (new_events w (find_shortest_path src tgt max_hops w))) =
        [[(''start_id'', PStr src), (''end_id'', PStr tgt)]] \<and>
   queries_sent (new_events w (bulk_create_nodes ns label w)) =
        [bulk_create_nodes_query_head @ label @ bulk_create_nodes_query_tail] \<and>
   parameters_sent (new_events w (bulk_create_nodes ns label w)) =
        [[(''nodes'', PList (map PDict ns))]] \<and>
   queries_sent (new_events w (execute_query q ps w)) =
        [q] \<and>
   parameters_sent (new_events w (execute_query q ps w)) =
        [case ps of None \<Rightarrow> [] | Some d \<Rightarrow> d]"
proof -
  have f0: "queries_sent (new_events w (create_user ud uid now w)) =
         [create_user_query]"
    using create_user_text [of w ud uid now] by blast
  have f1: "parameters_sent (new_events w (create_user ud uid now w)) =
         [user_params ud uid now]"
    using create_user_text [of w ud uid now] by blast
  have f2: "prefix (queries_sent (new_events w (get_user uid w)))
         [get_user_query]"
    using get_user_text [of w uid] by blast
  have f3: "prefix (parameters_sent (new_events w (get_user uid w)))
         [[(''id'', PStr uid)]]"
    using get_user_text [of w uid] by blast
  have f4: "queries_sent (new_events w (delete_user uid w)) =
         [delete_user_query]"
    using delete_user_text [of w uid] by blast
  have f5: "parameters_sent (new_events w (delete_user uid w)) =
         [[(''id'', PStr uid)]]"
    using delete_user_text [of w uid] by blast
  have f6: "queries_sent (new_events w (create_relationship rd rid id2 now w)) =
         [create_relationship_query (bidirectional rd)]"
    using create_relationship_text [of w rd rid id2 now] by blast
  have f7: "parameters_sent (new_events w (create_relationship rd rid id2 now w)) =
         [relationship_params rd rid id2 now]"
    using create_relationship_text [of w rd rid id2 now] by blast
  have f8: "prefix (queries_sent (new_events w (get_user_relationships uid rt w)))
         [get_user_relationships_query (given rt)]"
    using get_user_relationships_text [of w uid rt] by blast
  have f9: "prefix (parameters_sent (new_events w (get_user_relationships uid rt w)))
         [relationships_params uid rt]"
    using get_user_relationships_text [of w uid rt] by blast
  have f10: "queries_sent (new_events w (delete_relationship rid w)) =
         [delete_relationship_query]"
    using delete_relationship_text [of w rid] by blast
  have f11: "parameters_sent (new_events w (delete_relationship rid w)) =
         [[(''id'', PStr rid)]]"
    using delete_relationship_text [of w rid] by blast
  have f12: "queries_sent (new_events w (record_interaction idata iid now w)) =
         [record_interaction_query]"
    using record_interaction_text [of w idata iid now] by blast
  have f13: "parameters_sent (new_events w (record_interaction idata iid now w)) =
         [interaction_params idata iid now]"
    using record_interaction_text [of w idata iid now] by blast
  have f14: "queries_sent (new_events w (get_user_interactions uid it limit w)) =
         [get_user_interactions_query (given it)]"
    using get_user_interactions_text [of w uid it limit] by blast
  have f15: "parameters_sent (new_events w (get_user_interactions uid it limit w)) =
         [interactions_params uid it limit]"
    using get_user_interactions_text [of w uid it limit] by blast
  have f16: "prefix (queries_sent (new_events w (detect_communities uid algorithm w)))
         [community_detection_query algorithm, community_users_query, community_density_query]"
    using detect_communities_text(1) [of w uid algorithm] .
  have f17: "take 1 (parameters_sent (new_events w (detect_communities uid algorithm w))) = [[]]"
    using detect_communities_text(2) [of w uid algorithm] .
  have f18: "prefix (queries_sent (new_events w (calculate_community_density ms w)))
         [community_density_query]"
    using calculate_community_density_text [of w ms] .
  have f19: "queries_sent (new_events w (calculate_influence_score uid w)) =
         [degree_query, betweenness_query, closeness_query]"
    using calculate_influence_score_text [of w uid] by blast
  have f20: "parameters_sent (new_events w (calculate_influence_score uid w)) =
         [[(''user_id'', PStr uid)], [(''user_id'', PStr uid)], [(''user_id'', PStr uid)]]"
    using calculate_influence_score_text [of w uid] by blast
  have f21: "queries_sent (new_events w (recommend_connections uid limit w)) =
         [recommend_connections_query]"
    using recommend_connections_text [of w uid limit] by blast
  have f22: "parameters_sent (new_events w (recommend_connections uid limit w)) =
         [[(''id'', PStr uid), (''limit'', PInt limit)]]"
    using recommend_connections_text [of w uid limit] by blast
  have f23: "prefix (queries_sent (new_events w (get_statistics w)))
         [statistics_query, node_type_query, rel_type_query]"
    using get_statistics_text [of w] by blast
  have f24: "prefix (parameters_sent (new_events w (get_statistics w)))
         [[], [], []]"
    using get_statistics_text [of w] by blast
  have f25: "queries_sent (new_events w (initialize_schema w)) =
         constraints @ indexes"
    using initialize_schema_text [of w] by blast
  have f26: "parameters_sent (new_events w (initialize_schema w)) =
         map (\<lambda>statement. []) (constraints @ indexes)"
    using initialize_schema_text [of w] by blast
  have f27: "queries_sent (new_events w (reindex w)) =
         constraints @ indexes"
    using reindex_text [of w] by blast
  have f28: "parameters_sent (new_events w (reindex w)) =
         map (\<lambda>statement. []) (constraints @ indexes)"
    using reindex_text [of w] by blast
  have f29: "queries_sent (new_events w (update_user uid ups now w)) =
         [update_user_query_head @ set_clause (map fst (stamped ups now)) @ update_user_query_tail]"
    using update_user_text [of w uid ups now] unfolding update_user_query_def by blast
  have f30: "parameters_sent (new_events w (update_user uid ups now w)) =
         [update_params uid (stamped ups now)]"
    using update_user_text [of w uid ups now] unfolding update_user_query_def by blast
  have f31: "(map fst ups = map fst ups' \<longrightarrow>
          queries_sent (new_events w (update_user uid ups now w)) =
          queries_sent (new_events w' (update_user uid' ups' now' w')))"
    using stamped_keys [of ups ups' now now'] by (auto simp: update_user_text)
  have f32: "(map_of ups ''id'' = None \<longrightarrow>
          map_of (update_params uid (stamped ups now)) ''id'' = Some (PStr uid))"
    using update_params_id(1) [of ups uid now] by blast
  have f33: "(distinct (map fst ups) \<and> map_of ups ''id'' = Some v \<longrightarrow>
          map_of (update_params uid (stamped ups now)) ''id'' = Some v)"
    using update_params_id(2) [of ups v uid now] by blast
  have f34: "queries_sent (new_events w (shortest_path src tgt max_hops w)) =
         [shortest_path_query_head @ str_int max_hops @ shortest_path_query_tail]"
    using shortest_path_text [of w src tgt max_hops] unfolding shortest_path_query_def by blast
  have f35: "parameters_sent (new_events w (shortest_path src tgt max_hops w)) =
         [[(''start_id'', PStr src), (''end_id'', PStr tgt)]]"
    using shortest_path_text [of w src tgt max_hops] unfolding shortest_path_query_def by blast
  have f36: "(queries_sent (new_events w (find_shortest_path src tgt max_hops w)) =
          [shortest_path_query max_hops] \<or>
        queries_sent (new_events w (find_shortest_path src tgt max_hops w)) =
          [shortest_path_query max_hops, path_nodes_query])"
    using find_shortest_path_text(1) [of w src tgt max_hops] .
  have f37: "take 1 (parameters_sent (new_events w (find_shortest_path src tgt max_hops w))) =
         [[(''start_id'', PStr src), (''end_id'', PStr tgt)]]"
    using find_shortest_path_text(2) [of w src tgt max_hops] .
  have f38: "queries_sent (new_events w (bulk_create_nodes ns label w)) =
         [bulk_create_nodes_query_head @ label @ bulk_create_nodes_query_tail]"
    using bulk_create_nodes_text [of w ns label] unfolding bulk_create_nodes_query_def by blast
  have f39: "parameters_sent (new_events w (bulk_create_nodes ns label w)) =
         [[(''nodes'', PList (map PDict ns))]]"
    using bulk_create_nodes_text [of w ns label] unfolding bulk_create_nodes_query_def by blast
  have f40: "queries_sent (new_events w (execute_query q ps w)) =
         [q]"
    using execute_query_text [of w q ps] by blast
  have f41: "parameters_sent (new_events w (execute_query q ps w)) =
         [case ps of None \<Rightarrow> [] | Some d \<Rightarrow> d]"
    using execute_query_text [of w q ps] by blast
  show ?thesis
    by (rule conjI [OF f0 conjI [OF f1 conjI [OF f2 conjI [OF f3 conjI [OF f4 conjI [OF f5 conjI [OF f6 conjI [OF f7 conjI [OF f8 conjI [OF f9 conjI [OF f10 conjI [OF f11 conjI [OF f12 conjI [OF f13 conjI [OF f14 conjI [OF f15 conjI [OF f16 conjI [OF f17 conjI [OF f18 conjI [OF f19 conjI [OF f20 conjI [OF f21 conjI [OF f22 conjI [OF f23 conjI [OF f24 conjI [OF f25 conjI [OF f26 conjI [OF f27 conjI [OF f28 conjI [OF f29 conjI [OF f30 conjI [OF f31 conjI [OF f32 conjI [OF f33 conjI [OF f34 conjI [OF f35 conjI [OF f36 conjI [OF f37 conjI [OF f38 conjI [OF f39 conjI [OF f40 f41]]]]]]]]]]]]]]]]]]]]]]]]]]]]]]]]]]]]]]]]])
qed

theorem query_text_and_parameters_witness:
  "queries_sent (new_events sample_world
      (update_user ''alice'' [(''name'', PStr ''A'')] ''t0'' sample_world)) =
   queries_sent (new_events (sample_world\<lparr>cache := warm_cache\<rparr>)
      (update_user ''bob'' [(''name'', PStr ''B'')] ''t1'' (sample_world\<lparr>cache := warm_cache\<rparr>))) \<and>
   map_of (update_params ''alice'' (stamped [(''name'', PStr ''A'')] ''t0'')) ''id'' =
     Some (PStr ''alice'') \<and>
   map_of (update_params ''alice'' (stamped [(''id'', PStr ''mallory'')] ''t0'')) ''id'' =
     Some (PStr ''mallory'') \<and>
   queries_sent (new_events sample_world
      (get_user_interactions ''alice'' (Some ''VIEW'') 100 sample_world)) =
     [get_user_interactions_query True] \<and>
   parameters_sent (new_events sample_world
      (get_user_interactions ''alice'' (Some ''VIEW'') 100 sample_world)) =
     [[(''id'', PStr ''alice''), (''limit'', PInt 100), (''type'', PStr ''VIEW'')]]"
proof -
  have names: "map fst [(''name'', PStr ''A'')] = map fst [(''name'', PStr ''B'')]"
    by simp
  have no_id: "map_of [(''name'', PStr ''A'')] ''id'' = None"
    by simp
  have an_id: "distinct (map fst [(''id'', PStr ''mallory'')]) \<and>
      map_of [(''id'', PStr ''mallory'')] ''id'' = Some (PStr ''mallory'')"
    by simp
  note t = query_text_and_parameters [where w = sample_world and ud = sample_signup
      and uid = "''alice''" and now = "''t0''" and rd = sample_request and rid = "''n1''"
      and ?id2.0 = "''n2''" and rt = None and idata = sample_view and iid = "''i1''"
      and it = "Some ''VIEW''" and limit = 100 and algorithm = "''louvain''"
      and ms = sample_members and w' = "sample_world\<lparr>cache := warm_cache\<rparr>"
      and uid' = "''bob''" and now' = "''t1''" and src = "''alice''" and tgt = "''dave''"
      and max_hops = 6 and ns = "[]" and label = "''User''" and q = "''MATCH (n) RETURN n''"
      and ps = None]
  from t [where ups = "[(''name'', PStr ''A'')]" and ups' = "[(''name'', PStr ''B'')]"
      and v = PNone] names no_id
  have "queries_sent (new_events sample_world
      (update_user ''alice'' [(''name'', PStr ''A'')] ''t0'' sample_world)) =
   queries_sent (new_events (sample_world\<lparr>cache := warm_cache\<rparr>)
      (update_user ''bob'' [(''name'', PStr ''B'')] ''t1'' (sample_world\<lparr>cache := warm_cache\<rparr>)))"
    "map_of (update_params ''alice'' (stamped [(''name'', PStr ''A'')] ''t0'')) ''id'' =
     Some (PStr ''alice'')"
    "queries_sent (new_events sample_world
      (get_user_interactions ''alice'' (Some ''VIEW'') 100 sample_world)) =
     [get_user_interactions_query (given (Some ''VIEW''))]"
    "parameters_sent (new_events sample_world
      (get_user_interactions ''alice'' (Some ''VIEW'') 100 sample_world)) =
     [interactions_params ''alice'' (Some ''VIEW'') 100]"
    by blast+
  moreover
  from t [where ups = "[(''id'', PStr ''mallory'')]" and ups' = "[]"
      and v = "PStr ''mallory''"] an_id
  have "map_of (update_params ''alice'' (stamped [(''id'', PStr ''mallory'')] ''t0'')) ''id'' =
     Some (PStr ''mallory'')"
    by blast
  ultimately show ?thesis
    by (simp add: given_def interactions_params_def)
qed


end
